theory Spec2Isabelle
  imports Complex_Main "HOL-Library.AList"
begin

section \<open>Values and exceptions\<close>

text \<open>
  The script \<^verbatim>\<open>bnns/experiments/train_nn.py\<close> reads its hyperparameters from a JSON
  file, so a hyperparameter is any JSON value as Python sees it after loading. Python's
  \<^verbatim>\<open>bool\<close> is a subclass of \<^verbatim>\<open>int\<close>, which matters for the \<^verbatim>\<open>isinstance\<close> check
  on the checkpoint list. Floats are idealised as real numbers.
\<close>

datatype pyval =
    PNone
  | PBool bool
  | PInt int
  | PFloat real
  | PStr string
  | PList "pyval list"
  | PDict "(string \<times> pyval) list"

datatype exn =
    TypeError
  | AssertionError
  | AttributeError
  | NameError
  | ZeroDivisionError
  | StatisticsError
  | RuntimeError
  | ValueError
  | ArgumentError
  | SystemExit int

section \<open>Checkpoint normalisation and validation (lines 202-212)\<close>

text \<open>\<^verbatim>\<open>list(N_EPOCHS)\<close>: a list is copied, a string yields its characters, a dict its
  keys; every other JSON value is not iterable and raises \<^verbatim>\<open>TypeError\<close>.\<close>

fun py_list :: "pyval \<Rightarrow> exn + pyval list" where
  "py_list (PList xs) = Inr xs"
| "py_list (PStr s) = Inr (map (\<lambda>c. PStr [c]) s)"
| "py_list (PDict kvs) = Inr (map (\<lambda>kv. PStr (fst kv)) kvs)"
| "py_list PNone = Inl TypeError"
| "py_list (PBool b) = Inl TypeError"
| "py_list (PInt n) = Inl TypeError"
| "py_list (PFloat x) = Inl TypeError"

text \<open>The \<^verbatim>\<open>try\<close> of lines 202-207: \<^verbatim>\<open>TypeError\<close> is caught and gives the singleton
  list, anything else is re-raised.\<close>

definition CHECKPOINTS_of :: "pyval \<Rightarrow> exn + pyval list" where
  "CHECKPOINTS_of N =
     (case py_list N of
        Inr xs \<Rightarrow> Inr xs
      | Inl e \<Rightarrow> (if e = TypeError then Inr [N] else Inl e))"

text \<open>\<^verbatim>\<open>isinstance(n_epochs,int)\<close> holds for ints and for bools.\<close>

fun isinstance_int :: "pyval \<Rightarrow> bool" where
  "isinstance_int (PInt n) = True"
| "isinstance_int (PBool b) = True"
| "isinstance_int v = False"

text \<open>The integer an int-like value denotes in arithmetic and comparisons.\<close>

fun int_value :: "pyval \<Rightarrow> int" where
  "int_value (PInt n) = n"
| "int_value (PBool b) = (if b then 1 else 0)"
| "int_value v = 0"

text \<open>The loop of lines 210-212: the two assertions on each element, in order.\<close>

fun check_checkpoints :: "pyval list \<Rightarrow> exn + int list" where
  "check_checkpoints [] = Inr []"
| "check_checkpoints (v # vs) =
     (if \<not> isinstance_int v then Inl AssertionError
      else if \<not> (int_value v \<ge> 0) then Inl AssertionError
      else (case check_checkpoints vs of
              Inl e \<Rightarrow> Inl e
            | Inr ns \<Rightarrow> Inr (int_value v # ns)))"

definition validated_checkpoints :: "pyval \<Rightarrow> exn + int list" where
  "validated_checkpoints N =
     (case CHECKPOINTS_of N of
        Inl e \<Rightarrow> Inl e
      | Inr vs \<Rightarrow> check_checkpoints vs)"

definition nonneg_int :: "pyval \<Rightarrow> bool" where
  "nonneg_int v = (isinstance_int v \<and> int_value v \<ge> 0)"

section \<open>EarlyStopper\<close>

text \<open>Modelled from the spec: the class \<^verbatim>\<open>EarlyStopper\<close> of \<^verbatim>\<open>bnns.utils\<close>, which the
  script imports and calls but whose source is not part of the files at hand. Section 4.1
  of the specification describes it: it keeps \<open>best\<close> (initialised to plus infinity,
  written \<open>None\<close> here) and \<open>counter\<close> (initialised to 0); a call with
  \<open>value < best - delta\<close> stores the value, resets the counter and returns False;
  any other call increments the counter and returns whether \<open>counter \<ge> patience\<close>.\<close>

record EarlyStopper =
  delta :: real
  patience :: int
  best :: "real option"
  counter :: int

text \<open>Modelled from the spec: the constructor \<^verbatim>\<open>EarlyStopper(delta=..., patience=...)\<close>,
  with \<open>best\<close> at plus infinity and \<open>counter\<close> at 0.\<close>

definition EarlyStopper_init :: "real \<Rightarrow> int \<Rightarrow> EarlyStopper" where
  "EarlyStopper_init d p = \<lparr>delta = d, patience = p, best = None, counter = 0\<rparr>"

text \<open>Modelled from the spec: the test \<open>value < best - delta\<close> of section 4.1; every
  value lies below plus infinity.\<close>

definition improvement :: "EarlyStopper \<Rightarrow> real \<Rightarrow> bool" where
  "improvement es v = (case best es of None \<Rightarrow> True | Some b \<Rightarrow> v < b - delta es)"

text \<open>Modelled from the spec: one call \<^verbatim>\<open>early_stopper(value)\<close> as section 4.1 describes
  it, returning the answer and the stopper after the call.\<close>

definition early_stopper_call :: "EarlyStopper \<Rightarrow> real \<Rightarrow> bool \<times> EarlyStopper" where
  "early_stopper_call es v =
     (if improvement es v then (False, es\<lparr>best := Some v, counter := 0\<rparr>)
      else (counter es + 1 \<ge> patience es, es\<lparr>counter := counter es + 1\<rparr>))"

text \<open>The stop signals returned on a stream of values, call after call.\<close>

fun stop_signals :: "EarlyStopper \<Rightarrow> real list \<Rightarrow> bool list" where
  "stop_signals es [] = []"
| "stop_signals es (v # vs) =
     fst (early_stopper_call es v) # stop_signals (snd (early_stopper_call es v)) vs"

text \<open>Each value lies below its predecessor by more than \<open>d\<close>.\<close>

fun strictly_decreasing :: "real \<Rightarrow> real list \<Rightarrow> bool" where
  "strictly_decreasing d [] = True"
| "strictly_decreasing d [x] = True"
| "strictly_decreasing d (x # y # zs) = (y < x - d \<and> strictly_decreasing d (y # zs))"

section \<open>Tensors, collaborators and the state of a run\<close>

text \<open>A tensor is the list of its entries. The prediction of line 274 is one forward
  pass for a deterministic model and a stack of forward passes for a stochastic one.\<close>

type_synonym tensor = "real list"

datatype prediction = Point tensor | Samples "tensor list"

text \<open>Arguments handed to the metric functions of \<^verbatim>\<open>bnns.metrics\<close>; \<open>Model\<close> stands
  for the network object itself.\<close>

datatype marg = Tensor tensor | Pred prediction | Flag bool | Text string | Model

datatype warning = GridsMissing | ResultsNotSaved

datatype effect =
    Warn warning
  | OsRemove string
  | TorchSave string
  | DictToJson "(string \<times> pyval) list" string
  | PrintDict "(string \<times> pyval) list"

text \<open>How a block of statements ends: normally, by \<^verbatim>\<open>break\<close>, or by an exception; each
  with the state reached.\<close>

datatype 's outcome = Normal 's | Break 's | Raised exn 's

fun and_then :: "'s outcome \<Rightarrow> ('s \<Rightarrow> 's outcome) \<Rightarrow> 's outcome" where
  "and_then (Normal s) f = f s"
| "and_then (Break s) f = Break s"
| "and_then (Raised e s) f = Raised e s"

text \<open>The collaborators of the script, which it treats as black boxes. The type \<open>'w\<close>
  is everything they own: network parameters, optimiser state, random number generator,
  figures and the file system's view of names. \<open>NN\<close> is a forward pass (its first argument
  tells whether gradients are recorded, False inside \<^verbatim>\<open>torch.no_grad()\<close>); it may raise.
  \<open>gradient_step\<close> is \<^verbatim>\<open>loss.backward(); optimizer.step(); optimizer.zero_grad()\<close>.
  \<open>plot_nn\<close> is the plotting call together with \<^verbatim>\<open>gif.capture()\<close>. The two file
  name helpers also see the file operations made so far.
  \<open>mean_abs_difference_positive a b\<close> is the tensor arithmetic of lines 155-157,
  \<^verbatim>\<open>((a-b).abs().mean()>0).item()\<close>, as the framework computes it: the subtraction
  broadcasts its operands and raises where their shapes do not fit, and the mean is taken
  in floating-point arithmetic, so its value is the framework's to decide.\<close>

record 'w collab =
  NN :: "bool \<Rightarrow> 'w \<Rightarrow> tensor \<Rightarrow> (exn + tensor) \<times> 'w"
  loss_fn :: "tensor \<Rightarrow> tensor \<Rightarrow> real"
  mean_abs_difference_positive :: "tensor \<Rightarrow> tensor \<Rightarrow> exn + bool"
  gradient_step :: "real \<Rightarrow> 'w \<Rightarrow> 'w"
  plot_nn :: "'w \<Rightarrow> 'w"
  scalar_metric :: "string \<Rightarrow> marg list \<Rightarrow> 'w \<Rightarrow> (exn + real) \<times> 'w"
  pair_metric :: "string \<Rightarrow> marg list \<Rightarrow> 'w \<Rightarrow> (exn + real \<times> real) \<times> 'w"
  elapsed_time :: "'w \<Rightarrow> real"
  generate_json_filename :: "'w \<Rightarrow> effect list \<Rightarrow> string"
  process_for_saving :: "'w \<Rightarrow> effect list \<Rightarrow> string \<Rightarrow> string"

text \<open>The global names the loop reads and never assigns: the hyperparameters loaded into
  the module namespace (line 111), the data, the command line settings, and the
  stochasticity flag \<open>dropout\<close> of line 157. \<open>dataloader\<close> is the list of the
  mini-batches in the order in which the loader yields them, \<open>probe_X\<close> the first batch
  of ten inputs of line 154, and the two grids are the attributes of the data module,
  \<open>None\<close> where the module does not have them.\<close>

record config =
  EARLY_STOPPING :: bool
  DELTA :: real
  PATIENCE :: int
  STRIDE :: int
  N_MC_SAMPLES :: int
  MAKE_GIF :: bool
  HOW_OFTEN :: int
  VISUALIZE_DISTRIBUTION_USING_QUANTILES :: bool
  N_POSTERIOR_SAMPLES_EVALUATION :: int
  SHOW_DIAGNOSTICS :: bool
  N_EPOCHS :: pyval
  dropout :: bool
  data_is_univariate :: bool
  dataloader :: "(tensor \<times> tensor) list"
  probe_X :: tensor
  x_train :: tensor
  x_test :: tensor
  y_test :: tensor
  data_interpolary_grid :: "tensor option"
  data_extrapolary_grid :: "tensor option"
  input_json_filename :: string
  overwrite_json :: bool
  model_save_dir :: "string option"

text \<open>What the dictionary \<^verbatim>\<open>hyperparameters\<close> holds under a key: a value, or one of the
  two loss curves. Lines 290-291 store the list objects themselves and not copies of them,
  so such an entry shows every value that lines 259-260 append later.\<close>

datatype entry = Stored pyval | The_train_loss_curve | The_val_loss_curve

text \<open>The names the loop assigns. A name that may be undefined is an option. \<open>pbar_n\<close>
  is the counter \<^verbatim>\<open>pbar.n\<close> of the progress bar. \<open>effects\<close> lists the warnings, file
  operations and printed records, oldest first; a record appears there as it read when it
  was written or printed.\<close>

record 'w state =
  world :: 'w
  hyperparameters :: "(string \<times> entry) list"
  train_loss_curve :: "real list"
  val_loss_curve :: "real list"
  last_checkpoint :: int
  first_round :: bool
  decided_to_stop_early :: bool
  early_stopper :: "EarlyStopper option"
  pbar_n :: int
  interpolary_grid :: "tensor option"
  extrapolary_grid :: "tensor option"
  predictions_on_interpolary_grid :: "prediction option"
  predictions_on_extrapolary_grid :: "prediction option"
  effects :: "effect list"

section \<open>Python and library helpers\<close>

text \<open>\<^verbatim>\<open>range(n)\<close> is empty for \<open>n \<le> 0\<close>.\<close>

definition py_range :: "int \<Rightarrow> int list" where
  "py_range n = map int [0..<nat n]"

text \<open>The slice \<^verbatim>\<open>xs[i:]\<close>: a negative start counts from the end and is clamped at 0.\<close>

definition slice_from :: "int \<Rightarrow> 'a list \<Rightarrow> 'a list" where
  "slice_from i xs =
     (if i < 0 then drop (nat (int (length xs) + i)) xs else drop (nat i) xs)"

text \<open>\<^verbatim>\<open>statistics.mean\<close>, imported as \<^verbatim>\<open>avg\<close>.\<close>

definition avg :: "real list \<Rightarrow> exn + real" where
  "avg xs = (if xs = [] then Inl StatisticsError else Inr (sum_list xs / real (length xs)))"

definition startswith :: "string \<Rightarrow> string \<Rightarrow> bool" where
  "startswith s p = (take (length p) s = p)"

definition endswith :: "string \<Rightarrow> string \<Rightarrow> bool" where
  "endswith s p = (length p \<le> length s \<and> drop (length s - length p) s = p)"

text \<open>\<^verbatim>\<open>s.strip(chars)\<close> removes leading and trailing characters that occur in \<open>chars\<close>.\<close>

definition py_strip :: "string \<Rightarrow> string \<Rightarrow> string" where
  "py_strip chars s =
     rev (dropWhile (\<lambda>c. c \<in> set chars) (rev (dropWhile (\<lambda>c. c \<in> set chars) s)))"

text \<open>\<^verbatim>\<open>os.path.split(p)[1]\<close> and \<^verbatim>\<open>os.path.join(a, b)\<close> on POSIX paths.\<close>

definition path_tail :: "string \<Rightarrow> string" where
  "path_tail p = rev (takeWhile (\<lambda>c. c \<noteq> CHR ''/'') (rev p))"

definition path_join :: "string \<Rightarrow> string \<Rightarrow> string" where
  "path_join a b =
     (if startswith b ''/'' then b
      else if a = [] \<or> endswith a ''/'' then a @ b
      else a @ ''/'' @ b)"

definition set_item :: "string \<Rightarrow> entry \<Rightarrow> 'w state \<Rightarrow> 'w state" where
  "set_item k v s = s\<lparr>hyperparameters := AList.update k v (hyperparameters s)\<rparr>"

definition emit :: "effect \<Rightarrow> 'w state \<Rightarrow> 'w state" where
  "emit x s = s\<lparr>effects := effects s @ [x]\<rparr>"

definition curve_value :: "real list \<Rightarrow> pyval" where
  "curve_value xs = PList (map PFloat xs)"

text \<open>What an entry of the record reads as in state \<open>s\<close>, and the whole record as
  \<^verbatim>\<open>dict_to_json\<close> and \<^verbatim>\<open>print_dict\<close> read it.\<close>

definition content :: "'w state \<Rightarrow> entry \<Rightarrow> pyval" where
  "content s v =
     (case v of
        Stored x \<Rightarrow> x
      | The_train_loss_curve \<Rightarrow> curve_value (train_loss_curve s)
      | The_val_loss_curve \<Rightarrow> curve_value (val_loss_curve s))"

definition record_content :: "'w state \<Rightarrow> (string \<times> pyval) list" where
  "record_content s = map (\<lambda>kv. (fst kv, content s (snd kv))) (hyperparameters s)"

section \<open>The stochasticity flag (lines 153-157)\<close>

text \<open>Two forward passes on the same batch inside \<^verbatim>\<open>torch.no_grad()\<close>, the left operand
  of the subtraction first, and the framework's test on the two outputs.\<close>

definition probe_dropout :: "'w collab \<Rightarrow> config \<Rightarrow> 'w \<Rightarrow> (exn + bool) \<times> 'w" where
  "probe_dropout co cfg w =
     (case NN co False w (probe_X cfg) of
        (Inl e, w1) \<Rightarrow> (Inl e, w1)
      | (Inr a, w1) \<Rightarrow>
          (case NN co False w1 (probe_X cfg) of
             (Inl e, w2) \<Rightarrow> (Inl e, w2)
           | (Inr b, w2) \<Rightarrow> (mean_abs_difference_positive co a b, w2)))"

section \<open>The training step and the diagnostic recorder (lines 237-264)\<close>

text \<open>The loop of lines 241-242: \<open>k\<close> more forward passes, each adding
  \<^verbatim>\<open>loss_fn(NN(X),y)/N_MC_SAMPLES\<close> to the loss.\<close>

fun mc_loss ::
  "'w collab \<Rightarrow> config \<Rightarrow> tensor \<Rightarrow> tensor \<Rightarrow> nat \<Rightarrow> real \<Rightarrow> 'w \<Rightarrow> (exn + real) \<times> 'w" where
  "mc_loss co cfg X y 0 loss w = (Inr loss, w)"
| "mc_loss co cfg X y (Suc k) loss w =
     (case NN co True w X of
        (Inl e, w') \<Rightarrow> (Inl e, w')
      | (Inr out, w') \<Rightarrow>
          mc_loss co cfg X y k (loss + loss_fn co out y / real_of_int (N_MC_SAMPLES cfg)) w')"

text \<open>Lines 239-244. With \<open>dropout\<close> and no Monte-Carlo sample the loss stays the float
  \<open>0.\<close>, on which \<^verbatim>\<open>loss.backward()\<close> raises \<^verbatim>\<open>AttributeError\<close>.\<close>

definition training_loss ::
  "'w collab \<Rightarrow> config \<Rightarrow> tensor \<Rightarrow> tensor \<Rightarrow> 'w \<Rightarrow> (exn + real) \<times> 'w" where
  "training_loss co cfg X y w =
     (if dropout cfg then
        (if N_MC_SAMPLES cfg \<le> 0 then (Inl AttributeError, w)
         else mc_loss co cfg X y (nat (N_MC_SAMPLES cfg)) 0 w)
      else
        (case NN co True w X of
           (Inl e, w') \<Rightarrow> (Inl e, w')
         | (Inr out, w') \<Rightarrow> (Inr (loss_fn co out y), w')))"

text \<open>Lines 251-264, the body of the \<^verbatim>\<open>if (pbar.n+1)%HOW_OFTEN==0\<close>: the plot, the two
  appends, and the call of the early stopper on the mean of \<^verbatim>\<open>val_loss_curve[-STRIDE:]\<close>.\<close>

definition record_diagnostics ::
  "'w collab \<Rightarrow> config \<Rightarrow> real \<Rightarrow> 'w state \<Rightarrow> 'w state outcome" where
  "record_diagnostics co cfg loss s =
     (let s1 = (if data_is_univariate cfg \<and> MAKE_GIF cfg
                then s\<lparr>world := plot_nn co (world s)\<rparr> else s);
          s2 = s1\<lparr>train_loss_curve := train_loss_curve s1 @ [loss]\<rparr>
      in case NN co False (world s2) (x_test cfg) of
           (Inl e, w) \<Rightarrow> Raised e (s2\<lparr>world := w\<rparr>)
         | (Inr out, w) \<Rightarrow>
             (let s3 = s2\<lparr>world := w,
                          val_loss_curve := val_loss_curve s2 @ [loss_fn co out (y_test cfg)]\<rparr>
              in if EARLY_STOPPING cfg then
                   (case early_stopper s3 of
                      None \<Rightarrow> Raised NameError s3
                    | Some es \<Rightarrow>
                        (case avg (slice_from (- STRIDE cfg) (val_loss_curve s3)) of
                           Inl e \<Rightarrow> Raised e s3
                         | Inr a \<Rightarrow>
                             (let s4 = s3\<lparr>decided_to_stop_early := fst (early_stopper_call es a),
                                          early_stopper := Some (snd (early_stopper_call es a))\<rparr>
                              in if decided_to_stop_early s4 then Break s4 else Normal s4)))
                 else Normal s3))"

text \<open>Lines 238-264, one iteration of \<^verbatim>\<open>for X, y in dataloader\<close>.\<close>

definition batch_body ::
  "'w collab \<Rightarrow> config \<Rightarrow> tensor \<times> tensor \<Rightarrow> 'w state \<Rightarrow> 'w state outcome" where
  "batch_body co cfg b s =
     (case training_loss co cfg (fst b) (snd b) (world s) of
        (Inl e, w) \<Rightarrow> Raised e (s\<lparr>world := w\<rparr>)
      | (Inr loss, w) \<Rightarrow>
          (let s1 = s\<lparr>world := gradient_step co loss w, pbar_n := pbar_n s + 1\<rparr>
           in if HOW_OFTEN cfg = 0 then Raised ZeroDivisionError s1
              else if (pbar_n s1 + 1) mod HOW_OFTEN cfg = 0
                   then record_diagnostics co cfg loss s1
                   else Normal s1))"

text \<open>Line 237: the loop over the mini-batches; \<^verbatim>\<open>break\<close> ends it.\<close>

fun batch_loop ::
  "'w collab \<Rightarrow> config \<Rightarrow> (tensor \<times> tensor) list \<Rightarrow> 'w state \<Rightarrow> 'w state outcome" where
  "batch_loop co cfg [] s = Normal s"
| "batch_loop co cfg (b # bs) s =
     (case batch_body co cfg b s of
        Normal s' \<Rightarrow> batch_loop co cfg bs s'
      | Break s' \<Rightarrow> Normal s'
      | Raised e s' \<Rightarrow> Raised e s')"

section \<open>The epoch loop and the checkpoint loop (lines 224-266)\<close>

text \<open>Lines 236-237, the body of \<^verbatim>\<open>for e in range(n_epochs-last_checkpoint)\<close>.\<close>

definition epoch_body :: "'w collab \<Rightarrow> config \<Rightarrow> 'w state \<Rightarrow> 'w state outcome" where
  "epoch_body co cfg s =
     (if \<not> decided_to_stop_early s then batch_loop co cfg (dataloader cfg) s else Normal s)"

fun epoch_loop ::
  "'w collab \<Rightarrow> config \<Rightarrow> int list \<Rightarrow> 'w state \<Rightarrow> 'w state outcome" where
  "epoch_loop co cfg [] s = Normal s"
| "epoch_loop co cfg (e # es) s = and_then (epoch_body co cfg s) (epoch_loop co cfg es)"

text \<open>Lines 227-266: the progress bar starts at \<^verbatim>\<open>initial=last_checkpoint\<close>, the epochs
  run, and \<open>last_checkpoint\<close> becomes the boundary.\<close>

definition train_to_checkpoint ::
  "'w collab \<Rightarrow> config \<Rightarrow> int \<Rightarrow> 'w state \<Rightarrow> 'w state outcome" where
  "train_to_checkpoint co cfg n_epochs s =
     and_then
       (epoch_loop co cfg (py_range (n_epochs - last_checkpoint s))
          (s\<lparr>pbar_n := last_checkpoint s\<rparr>))
       (\<lambda>s'. Normal (s'\<lparr>last_checkpoint := n_epochs\<rparr>))"

section \<open>Evaluation and metrics (lines 274-318)\<close>

fun forward_passes ::
  "'w collab \<Rightarrow> bool \<Rightarrow> tensor \<Rightarrow> nat \<Rightarrow> 'w \<Rightarrow> (exn + tensor list) \<times> 'w" where
  "forward_passes co g points 0 w = (Inr [], w)"
| "forward_passes co g points (Suc k) w =
     (case NN co g w points of
        (Inl e, w') \<Rightarrow> (Inl e, w')
      | (Inr out, w') \<Rightarrow>
          (case forward_passes co g points k w' of
             (Inl e, w'') \<Rightarrow> (Inl e, w'')
           | (Inr outs, w'') \<Rightarrow> (Inr (out # outs), w'')))"

text \<open>Line 274, the lambda \<open>predict\<close>; \<^verbatim>\<open>torch.stack\<close> of an empty list raises
  \<^verbatim>\<open>RuntimeError\<close>.\<close>

definition predict ::
  "'w collab \<Rightarrow> config \<Rightarrow> bool \<Rightarrow> tensor \<Rightarrow> 'w \<Rightarrow> (exn + prediction) \<times> 'w" where
  "predict co cfg g points w =
     (if dropout cfg then
        (case forward_passes co g points (nat (N_POSTERIOR_SAMPLES_EVALUATION cfg)) w of
           (Inl e, w') \<Rightarrow> (Inl e, w')
         | (Inr outs, w') \<Rightarrow>
             (if outs = [] then (Inl RuntimeError, w') else (Inr (Samples outs), w')))
      else
        (case NN co g w points of
           (Inl e, w') \<Rightarrow> (Inl e, w')
         | (Inr out, w') \<Rightarrow> (Inr (Point out), w')))"

text \<open>Lines 278-281, the body of the \<^verbatim>\<open>try\<close>: a grid the data module does not have
  raises \<^verbatim>\<open>AttributeError\<close> on access.\<close>

definition load_grids :: "'w collab \<Rightarrow> config \<Rightarrow> 'w state \<Rightarrow> 'w state outcome" where
  "load_grids co cfg s =
     (case data_interpolary_grid cfg of
        None \<Rightarrow> Raised AttributeError s
      | Some g_in \<Rightarrow>
          (let s1 = s\<lparr>interpolary_grid := Some g_in\<rparr> in
           case data_extrapolary_grid cfg of
             None \<Rightarrow> Raised AttributeError s1
           | Some g_ex \<Rightarrow>
               (let s2 = s1\<lparr>extrapolary_grid := Some g_ex\<rparr> in
                case predict co cfg True g_in (world s2) of
                  (Inl e, w) \<Rightarrow> Raised e (s2\<lparr>world := w\<rparr>)
                | (Inr p_in, w) \<Rightarrow>
                    (let s3 = s2\<lparr>world := w, predictions_on_interpolary_grid := Some p_in\<rparr> in
                     case predict co cfg True g_ex (world s3) of
                       (Inl e, w') \<Rightarrow> Raised e (s3\<lparr>world := w'\<rparr>)
                     | (Inr p_ex, w') \<Rightarrow>
                         Normal (s3\<lparr>world := w',
                                    predictions_on_extrapolary_grid := Some p_ex\<rparr>)))))"

text \<open>Lines 277-285: \<^verbatim>\<open>except AttributeError\<close> warns and goes on, \<^verbatim>\<open>except: raise\<close>
  lets every other exception through.\<close>

definition try_load_grids :: "'w collab \<Rightarrow> config \<Rightarrow> 'w state \<Rightarrow> 'w state outcome" where
  "try_load_grids co cfg s =
     (case load_grids co cfg s of
        Raised e s' \<Rightarrow> (if e = AttributeError then Normal (emit (Warn GridsMissing) s')
                         else Raised e s')
      | r \<Rightarrow> r)"

text \<open>Lines 288-291. \<^verbatim>\<open>len(dataloader)\<close> is the number of mini-batches. The two
  curves are stored as the list objects they are.\<close>

definition record_run :: "'w collab \<Rightarrow> config \<Rightarrow> 'w state \<Rightarrow> 'w state outcome" where
  "record_run co cfg s =
     (if dataloader cfg = [] then Raised ZeroDivisionError s
      else Normal
        (set_item ''train_loss_curve'' The_train_loss_curve
        (set_item ''val_loss_curve'' The_val_loss_curve
        (set_item ''compute_time'' (Stored (PFloat (elapsed_time co (world s))))
        (set_item ''n_epochs''
           (Stored (PFloat (real_of_int (pbar_n s) / real (length (dataloader cfg))))) s)))))"

text \<open>An assignment \<^verbatim>\<open>hyperparameters[key] = f(args)\<close> and a tuple assignment
  \<^verbatim>\<open>hyperparameters[key1], hyperparameters[key2] = f(args)\<close>.\<close>

definition assign_metric ::
  "'w collab \<Rightarrow> string \<Rightarrow> string \<Rightarrow> marg list \<Rightarrow> 'w state \<Rightarrow> 'w state outcome" where
  "assign_metric co key f args s =
     (case scalar_metric co f args (world s) of
        (Inl e, w) \<Rightarrow> Raised e (s\<lparr>world := w\<rparr>)
      | (Inr v, w) \<Rightarrow> Normal (set_item key (Stored (PFloat v)) (s\<lparr>world := w\<rparr>)))"

definition assign_metric_pair ::
  "'w collab \<Rightarrow> string \<Rightarrow> string \<Rightarrow> string \<Rightarrow> marg list \<Rightarrow> 'w state \<Rightarrow> 'w state outcome" where
  "assign_metric_pair co key1 key2 f args s =
     (case pair_metric co f args (world s) of
        (Inl e, w) \<Rightarrow> Raised e (s\<lparr>world := w\<rparr>)
      | (Inr v, w) \<Rightarrow>
          Normal (set_item key2 (Stored (PFloat (snd v)))
                    (set_item key1 (Stored (PFloat (fst v))) (s\<lparr>world := w\<rparr>))))"

definition tag_of :: "bool \<Rightarrow> string" where
  "tag_of use_quantiles = (if use_quantiles then ''quantile'' else ''pm2_std'')"

text \<open>Lines 307-310, the body of the inner \<^verbatim>\<open>try\<close>: reading a name that was never assigned
  raises \<^verbatim>\<open>NameError\<close>.\<close>

definition grid_metrics ::
  "'w collab \<Rightarrow> config \<Rightarrow> bool \<Rightarrow> bool \<Rightarrow> 'w state \<Rightarrow> 'w state outcome" where
  "grid_metrics co cfg use_quantiles show s =
     (case (predictions_on_extrapolary_grid s, extrapolary_grid s) of
        (Some p_ex, Some g_ex) \<Rightarrow>
          and_then
            (assign_metric_pair co
               (''METRIC_extrapolation_uncertainty_vs_proximity_slope_'' @ tag_of use_quantiles)
               (''METRIC_uncertainty_vs_proximity_cor_'' @ tag_of use_quantiles)
               ''uncertainty_vs_proximity''
               [Pred p_ex, Flag use_quantiles, Tensor g_ex, Tensor (x_train cfg), Flag show,
                Text ''Uncertainty vs Proximity to Data Outside the Region of Interpolation'',
                Flag (SHOW_DIAGNOSTICS cfg)] s)
            (\<lambda>s1.
               (case (predictions_on_interpolary_grid s1, interpolary_grid s1) of
                  (Some p_in, Some g_in) \<Rightarrow>
                    and_then
                      (assign_metric_pair co
                         (''METRIC_interpolation_uncertainty_vs_proximity_slope_'' @ tag_of use_quantiles)
                         (''METRIC_uncertainty_vs_proximity_cor_'' @ tag_of use_quantiles)
                         ''uncertainty_vs_proximity''
                         [Pred p_in, Flag use_quantiles, Tensor g_in, Tensor (x_train cfg), Flag show,
                          Text ''Uncertainty vs Proximity to Data Within the Region of Interpolation'',
                          Flag (SHOW_DIAGNOSTICS cfg)] s1)
                      (\<lambda>s2.
                         and_then
                           (assign_metric co
                              (''METRIC_extrapolation_uncertainty_spread_'' @ tag_of use_quantiles)
                              ''uncertainty_spread'' [Pred p_ex, Flag use_quantiles] s2)
                           (assign_metric co
                              (''METRIC_interpolation_uncertainty_spread_'' @ tag_of use_quantiles)
                              ''uncertainty_spread'' [Pred p_in, Flag use_quantiles]))
                | _ \<Rightarrow> Raised NameError s1))
      | _ \<Rightarrow> Raised NameError s)"

text \<open>Lines 306-314: \<^verbatim>\<open>except NameError: pass\<close>, \<^verbatim>\<open>except: raise\<close>.\<close>

definition try_grid_metrics ::
  "'w collab \<Rightarrow> config \<Rightarrow> bool \<Rightarrow> bool \<Rightarrow> 'w state \<Rightarrow> 'w state outcome" where
  "try_grid_metrics co cfg use_quantiles show s =
     (case grid_metrics co cfg use_quantiles show s of
        Raised e s' \<Rightarrow> (if e = NameError then Normal s' else Raised e s')
      | r \<Rightarrow> r)"

text \<open>Lines 303-314, one iteration of \<^verbatim>\<open>for use_quantiles in (True,False)\<close>.\<close>

definition uncertainty_metrics ::
  "'w collab \<Rightarrow> config \<Rightarrow> prediction \<Rightarrow> bool \<Rightarrow> 'w state \<Rightarrow> 'w state outcome" where
  "uncertainty_metrics co cfg predictions use_quantiles s =
     (let show = (SHOW_DIAGNOSTICS cfg
                  \<and> (use_quantiles = VISUALIZE_DISTRIBUTION_USING_QUANTILES cfg))
      in and_then
           (assign_metric_pair co
              (''METRIC_uncertainty_vs_accuracy_slope_'' @ tag_of use_quantiles)
              (''METRIC_uncertainty_vs_accuracy_cor_'' @ tag_of use_quantiles)
              ''uncertainty_vs_accuracy''
              [Pred predictions, Tensor (y_test cfg),
               Flag (VISUALIZE_DISTRIBUTION_USING_QUANTILES cfg), Flag use_quantiles, Flag show,
               Flag (SHOW_DIAGNOSTICS cfg)] s)
           (try_grid_metrics co cfg use_quantiles show))"

text \<open>Lines 293-301: the nine assignments that open the stochastic branch, in order, as
  key, function and extra arguments.\<close>

definition stochastic_metrics :: "config \<Rightarrow> (string \<times> string \<times> marg list) list" where
  "stochastic_metrics cfg =
     [(''METRIC_rmse_of_median'', ''rmse_of_median'', []),
      (''METRIC_rmse_of_mean'', ''rmse_of_mean'', []),
      (''METRIC_mae_of_median'', ''mae_of_median'', []),
      (''METRIC_mae_of_mean'', ''mae_of_mean'', []),
      (''METRIC_max_norm_of_median'', ''max_norm_of_median'', []),
      (''METRIC_max_norm_of_mean'', ''max_norm_of_mean'', []),
      (''METRIC_median_energy_score'', ''energy_scores'', []),
      (''METRIC_coverage'', ''aggregate_covarge'',
         [Flag (VISUALIZE_DISTRIBUTION_USING_QUANTILES cfg)]),
      (''METRIC_median_avg_inverval_score'', ''avg_interval_score_of_response_features'',
         [Flag (VISUALIZE_DISTRIBUTION_USING_QUANTILES cfg)])]"

fun assign_metrics ::
  "'w collab \<Rightarrow> marg list \<Rightarrow> (string \<times> string \<times> marg list) list \<Rightarrow> 'w state \<Rightarrow> 'w state outcome" where
  "assign_metrics co args [] s = Normal s"
| "assign_metrics co args (m # ms) s =
     and_then (assign_metric co (fst m) (fst (snd m)) (args @ snd (snd m)) s)
       (assign_metrics co args ms)"

text \<open>Lines 316-318, the deterministic branch.\<close>

definition deterministic_metrics :: "(string \<times> string \<times> marg list) list" where
  "deterministic_metrics =
     [(''METRIC_rmse'', ''rmse'', []),
      (''METRIC_mae'', ''mae'', []),
      (''METRIC_max_norm'', ''max_norm'', [])]"

text \<open>Lines 292-318.\<close>

definition compute_metrics ::
  "'w collab \<Rightarrow> config \<Rightarrow> prediction \<Rightarrow> 'w state \<Rightarrow> 'w state outcome" where
  "compute_metrics co cfg predictions s =
     (if dropout cfg then
        and_then
          (assign_metrics co [Pred predictions, Tensor (y_test cfg)] (stochastic_metrics cfg) s)
          (\<lambda>s1. and_then (uncertainty_metrics co cfg predictions True s1)
                   (uncertainty_metrics co cfg predictions False))
      else
        assign_metrics co [Model, Tensor (x_test cfg), Tensor (y_test cfg)] deterministic_metrics s)"

text \<open>Lines 274-318.\<close>

definition evaluate :: "'w collab \<Rightarrow> config \<Rightarrow> 'w state \<Rightarrow> 'w state outcome" where
  "evaluate co cfg s =
     (case predict co cfg False (x_test cfg) (world s) of
        (Inl e, w) \<Rightarrow> Raised e (s\<lparr>world := w\<rparr>)
      | (Inr predictions, w) \<Rightarrow>
          and_then (try_load_grids co cfg (s\<lparr>world := w\<rparr>))
            (\<lambda>s1. and_then (record_run co cfg s1) (compute_metrics co cfg predictions)))"

section \<open>Persistence and display (lines 321-353)\<close>

definition save_results :: "'w collab \<Rightarrow> config \<Rightarrow> 'w state \<Rightarrow> 'w state" where
  "save_results co cfg s =
     (if startswith (input_json_filename cfg) ''demo'' then emit (Warn ResultsNotSaved) s
      else
        (let output_json_filename =
               (if overwrite_json cfg then input_json_filename cfg
                else generate_json_filename co (world s) (effects s));
             s1 = (if first_round s then
                     (if overwrite_json cfg
                      then emit (OsRemove (input_json_filename cfg)) (s\<lparr>first_round := False\<rparr>)
                      else s\<lparr>first_round := False\<rparr>)
                   else s);
             output_json_filename =
               process_for_saving co (world s1) (effects s1) output_json_filename;
             s2 = set_item ''filname'' (Stored (PStr output_json_filename)) s1;
             s3 = (case model_save_dir cfg of
                     None \<Rightarrow> s2
                   | Some dir \<Rightarrow>
                       (let model_save_path =
                              path_join dir
                                (path_tail (py_strip ''.json'' output_json_filename) @ ''.pth'')
                        in emit (TorchSave model_save_path)
                             (set_item ''MODEL_SAVE_PATH'' (Stored (PStr model_save_path)) s2)))
         in emit (DictToJson (record_content s3) output_json_filename) s3))"

definition display :: "config \<Rightarrow> 'w state \<Rightarrow> 'w state" where
  "display cfg s = (if SHOW_DIAGNOSTICS cfg then emit (PrintDict (record_content s)) s else s)"

section \<open>The checkpoint loop and the whole run\<close>

text \<open>Lines 226-353, the body of the \<^verbatim>\<open>if not decided_to_stop_early\<close> of line 225.\<close>

definition checkpoint_body ::
  "'w collab \<Rightarrow> config \<Rightarrow> int \<Rightarrow> 'w state \<Rightarrow> 'w state outcome" where
  "checkpoint_body co cfg n_epochs s =
     and_then (train_to_checkpoint co cfg n_epochs s)
       (\<lambda>s1. and_then (evaluate co cfg s1)
                (\<lambda>s2. Normal (display cfg (save_results co cfg s2))))"

text \<open>Lines 224-225, \<^verbatim>\<open>for n_epochs in CHECKPOINTS\<close>.\<close>

fun checkpoint_loop ::
  "'w collab \<Rightarrow> config \<Rightarrow> int list \<Rightarrow> 'w state \<Rightarrow> 'w state outcome" where
  "checkpoint_loop co cfg [] s = Normal s"
| "checkpoint_loop co cfg (n_epochs # rest) s =
     (if \<not> decided_to_stop_early s
      then and_then (checkpoint_body co cfg n_epochs s) (checkpoint_loop co cfg rest)
      else checkpoint_loop co cfg rest s)"

text \<open>Lines 214-222.\<close>

definition initial_state :: "config \<Rightarrow> (string \<times> pyval) list \<Rightarrow> 'w \<Rightarrow> 'w state" where
  "initial_state cfg hyper w =
     \<lparr>world = w,
      hyperparameters = map (\<lambda>kv. (fst kv, Stored (snd kv))) hyper,
      train_loss_curve = [],
      val_loss_curve = [],
      last_checkpoint = 0,
      first_round = True,
      decided_to_stop_early = False,
      early_stopper =
        (if EARLY_STOPPING cfg then Some (EarlyStopper_init (DELTA cfg) (PATIENCE cfg))
         else None),
      pbar_n = 0,
      interpolary_grid = None,
      extrapolary_grid = None,
      predictions_on_interpolary_grid = None,
      predictions_on_extrapolary_grid = None,
      effects = []\<rparr>"

text \<open>The script from line 153 to line 353: the probe that sets \<open>dropout\<close>, the plot of
  the initial model, the checkpoint list and its assertions, and the checkpoint loop. The
  dictionary \<open>hyper\<close> is the loaded JSON file. The closing plots of lines 355-380 are left
  out.\<close>

definition train_nn ::
  "'w collab \<Rightarrow> config \<Rightarrow> (string \<times> pyval) list \<Rightarrow> 'w \<Rightarrow> 'w state outcome" where
  "train_nn co cfg0 hyper w =
     (case probe_dropout co cfg0 w of
        (Inl e, w1) \<Rightarrow> Raised e (initial_state cfg0 hyper w1)
      | (Inr flag, w1) \<Rightarrow>
          (let cfg = cfg0\<lparr>dropout := flag\<rparr>;
               w2 = (if data_is_univariate cfg \<and> MAKE_GIF cfg then plot_nn co w1 else w1)
           in case validated_checkpoints (N_EPOCHS cfg) of
                Inl e \<Rightarrow> Raised e (initial_state cfg hyper w2)
              | Inr CHECKPOINTS \<Rightarrow>
                  checkpoint_loop co cfg CHECKPOINTS (initial_state cfg hyper w2)))"

section \<open>The command line (lines 77-103)\<close>

text \<open>The part of \<^verbatim>\<open>argparse\<close> the script uses, as CPython 3.11 implements it: options
  that take a string, of which some are required, \<^verbatim>\<open>BooleanOptionalAction\<close> options with
  their \<^verbatim>\<open>--no-\<close> form, and the help option every parser has. \<^verbatim>\<open>add_argument\<close> only
  registers an option; it never looks at the command line. \<^verbatim>\<open>parse_args\<close> reads the
  command line and leaves through \<^verbatim>\<open>SystemExit\<close>, with status 2 on a usage error (a
  missing required option among them) and with status 0 after the help. Abbreviated
  options, the \<^verbatim>\<open>--opt=value\<close> form, tokens that look like negative numbers and the
  separator \<^verbatim>\<open>--\<close> are read as \<^verbatim>\<open>argparse\<close> reads them. Tokens are taken to be ASCII
  strings without line breaks, and the messages that \<^verbatim>\<open>argparse\<close> itself prints are left
  out.\<close>

datatype optspec = StrOpt string bool | BoolOpt string

fun option_name :: "optspec \<Rightarrow> string" where
  "option_name (StrOpt name required) = name"
| "option_name (BoolOpt name) = name"

fun is_required :: "optspec \<Rightarrow> bool" where
  "is_required (StrOpt name required) = required"
| "is_required (BoolOpt name) = False"

text \<open>What an option does when it is met: print the help and exit, store the string that
  follows, or store a truth value.\<close>

datatype action = Help | Store string | StoreBool string

text \<open>The option strings an \<^verbatim>\<open>add_argument\<close> call registers:
  \<^verbatim>\<open>BooleanOptionalAction\<close> adds the \<^verbatim>\<open>--no-\<close> form. A new parser knows \<^verbatim>\<open>-h\<close> and
  \<^verbatim>\<open>--help\<close>.\<close>

fun option_strings :: "optspec \<Rightarrow> (string \<times> action) list" where
  "option_strings (StrOpt name required) = [(''--'' @ name, Store name)]"
| "option_strings (BoolOpt name) =
     [(''--'' @ name, StoreBool name), (''--no-'' @ name, StoreBool name)]"

definition option_table :: "optspec list \<Rightarrow> (string \<times> action) list" where
  "option_table parser =
     [(''-h'', Help), (''--help'', Help)] @ concat (map option_strings parser)"

text \<open>The attribute of the namespace an option writes: its name without leading dashes
  and with every other dash replaced by an underscore.\<close>

definition dest_name :: "string \<Rightarrow> string" where
  "dest_name name =
     map (\<lambda>c. if c = CHR ''-'' then CHR ''_'' else c) (dropWhile (\<lambda>c. c = CHR ''-'') name)"

definition dest :: "optspec \<Rightarrow> string" where
  "dest spec = dest_name (option_name spec)"

text \<open>\<^verbatim>\<open>add_argument\<close> refuses an option without a name for its attribute and an option
  string that is already taken.\<close>

definition add_argument :: "optspec list \<Rightarrow> optspec \<Rightarrow> exn + optspec list" where
  "add_argument parser spec =
     (if dest spec = [] then Inl ValueError
      else if list_ex (\<lambda>k. k \<in> set (map fst (option_table parser)))
                (map fst (option_strings spec))
           then Inl ArgumentError
      else Inr (parser @ [spec]))"

text \<open>How \<^verbatim>\<open>parse_args\<close> reads one token of the command line: as an argument, as the
  separator \<^verbatim>\<open>--\<close>, or as an option. An option is known (it has an action) or not; it
  comes with the option string it stands for and, where the token carries one, with an
  explicit argument, marked True when it was attached by \<^verbatim>\<open>=\<close>.\<close>

datatype arg_class =
    Argument
  | Separator
  | Option "action option" string "(bool \<times> string) option"

definition before_eq :: "string \<Rightarrow> string" where
  "before_eq s = takeWhile (\<lambda>c. c \<noteq> CHR ''='') s"

definition after_eq :: "string \<Rightarrow> string option" where
  "after_eq s =
     (if CHR ''='' \<in> set s then Some (tl (dropWhile (\<lambda>c. c \<noteq> CHR ''='') s)) else None)"

definition is_digit :: "char \<Rightarrow> bool" where
  "is_digit c = (c \<in> set ''0123456789'')"

text \<open>The pattern \<^verbatim>\<open>^-\d+$|^-\d*\.\d+$\<close> of a token that looks like a negative number.\<close>

definition negative_number :: "string \<Rightarrow> bool" where
  "negative_number s =
     (case s of
        [] \<Rightarrow> False
      | c # r \<Rightarrow>
          c = CHR ''-''
          \<and> ((r \<noteq> [] \<and> list_all is_digit r)
               \<or> (case dropWhile is_digit r of
                     [] \<Rightarrow> False
                   | d # f \<Rightarrow> d = CHR ''.'' \<and> f \<noteq> [] \<and> list_all is_digit f)))"

text \<open>The options a token may abbreviate. A token with two dashes stands for every option
  string that begins with the part before its \<^verbatim>\<open>=\<close>; a token with one dash stands for
  the short option made of its first two characters, the rest being an explicit argument,
  and for every option string that begins with the whole token.\<close>

definition option_tuples :: "(string \<times> action) list \<Rightarrow> string \<Rightarrow> arg_class list" where
  "option_tuples tab arg =
     (if startswith arg ''--'' then
        map (\<lambda>ka. Option (Some (snd ka)) (fst ka) (map_option (Pair True) (after_eq arg)))
          (filter (\<lambda>ka. startswith (fst ka) (before_eq arg)) tab)
      else
        concat (map (\<lambda>ka. if fst ka = take 2 arg
                            then [Option (Some (snd ka)) (fst ka) (Some (False, drop 2 arg))]
                            else if startswith (fst ka) arg
                                 then [Option (Some (snd ka)) (fst ka) None]
                                 else []) tab))"

text \<open>\<^verbatim>\<open>_parse_optional\<close>: an abbreviation that fits several option strings is a usage
  error.\<close>

definition parse_optional :: "(string \<times> action) list \<Rightarrow> string \<Rightarrow> exn + arg_class" where
  "parse_optional tab arg =
     (if arg = [] then Inr Argument
      else if hd arg \<noteq> CHR ''-'' then Inr Argument
      else (case map_of tab arg of
              Some a \<Rightarrow> Inr (Option (Some a) arg None)
            | None \<Rightarrow>
                if length arg = 1 then Inr Argument
                else (case (after_eq arg, map_of tab (before_eq arg)) of
                        (Some e, Some a) \<Rightarrow> Inr (Option (Some a) (before_eq arg) (Some (True, e)))
                      | _ \<Rightarrow>
                          (case option_tuples tab arg of
                             [] \<Rightarrow> if negative_number arg \<or> CHR '' '' \<in> set arg
                                   then Inr Argument else Inr (Option None arg None)
                           | [t] \<Rightarrow> Inr t
                           | _ \<Rightarrow> Inl (SystemExit 2)))))"

text \<open>The first pass over the command line: every token after the first \<^verbatim>\<open>--\<close> is an
  argument.\<close>

fun classify :: "(string \<times> action) list \<Rightarrow> string list \<Rightarrow> exn + arg_class list" where
  "classify tab [] = Inr []"
| "classify tab (arg # rest) =
     (if arg = ''--'' then Inr (Separator # map (\<lambda>x. Argument) rest)
      else (case parse_optional tab arg of
              Inl e \<Rightarrow> Inl e
            | Inr c \<Rightarrow>
                (case classify tab rest of
                   Inl e \<Rightarrow> Inl e
                 | Inr cs \<Rightarrow> Inr (c # cs))))"

text \<open>What follows a short option inside its token is read as further short options. The
  help option is the only short one, so the outcome is an exit status: 0 once the help is
  printed, 2 where the rest of the token is refused before that.\<close>

fun short_chain :: "(string \<times> action) list \<Rightarrow> string \<Rightarrow> int" where
  "short_chain tab [] = 0"
| "short_chain tab (c # r) =
     (if c = CHR ''-'' then 2
      else (case map_of tab [CHR ''-'', c] of
              None \<Rightarrow> 0
            | Some a \<Rightarrow>
                (case r of
                   [] \<Rightarrow> 0
                 | d # r' \<Rightarrow> if d = CHR ''='' then 2 else short_chain tab r)))"

text \<open>The second pass: the options take their actions from left to right. The result is
  the namespace, the tokens nobody consumed, and the names of the options met. An option
  that stores a string takes the explicit argument or else the next token, which must be
  an argument; the help option exits with status 0 as soon as it is met.\<close>

fun consume ::
  "(string \<times> action) list \<Rightarrow> (string \<times> arg_class) list \<Rightarrow> (string \<times> pyval) list \<Rightarrow>
   string list \<Rightarrow> string list \<Rightarrow> exn + (string \<times> pyval) list \<times> string list \<times> string list" where
  "consume tab [] ns extras seen = Inr (ns, extras, seen)"
| "consume tab (item # rest) ns extras seen =
     (case snd item of
        Argument \<Rightarrow> consume tab rest ns (extras @ [fst item]) seen
      | Separator \<Rightarrow> consume tab rest ns (extras @ [fst item]) seen
      | Option None k explicit \<Rightarrow> consume tab rest ns (extras @ [fst item]) seen
      | Option (Some (Store name)) k explicit \<Rightarrow>
          (case explicit of
             Some e \<Rightarrow>
               consume tab rest (AList.update (dest_name name) (PStr (snd e)) ns) extras
                 (name # seen)
           | None \<Rightarrow>
               (case rest of
                  [] \<Rightarrow> Inl (SystemExit 2)
                | nxt # rest' \<Rightarrow>
                    if snd nxt = Argument
                    then consume tab rest' (AList.update (dest_name name) (PStr (fst nxt)) ns)
                           extras (name # seen)
                    else Inl (SystemExit 2)))
      | Option (Some Help) k explicit \<Rightarrow>
          (case explicit of
             None \<Rightarrow> Inl (SystemExit 0)
           | Some e \<Rightarrow>
               if \<not> startswith k ''--'' \<and> snd e \<noteq> [] \<and> \<not> fst e
               then Inl (SystemExit (short_chain tab (snd e)))
               else Inl (SystemExit 2))
      | Option (Some (StoreBool name)) k explicit \<Rightarrow>
          (case explicit of
             None \<Rightarrow>
               consume tab rest
                 (AList.update (dest_name name) (PBool (\<not> startswith k ''--no-'')) ns) extras
                 (name # seen)
           | Some e \<Rightarrow> Inl (SystemExit 2)))"

text \<open>\<^verbatim>\<open>parse_args\<close>: both passes, then the check that every required option was met,
  then the check that no token was left over. Every attribute starts as \<^verbatim>\<open>None\<close>.\<close>

definition parse_args :: "optspec list \<Rightarrow> string list \<Rightarrow> exn + (string \<times> pyval) list" where
  "parse_args parser argv =
     (case classify (option_table parser) argv of
        Inl e \<Rightarrow> Inl e
      | Inr cs \<Rightarrow>
          (case consume (option_table parser) (zip argv cs)
                  (map (\<lambda>spec. (dest spec, PNone)) parser) [] [] of
             Inl e \<Rightarrow> Inl e
           | Inr r \<Rightarrow>
               if list_ex (\<lambda>spec. is_required spec \<and> option_name spec \<notin> set (snd (snd r))) parser
               then Inl (SystemExit 2)
               else if fst (snd r) \<noteq> [] then Inl (SystemExit 2)
               else Inr (fst r)))"

record arguments =
  arg_input_json_filename :: string
  arg_model_save_dir :: "string option"
  arg_final_test :: bool
  arg_overwrite_json :: bool

definition hint :: "string list" where
  "hint = ['''', ''    Hint: try `python train_nn.py --json demo_nn`'', '''']"

definition arguments_of :: "(string \<times> pyval) list \<Rightarrow> arguments" where
  "arguments_of args =
     \<lparr>arg_input_json_filename =
        (case map_of args ''json'' of
           Some (PStr j) \<Rightarrow> (if endswith j ''.json'' then j else j @ ''.json'')
         | _ \<Rightarrow> []),
      arg_model_save_dir =
        (case map_of args ''model_save_dir'' of Some (PStr d) \<Rightarrow> Some d | _ \<Rightarrow> None),
      arg_final_test = (map_of args ''final_test'' \<noteq> Some PNone),
      arg_overwrite_json = (map_of args ''overwrite_json'' \<noteq> Some PNone)\<rparr>"

text \<open>Lines 77-103. The first component is what \<^verbatim>\<open>print\<close> wrote to the console;
  \<open>interactive\<close> is \<^verbatim>\<open>hasattr(sys,"ps1")\<close> and \<open>argv\<close> the command line after the
  script's name.\<close>

definition command_line :: "bool \<Rightarrow> string list \<Rightarrow> string list \<times> (exn + arguments)" where
  "command_line interactive argv =
     (if interactive then
        ([], Inr \<lparr>arg_input_json_filename = ''demo_nn.json'', arg_model_save_dir = None,
                  arg_final_test = False, arg_overwrite_json = False\<rparr>)
      else
        (case add_argument [] (StrOpt ''json'' True) of
           Inl e \<Rightarrow> (hint, Inl e)
         | Inr parser1 \<Rightarrow>
             (case add_argument parser1 (StrOpt ''model_save_dir'' False) of
                Inl e \<Rightarrow> ([], Inl e)
              | Inr parser2 \<Rightarrow>
                  (case add_argument parser2 (BoolOpt ''final_test'') of
                     Inl e \<Rightarrow> ([], Inl e)
                   | Inr parser3 \<Rightarrow>
                       (case add_argument parser3 (BoolOpt ''overwrite_json'') of
                          Inl e \<Rightarrow> ([], Inl e)
                        | Inr parser4 \<Rightarrow>
                            (case parse_args parser4 argv of
                               Inl e \<Rightarrow> ([], Inl e)
                             | Inr args \<Rightarrow> ([], Inr (arguments_of args))))))))"

section \<open>Notions used in the statements\<close>

text \<open>The number of iterations of the loop of line 228: the length of the range it runs
  over, at a boundary reached in state \<open>s\<close>.\<close>

definition epoch_iterations :: "int \<Rightarrow> 'w state \<Rightarrow> nat" where
  "epoch_iterations n_epochs s = length (py_range (n_epochs - last_checkpoint s))"

text \<open>The state in which a block ends, however it ends.\<close>

fun state_of :: "'s outcome \<Rightarrow> 's" where
  "state_of (Normal s) = s"
| "state_of (Break s) = s"
| "state_of (Raised e s) = s"

text \<open>The two loss curves have the same length.\<close>

definition curves_aligned :: "'w state \<Rightarrow> bool" where
  "curves_aligned s = (length (train_loss_curve s) = length (val_loss_curve s))"

text \<open>A record written by \<^verbatim>\<open>dict_to_json\<close> holds two loss curves of the same length.\<close>

fun record_aligned :: "effect \<Rightarrow> bool" where
  "record_aligned (DictToJson h f) =
     (case (map_of h ''train_loss_curve'', map_of h ''val_loss_curve'') of
        (Some (PList a), Some (PList b)) \<Rightarrow> length a = length b
      | _ \<Rightarrow> False)"
| "record_aligned x = True"

text \<open>Every record written so far is aligned; and, in addition, the curves are aligned
  now.\<close>

definition records_aligned :: "'w state \<Rightarrow> bool" where
  "records_aligned s = list_all record_aligned (effects s)"

definition run_aligned :: "'w state \<Rightarrow> bool" where
  "run_aligned s = (curves_aligned s \<and> records_aligned s)"

text \<open>The keys of the hyperparameter record.\<close>

definition keys :: "'w state \<Rightarrow> string set" where
  "keys s = fst ` set (hyperparameters s)"

text \<open>\<open>P\<close> holds where a block ends normally or by \<^verbatim>\<open>break\<close>, \<open>Q\<close> where it ends by
  an exception.\<close>

fun outcome_ok :: "('s \<Rightarrow> bool) \<Rightarrow> ('s \<Rightarrow> bool) \<Rightarrow> 's outcome \<Rightarrow> bool" where
  "outcome_ok P Q (Normal s) = P s"
| "outcome_ok P Q (Break s) = P s"
| "outcome_ok P Q (Raised e s) = Q s"

text \<open>A part \<open>params\<close> of the world (the network's parameters, say) that only the
  gradient step may change: forward passes, plots and metrics leave it alone.\<close>

definition keeps :: "('w \<Rightarrow> 'p) \<Rightarrow> 'w collab \<Rightarrow> bool" where
  "keeps params co =
     ((\<forall>g w x. params (snd (NN co g w x)) = params w)
      \<and> (\<forall>w. params (plot_nn co w) = params w)
      \<and> (\<forall>f args w. params (snd (scalar_metric co f args w)) = params w)
      \<and> (\<forall>f args w. params (snd (pair_metric co f args w)) = params w))"

text \<open>From \<open>s\<close> to \<open>s'\<close> nothing was trained and nothing recorded: the parameters,
  the loss curves, the stop-early flag, the early stopper and the counters are the same,
  and the effects grew by exactly \<open>xs\<close>.\<close>

definition untouched :: "('w \<Rightarrow> 'p) \<Rightarrow> effect list \<Rightarrow> 'w state \<Rightarrow> 'w state \<Rightarrow> bool" where
  "untouched params xs s s' =
     (params (world s') = params (world s)
      \<and> train_loss_curve s' = train_loss_curve s
      \<and> val_loss_curve s' = val_loss_curve s
      \<and> decided_to_stop_early s' = decided_to_stop_early s
      \<and> early_stopper s' = early_stopper s
      \<and> last_checkpoint s' = last_checkpoint s
      \<and> pbar_n s' = pbar_n s
      \<and> first_round s' = first_round s
      \<and> effects s' = effects s @ xs)"

text \<open>The hyperparameter record holds the two loss curves.\<close>

definition curves_recorded :: "'w state \<Rightarrow> bool" where
  "curves_recorded s =
     (map_of (hyperparameters s) ''train_loss_curve'' = Some The_train_loss_curve
      \<and> map_of (hyperparameters s) ''val_loss_curve'' = Some The_val_loss_curve)"

text \<open>The keys assigned per uncertainty representation: by line 305, and by the grid
  metrics of lines 307-310.\<close>

definition accuracy_keys :: "bool \<Rightarrow> string set" where
  "accuracy_keys use_quantiles =
     {''METRIC_uncertainty_vs_accuracy_slope_'' @ tag_of use_quantiles,
      ''METRIC_uncertainty_vs_accuracy_cor_'' @ tag_of use_quantiles}"

definition grid_keys :: "bool \<Rightarrow> string set" where
  "grid_keys use_quantiles =
     {''METRIC_extrapolation_uncertainty_vs_proximity_slope_'' @ tag_of use_quantiles,
      ''METRIC_uncertainty_vs_proximity_cor_'' @ tag_of use_quantiles,
      ''METRIC_interpolation_uncertainty_vs_proximity_slope_'' @ tag_of use_quantiles,
      ''METRIC_extrapolation_uncertainty_spread_'' @ tag_of use_quantiles,
      ''METRIC_interpolation_uncertainty_spread_'' @ tag_of use_quantiles}"

text \<open>From \<open>s\<close> to \<open>s'\<close> the record lost no key and gained keys of \<open>K\<close> only.\<close>

definition gained :: "string set \<Rightarrow> 'w state \<Rightarrow> 'w state \<Rightarrow> bool" where
  "gained K s s' = (keys s \<subseteq> keys s' \<and> keys s' \<subseteq> keys s \<union> K)"

section \<open>Toy collaborators and configurations\<close>

text \<open>Two readings of the framework's test \<^verbatim>\<open>((a-b).abs().mean()>0).item()\<close> on
  one-dimensional tensors. The subtraction broadcasts a tensor of length 1 against the
  other operand and raises on any other pair of different lengths; the mean of an empty
  tensor is not a number, which is not greater than 0.\<close>

definition broadcast :: "tensor \<Rightarrow> tensor \<Rightarrow> exn + tensor \<times> tensor" where
  "broadcast a b =
     (if length a = length b then Inr (a, b)
      else if length a = 1 then Inr (replicate (length b) (hd a), b)
      else if length b = 1 then Inr (a, replicate (length a) (hd b))
      else Inl RuntimeError)"

definition mean_abs_difference :: "tensor \<Rightarrow> tensor \<Rightarrow> real" where
  "mean_abs_difference a b =
     sum_list (map (\<lambda>xy. \<bar>fst xy - snd xy\<bar>) (zip a b)) / real (length a)"

text \<open>In exact arithmetic the mean is compared with 0 as it is.\<close>

definition exact_arithmetic :: "tensor \<Rightarrow> tensor \<Rightarrow> exn + bool" where
  "exact_arithmetic a b =
     (case broadcast a b of
        Inl e \<Rightarrow> Inl e
      | Inr ab \<Rightarrow> Inr (fst ab \<noteq> [] \<and> 0 < mean_abs_difference (fst ab) (snd ab)))"


text \<open>A deterministic network whose world is the number of gradient steps taken so far:
  a forward pass returns that number, the loss is the sum of the output's entries, a
  gradient step adds one. The loss recorded at a mini-batch step is therefore the number of
  steps that came before it.\<close>

definition step_counter :: "nat collab" where
  "step_counter =
     \<lparr>NN = (\<lambda>g w x. (Inr [real w], w)),
      loss_fn = (\<lambda>a b. sum_list a),
      mean_abs_difference_positive = exact_arithmetic,
      gradient_step = (\<lambda>loss w. Suc w),
      plot_nn = (\<lambda>w. w),
      scalar_metric = (\<lambda>f args w. (Inr 0, w)),
      pair_metric = (\<lambda>f args w. (Inr (0, 0), w)),
      elapsed_time = (\<lambda>w. 0),
      generate_json_filename = (\<lambda>w fx. ''out.json''),
      process_for_saving = (\<lambda>w fx name. name)\<rparr>"

text \<open>A stochastic network whose world is the state of its random number generator:
  every forward pass returns the state and advances it.\<close>

definition noisy :: "nat collab" where
  "noisy =
     \<lparr>NN = (\<lambda>g w x. (Inr [real w], Suc w)),
      loss_fn = (\<lambda>a b. sum_list a),
      mean_abs_difference_positive = exact_arithmetic,
      gradient_step = (\<lambda>loss w. w),
      plot_nn = (\<lambda>w. w),
      scalar_metric = (\<lambda>f args w. (Inr 0, w)),
      pair_metric = (\<lambda>f args w. (Inr (0, 0), w)),
      elapsed_time = (\<lambda>w. 0),
      generate_json_filename = (\<lambda>w fx. ''out.json''),
      process_for_saving = (\<lambda>w fx name. name)\<rparr>"

text \<open>A run on three mini-batches per epoch, with a diagnostic tick every third value of
  the counter, no early stopping, no plots and a data module without auxiliary grids.\<close>

definition toy_config :: config where
  "toy_config =
     \<lparr>EARLY_STOPPING = False, DELTA = 1/20, PATIENCE = 2, STRIDE = 1, N_MC_SAMPLES = 1,
      MAKE_GIF = False, HOW_OFTEN = 3, VISUALIZE_DISTRIBUTION_USING_QUANTILES = True,
      N_POSTERIOR_SAMPLES_EVALUATION = 2, SHOW_DIAGNOSTICS = False,
      N_EPOCHS = PList [PInt 1, PInt 2], dropout = False, data_is_univariate = False,
      dataloader = [([0], [0]), ([1], [1]), ([2], [2])],
      probe_X = [0], x_train = [0, 1, 2], x_test = [3], y_test = [3],
      data_interpolary_grid = None, data_extrapolary_grid = None,
      input_json_filename = ''run.json'', overwrite_json = False, model_save_dir = None\<rparr>"

text \<open>The same run with the diagnostic tick so rare that none falls into the runs looked
  at below.\<close>

definition quiet_config :: config where
  "quiet_config = toy_config\<lparr>HOW_OFTEN := 100\<rparr>"

text \<open>A run with early stopping, a tick at every mini-batch step and a patience of 1.\<close>

definition stopping_config :: config where
  "stopping_config =
     toy_config\<lparr>EARLY_STOPPING := True, PATIENCE := 1, HOW_OFTEN := 1,
                 N_EPOCHS := PList [PInt 2, PInt 3]\<rparr>"

text \<open>Collaborators that fail inside the two guarded blocks: a forward pass with
  gradients enabled raises \<^verbatim>\<open>RuntimeError\<close>, and \<^verbatim>\<open>uncertainty_vs_proximity\<close> raises
  \<^verbatim>\<open>ZeroDivisionError\<close>. A data module that has both auxiliary grids.\<close>

definition faulty :: "nat collab" where
  "faulty =
     step_counter
       \<lparr>NN := (\<lambda>g w x. if g then (Inl RuntimeError, w) else (Inr [real w], w)),
        pair_metric := (\<lambda>f args w. if f = ''uncertainty_vs_proximity''
                                     then (Inl ZeroDivisionError, w) else (Inr (0, 0), w))\<rparr>"

definition grids_config :: config where
  "grids_config =
     toy_config\<lparr>data_interpolary_grid := Some [0], data_extrapolary_grid := Some [1]\<rparr>"

text \<open>Collaborators whose forward pass fails on the held-out set \<open>x_test\<close> of the toy
  runs and works on every other input.\<close>

definition failing_validation :: "nat collab" where
  "failing_validation =
     step_counter
       \<lparr>NN := (\<lambda>g w x. if x = [3] then (Inl RuntimeError, w) else (Inr [real w], w))\<rparr>"


section \<open>Unfolding the runs on the toy collaborators\<close>

text \<open>The definitions a run unfolds to, for the evaluation of concrete runs.\<close>

lemmas run_defs = train_nn_def probe_dropout_def exact_arithmetic_def broadcast_def
  mean_abs_difference_def content_def record_content_def validated_checkpoints_def CHECKPOINTS_of_def initial_state_def
  checkpoint_body_def train_to_checkpoint_def py_range_def epoch_body_def
  batch_body_def training_loss_def record_diagnostics_def evaluate_def predict_def
  try_load_grids_def load_grids_def record_run_def compute_metrics_def
  deterministic_metrics_def assign_metric_def set_item_def emit_def save_results_def
  display_def startswith_def curve_value_def avg_def slice_from_def

lemmas toy_defs = step_counter_def toy_config_def quiet_config_def Let_def upt_conv_Cons

section \<open>Properties of the EarlyStopper\<close>

lemma stop_signals_decreasing_aux:
  "strictly_decreasing (delta es) (v # vs) \<Longrightarrow> improvement es v \<Longrightarrow> True \<notin> set (stop_signals es (v # vs))"
proof (induction vs arbitrary: es v)
  case Nil
  then show ?case by (simp add: early_stopper_call_def)
next
  case (Cons w ws)
  let ?es' = "es\<lparr>best := Some v, counter := 0\<rparr>"
  have 1: "early_stopper_call es v = (False, ?es')" using Cons.prems by (simp add: early_stopper_call_def)
  have 2: "improvement ?es' w" using Cons.prems by (simp add: improvement_def)
  have 3: "strictly_decreasing (delta ?es') (w # ws)" using Cons.prems by simp
  from Cons.IH[OF 3 2] 1 show ?case by simp
qed

lemma stop_signals_decreasing:
  "strictly_decreasing d vs \<Longrightarrow> True \<notin> set (stop_signals (EarlyStopper_init d p) vs)"
proof (cases vs)
  case Nil
  then show ?thesis by simp
next
  case (Cons v ws)
  assume "strictly_decreasing d vs"
  then have "strictly_decreasing (delta (EarlyStopper_init d p)) (v # ws)"
    using Cons by (simp add: EarlyStopper_init_def)
  moreover have "improvement (EarlyStopper_init d p) v"
    by (simp add: improvement_def EarlyStopper_init_def)
  ultimately show ?thesis using Cons stop_signals_decreasing_aux by blast
qed

lemma stop_signals_plateau:
  "best es = Some v \<Longrightarrow> 0 \<le> delta es \<Longrightarrow>
   stop_signals es (replicate n v) = map (\<lambda>k. counter es + int k + 1 \<ge> patience es) [0..<n]"
proof (induction n arbitrary: es)
  case 0
  then show ?case by simp
next
  case (Suc n)
  let ?es' = "es\<lparr>counter := counter es + 1\<rparr>"
  have ni: "\<not> improvement es v" using Suc.prems by (simp add: improvement_def)
  then have call: "early_stopper_call es v = (counter es + 1 \<ge> patience es, ?es')"
    by (simp add: early_stopper_call_def)
  have IH: "stop_signals ?es' (replicate n v) = map (\<lambda>k. counter ?es' + int k + 1 \<ge> patience ?es') [0..<n]"
    using Suc.IH[of ?es'] Suc.prems by simp
  have "[0..<Suc n] = 0 # map Suc [0..<n]"
    by (simp add: upt_conv_Cons map_Suc_upt del: upt_Suc)
  then show ?case using call IH by (simp add: o_def add.assoc add.commute del: upt_Suc)
qed

lemma stop_signals_constant:
  assumes "0 \<le> d" "1 \<le> p"
  shows "stop_signals (EarlyStopper_init d p) (replicate (nat p + 1) v) = replicate (nat p) False @ [True]"
proof -
  let ?es1 = "(EarlyStopper_init d p)\<lparr>best := Some v, counter := 0\<rparr>"
  have first: "early_stopper_call (EarlyStopper_init d p) v = (False, ?es1)"
    by (simp add: early_stopper_call_def improvement_def EarlyStopper_init_def)
  have rest: "stop_signals ?es1 (replicate (nat p) v) = map (\<lambda>k. int k + 1 \<ge> p) [0..<nat p]"
    using stop_signals_plateau[of ?es1 v "nat p"] assms by (simp add: EarlyStopper_init_def)
  obtain m where m: "nat p = Suc m" using assms by (cases "nat p") auto
  have "map (\<lambda>k. int k + 1 \<ge> p) [0..<Suc m] = replicate m False @ [True]"
  proof -
    have "map (\<lambda>k. int k + 1 \<ge> p) [0..<m] = replicate m False"
      using m by (intro replicate_eqI) auto
    moreover have "int m + 1 \<ge> p" using m by linarith
    ultimately show ?thesis by simp
  qed
  then have "stop_signals ?es1 (replicate (nat p) v) = replicate m False @ [True]"
    using rest m by simp
  then show ?thesis using first m by simp
qed

text \<open>Claim C5, as amended. One call of the EarlyStopper either records an improvement
  (the value lies below \<open>best - delta\<close>: the value becomes \<open>best\<close>, the counter is
  reset and the answer is False) or increments the counter and answers whether the counter
  has reached the patience. On a stream in which each value lies below its predecessor by
  more than \<open>delta\<close> the stop signal is never raised. On a constant stream of length
  \<open>patience + 1\<close> the stop signal is raised exactly once, on the last call, provided
  that \<open>delta\<close> is not negative and \<open>patience\<close> is at least 1.\<close>

theorem EarlyStopper_contract:
  "(improvement es v \<longrightarrow>
      early_stopper_call es v = (False, es\<lparr>best := Some v, counter := 0\<rparr>))
   \<and> (\<not> improvement es v \<longrightarrow>
      early_stopper_call es v =
        (counter es + 1 \<ge> patience es, es\<lparr>counter := counter es + 1\<rparr>))
   \<and> (strictly_decreasing d vs \<longrightarrow>
      True \<notin> set (stop_signals (EarlyStopper_init d p) vs))
   \<and> (0 \<le> d \<and> 1 \<le> p \<longrightarrow>
      stop_signals (EarlyStopper_init d p) (replicate (nat p + 1) c)
        = replicate (nat p) False @ [True])"
proof -
  have "improvement es v \<longrightarrow>
      early_stopper_call es v = (False, es\<lparr>best := Some v, counter := 0\<rparr>)"
    by (simp add: early_stopper_call_def)
  moreover have "\<not> improvement es v \<longrightarrow>
      early_stopper_call es v =
        (counter es + 1 \<ge> patience es, es\<lparr>counter := counter es + 1\<rparr>)"
    by (simp add: early_stopper_call_def)
  moreover have "strictly_decreasing d vs \<longrightarrow>
      True \<notin> set (stop_signals (EarlyStopper_init d p) vs)"
    using stop_signals_decreasing by blast
  moreover have "0 \<le> d \<and> 1 \<le> p \<longrightarrow>
      stop_signals (EarlyStopper_init d p) (replicate (nat p + 1) c)
        = replicate (nat p) False @ [True]"
    using stop_signals_constant by blast
  ultimately show ?thesis by blast
qed

text \<open>The theorem at \<open>delta = 1/20\<close>, \<open>patience = 3\<close>: the first call on a fresh
  stopper is an improvement, a call with the same value on the resulting stopper is not,
  the stream 3, 2, 1 never stops and the constant stream of four values stops on the
  fourth call.\<close>

theorem EarlyStopper_contract_witness:
  "early_stopper_call (EarlyStopper_init (1/20) 3) 1
     = (False, \<lparr>delta = 1/20, patience = 3, best = Some 1, counter = 0\<rparr>)
   \<and> early_stopper_call \<lparr>delta = 1/20, patience = 3, best = Some 1, counter = 0\<rparr> 1
     = (False, \<lparr>delta = 1/20, patience = 3, best = Some 1, counter = 1\<rparr>)
   \<and> strictly_decreasing (1/20) [3, 2, 1]
   \<and> True \<notin> set (stop_signals (EarlyStopper_init (1/20) 3) [3, 2, 1])
   \<and> stop_signals (EarlyStopper_init (1/20) 3) [1, 1, 1, 1] = [False, False, False, True]"
proof -
  have a: "improvement (EarlyStopper_init (1/20) 3) 1"
    by (simp add: improvement_def EarlyStopper_init_def)
  have b: "\<not> improvement \<lparr>delta = 1/20, patience = 3, best = Some 1, counter = 0\<rparr> 1"
    by (simp add: improvement_def)
  have c: "strictly_decreasing (1/20) [3, 2, 1]" by simp
  have d: "(0::real) \<le> 1/20 \<and> (1::int) \<le> 3" by simp
  have r: "replicate (nat 3 + 1) (1::real) = [1, 1, 1, 1]"
    by (simp add: numeral_eq_Suc)
  have f: "replicate (nat 3) False @ [True] = [False, False, False, True]"
    by (simp add: numeral_eq_Suc)
  note t1 = EarlyStopper_contract [of "EarlyStopper_init (1/20) 3" 1 "1/20" "[3, 2, 1]" 3 1]
  note t2 = EarlyStopper_contract
    [of "\<lparr>delta = 1/20, patience = 3, best = Some 1, counter = 0\<rparr>" 1 "1/20" "[3, 2, 1]" 3 1]
  from t1 a have 1: "early_stopper_call (EarlyStopper_init (1/20) 3) 1
     = (False, \<lparr>delta = 1/20, patience = 3, best = Some 1, counter = 0\<rparr>)"
    by (simp add: EarlyStopper_init_def)
  from t2 b have 2: "early_stopper_call \<lparr>delta = 1/20, patience = 3, best = Some 1, counter = 0\<rparr> 1
     = (False, \<lparr>delta = 1/20, patience = 3, best = Some 1, counter = 1\<rparr>)"
    by simp
  from t1 c have 3: "True \<notin> set (stop_signals (EarlyStopper_init (1/20) 3) [3, 2, 1])"
    by blast
  from t1 d have "stop_signals (EarlyStopper_init (1/20) 3) (replicate (nat 3 + 1) 1)
        = replicate (nat 3) False @ [True]" by blast
  then have 4: "stop_signals (EarlyStopper_init (1/20) 3) [1, 1, 1, 1] = [False, False, False, True]"
    using r f by simp
  from 1 2 c 3 4 show ?thesis by blast
qed

text \<open>With \<open>patience = 0\<close> the constant stream of length \<open>patience + 1\<close> is a single
  value; its call is an improvement over plus infinity, so the stop signal is not raised
  at all. With \<open>delta = -1\<close> every call on a constant stream is an improvement, so the
  stop signal is not raised either.\<close>

theorem EarlyStopper_constant_stream_counterexample:
  "stop_signals (EarlyStopper_init 0 0) (replicate (nat 0 + 1) 1) = [False]
   \<and> stop_signals (EarlyStopper_init (- 1) 1) (replicate (nat 1 + 1) 5) = [False, False]"
  by (simp add: early_stopper_call_def improvement_def EarlyStopper_init_def numeral_2_eq_2)

section \<open>Properties of the checkpoint list\<close>

lemma check_checkpoints_iff:
  "check_checkpoints vs =
     (if list_all nonneg_int vs then Inr (map int_value vs) else Inl AssertionError)"
  by (induction vs) (auto simp: nonneg_int_def)

lemma CHECKPOINTS_of_total: "\<exists>vs. CHECKPOINTS_of N = Inr vs"
  by (cases N) (auto simp: CHECKPOINTS_of_def)

lemma validated_checkpoints_iff:
  "CHECKPOINTS_of N = Inr vs \<Longrightarrow>
   validated_checkpoints N =
     (if list_all nonneg_int vs then Inr (map int_value vs) else Inl AssertionError)"
  by (simp add: validated_checkpoints_def check_checkpoints_iff)

lemma nonneg_int_cases:
  "nonneg_int v = (case v of PInt k \<Rightarrow> 0 \<le> k | PBool b \<Rightarrow> True | _ \<Rightarrow> False)"
  by (cases v) (simp_all add: nonneg_int_def)

text \<open>Claim C2, as amended. A single integer \<open>n\<close> is normalised to the one-element list
  \<open>[n]\<close> and a list of integers is kept as it is. Normalisation itself never fails. The
  assertions accept the list exactly when every element is an integer that is not negative
  or a boolean, which \<^verbatim>\<open>isinstance(_, int)\<close> takes for an integer and which counts as 1
  or 0; the accepted list is the list of these integers. Otherwise the assertions raise
  \<^verbatim>\<open>AssertionError\<close>, and the run ends there, in the initial state: no loss was recorded
  and the world is the one left by the probe and the initial plot, without a gradient
  step.\<close>

theorem checkpoint_normalization:
  "CHECKPOINTS_of (PInt n) = Inr [PInt n]
   \<and> CHECKPOINTS_of (PList (map PInt ns)) = Inr (map PInt ns)
   \<and> (\<exists>vs. CHECKPOINTS_of N = Inr vs)
   \<and> nonneg_int v = (case v of PInt k \<Rightarrow> 0 \<le> k | PBool b \<Rightarrow> True | _ \<Rightarrow> False)
   \<and> int_value (PInt k) = k \<and> int_value (PBool True) = 1 \<and> int_value (PBool False) = 0
   \<and> (CHECKPOINTS_of N = Inr vs \<and> list_all nonneg_int vs \<longrightarrow>
        validated_checkpoints N = Inr (map int_value vs))
   \<and> (CHECKPOINTS_of N = Inr vs \<and> \<not> list_all nonneg_int vs \<longrightarrow>
        validated_checkpoints N = Inl AssertionError)
   \<and> (probe_dropout co cfg w = (Inr flag, w1) \<and> CHECKPOINTS_of (N_EPOCHS cfg) = Inr cs
        \<and> \<not> list_all nonneg_int cs \<longrightarrow>
        train_nn co cfg hyper w =
          Raised AssertionError
            (initial_state (cfg\<lparr>dropout := flag\<rparr>) hyper
               (if data_is_univariate cfg \<and> MAKE_GIF cfg then plot_nn co w1 else w1)))"
proof -
  have "CHECKPOINTS_of (PInt n) = Inr [PInt n]"
    by (simp add: CHECKPOINTS_of_def)
  moreover have "CHECKPOINTS_of (PList (map PInt ns)) = Inr (map PInt ns)"
    by (simp add: CHECKPOINTS_of_def)
  moreover note CHECKPOINTS_of_total [of N]
  moreover note nonneg_int_cases [of v]
  moreover have "int_value (PInt k) = k \<and> int_value (PBool True) = 1 \<and> int_value (PBool False) = 0"
    by simp
  moreover have "CHECKPOINTS_of N = Inr vs \<and> list_all nonneg_int vs \<longrightarrow>
        validated_checkpoints N = Inr (map int_value vs)"
    by (simp add: validated_checkpoints_iff)
  moreover have "CHECKPOINTS_of N = Inr vs \<and> \<not> list_all nonneg_int vs \<longrightarrow>
        validated_checkpoints N = Inl AssertionError"
    by (simp add: validated_checkpoints_iff)
  moreover have "probe_dropout co cfg w = (Inr flag, w1) \<and> CHECKPOINTS_of (N_EPOCHS cfg) = Inr cs
        \<and> \<not> list_all nonneg_int cs \<longrightarrow>
        train_nn co cfg hyper w =
          Raised AssertionError
            (initial_state (cfg\<lparr>dropout := flag\<rparr>) hyper
               (if data_is_univariate cfg \<and> MAKE_GIF cfg then plot_nn co w1 else w1))"
    by (simp add: train_nn_def validated_checkpoints_iff Let_def)
  ultimately show ?thesis by blast
qed

text \<open>The theorem at \<open>N_EPOCHS = 50\<close>, at the list 10, 20, 30, and at two malformed
  lists, one with a negative element and one with a float; and what the assertions make of
  an integer, a boolean, a negative integer, a float and a string.\<close>

theorem checkpoint_normalization_witness:
  "CHECKPOINTS_of (PInt 50) = Inr [PInt 50]
   \<and> CHECKPOINTS_of (PList [PInt 10, PInt 20, PInt 30]) = Inr [PInt 10, PInt 20, PInt 30]
   \<and> validated_checkpoints (PList [PInt 10, PInt 20, PInt 30]) = Inr [10, 20, 30]
   \<and> validated_checkpoints (PList [PInt 10, PInt (- 2)]) = Inl AssertionError
   \<and> validated_checkpoints (PList [PInt 10, PFloat (5 / 2)]) = Inl AssertionError
   \<and> nonneg_int (PInt 10) \<and> nonneg_int (PBool True) \<and> \<not> nonneg_int (PInt (- 2))
   \<and> \<not> nonneg_int (PFloat (5 / 2)) \<and> \<not> nonneg_int (PStr ''10'')
   \<and> train_nn step_counter (toy_config\<lparr>N_EPOCHS := PList [PInt 10, PInt (- 2)]\<rparr>) [] 0
       = Raised AssertionError
           (initial_state (toy_config\<lparr>N_EPOCHS := PList [PInt 10, PInt (- 2)]\<rparr>) [] 0)"
proof -
  let ?good = "PList [PInt 10, PInt 20, PInt 30]"
  let ?bad = "PList [PInt 10, PInt (- 2)]"
  let ?bad2 = "PList [PInt 10, PFloat (5 / 2)]"
  let ?cfg = "toy_config\<lparr>N_EPOCHS := ?bad\<rparr>"
  have g: "CHECKPOINTS_of ?good = Inr [PInt 10, PInt 20, PInt 30]
           \<and> list_all nonneg_int [PInt 10, PInt 20, PInt 30]"
    by (simp add: CHECKPOINTS_of_def nonneg_int_def)
  have b: "CHECKPOINTS_of ?bad = Inr [PInt 10, PInt (- 2)]
           \<and> \<not> list_all nonneg_int [PInt 10, PInt (- 2)]"
    by (simp add: CHECKPOINTS_of_def nonneg_int_def)
  have b2: "CHECKPOINTS_of ?bad2 = Inr [PInt 10, PFloat (5 / 2)]
           \<and> \<not> list_all nonneg_int [PInt 10, PFloat (5 / 2)]"
    by (simp add: CHECKPOINTS_of_def nonneg_int_def)
  have p: "probe_dropout step_counter ?cfg 0 = (Inr False, 0)
           \<and> CHECKPOINTS_of (N_EPOCHS ?cfg) = Inr [PInt 10, PInt (- 2)]
           \<and> \<not> list_all nonneg_int [PInt 10, PInt (- 2)]"
    by (simp add: probe_dropout_def step_counter_def exact_arithmetic_def broadcast_def
        mean_abs_difference_def CHECKPOINTS_of_def nonneg_int_def)
  have cfg: "?cfg\<lparr>dropout := False\<rparr> = ?cfg"
    by (simp add: toy_config_def)
  have nogif: "data_is_univariate ?cfg = False"
    by (simp add: toy_config_def)
  note t1 = checkpoint_normalization
    [of 50 "[10, 20, 30]" ?good "PInt 10" 7 "[PInt 10, PInt 20, PInt 30]" step_counter ?cfg 0 False 0
        "[PInt 10, PInt (- 2)]" "[]"]
  note t2 = checkpoint_normalization
    [of 50 "[10, 20, 30]" ?bad "PBool True" 7 "[PInt 10, PInt (- 2)]" step_counter ?cfg 0 False 0
        "[PInt 10, PInt (- 2)]" "[]"]
  note t3 = checkpoint_normalization
    [of 50 "[10, 20, 30]" ?bad2 "PInt (- 2)" 7 "[PInt 10, PFloat (5 / 2)]" step_counter ?cfg 0 False 0
        "[PInt 10, PInt (- 2)]" "[]"]
  note t4 = checkpoint_normalization
    [of 50 "[10, 20, 30]" ?bad2 "PFloat (5 / 2)" 7 "[PInt 10, PFloat (5 / 2)]" step_counter ?cfg 0 False 0
        "[PInt 10, PInt (- 2)]" "[]"]
  note t5 = checkpoint_normalization
    [of 50 "[10, 20, 30]" ?bad2 "PStr ''10''" 7 "[PInt 10, PFloat (5 / 2)]" step_counter ?cfg 0 False 0
        "[PInt 10, PInt (- 2)]" "[]"]
  from t1 have 1: "CHECKPOINTS_of (PInt 50) = Inr [PInt 50]" by blast
  from t1 have 2: "CHECKPOINTS_of ?good = Inr [PInt 10, PInt 20, PInt 30]" by simp
  from t1 g have 3: "validated_checkpoints ?good = Inr [10, 20, 30]" by simp
  from t2 b have 4: "validated_checkpoints ?bad = Inl AssertionError" by blast
  from t3 b2 have 5: "validated_checkpoints ?bad2 = Inl AssertionError" by blast
  from t1 have n1: "nonneg_int (PInt 10)" by simp
  from t2 have n2: "nonneg_int (PBool True)" by simp
  from t3 have n3: "\<not> nonneg_int (PInt (- 2))" by simp
  from t4 have n4: "\<not> nonneg_int (PFloat (5 / 2))" by simp
  from t5 have n5: "\<not> nonneg_int (PStr ''10'')" by simp
  from t2 p have "train_nn step_counter ?cfg [] 0 =
      Raised AssertionError
        (initial_state (?cfg\<lparr>dropout := False\<rparr>) []
           (if data_is_univariate ?cfg \<and> MAKE_GIF ?cfg then plot_nn step_counter 0 else 0))"
    by blast
  then have 6: "train_nn step_counter ?cfg [] 0 = Raised AssertionError (initial_state ?cfg [] 0)"
    using cfg nogif by simp
  from 1 2 3 4 5 n1 n2 n3 n4 n5 6 show ?thesis by blast
qed

text \<open>The list that holds the single JSON value \<^verbatim>\<open>true\<close> holds no integer, yet it
  passes the assertions as the list \<open>[1]\<close>, and so does a lone \<^verbatim>\<open>true\<close>: the run raises
  no error, trains one epoch of three mini-batches and ends normally.\<close>

theorem boolean_checkpoint_counterexample:
  "validated_checkpoints (PList [PBool True]) = Inr [1]
   \<and> validated_checkpoints (PBool True) = Inr [1]
   \<and> train_nn step_counter (toy_config\<lparr>N_EPOCHS := PList [PBool True]\<rparr>) [] 0
       = Normal (state_of (train_nn step_counter (toy_config\<lparr>N_EPOCHS := PList [PBool True]\<rparr>) [] 0))
   \<and> world (state_of (train_nn step_counter (toy_config\<lparr>N_EPOCHS := PList [PBool True]\<rparr>) [] 0)) = 3
   \<and> last_checkpoint
        (state_of (train_nn step_counter (toy_config\<lparr>N_EPOCHS := PList [PBool True]\<rparr>) [] 0)) = 1"
  by (simp add: run_defs toy_defs)

section \<open>The loops as iterations\<close>

lemma and_then_Normal:
  "and_then r f = Normal s' \<Longrightarrow> \<exists>s1. r = Normal s1 \<and> f s1 = Normal s'"
  by (cases r) simp_all

lemma iterate_Break: "((\<lambda>r. and_then r f) ^^ k) (Break s) = Break s"
  by (induction k) simp_all

lemma iterate_Raised: "((\<lambda>r. and_then r f) ^^ k) (Raised e s) = Raised e s"
  by (induction k) simp_all

lemma iterate_and_then:
  "((\<lambda>r. and_then r f) ^^ k) r = and_then r (\<lambda>s. ((\<lambda>r. and_then r f) ^^ k) (Normal s))"
  by (cases r) (simp_all add: iterate_Break iterate_Raised)

lemma epoch_loop_iterate:
  "epoch_loop co cfg es s = ((\<lambda>r. and_then r (epoch_body co cfg)) ^^ length es) (Normal s)"
proof (induction es arbitrary: s)
  case Nil
  show ?case by simp
next
  case (Cons e es)
  let ?F = "\<lambda>r. and_then r (epoch_body co cfg)"
  have rest: "epoch_loop co cfg es = (\<lambda>s'. (?F ^^ length es) (Normal s'))"
    using Cons.IH by (intro ext)
  have "epoch_loop co cfg (e # es) s = and_then (epoch_body co cfg s) (epoch_loop co cfg es)"
    by simp
  also have "\<dots> = and_then (epoch_body co cfg s) (\<lambda>s'. (?F ^^ length es) (Normal s'))"
    by (simp only: rest)
  also have "\<dots> = (?F ^^ length es) (epoch_body co cfg s)"
    by (rule iterate_and_then [symmetric])
  also have "\<dots> = (?F ^^ length es) (?F (Normal s))"
    by simp
  also have "\<dots> = (?F ^^ length (e # es)) (Normal s)"
    by (simp only: length_Cons funpow_Suc_right comp_apply)
  finally show ?case .
qed

lemma epoch_iterations_eq: "int (epoch_iterations n_epochs s) = max 0 (n_epochs - last_checkpoint s)"
  by (simp add: epoch_iterations_def py_range_def)

lemma train_to_checkpoint_last:
  "train_to_checkpoint co cfg n_epochs s = Normal s' \<Longrightarrow> last_checkpoint s' = n_epochs"
  by (cases "epoch_loop co cfg (py_range (n_epochs - last_checkpoint s))
               (s\<lparr>pbar_n := last_checkpoint s\<rparr>)")
     (auto simp: train_to_checkpoint_def)

lemma train_to_checkpoint_iterate:
  "train_to_checkpoint co cfg n_epochs s =
       and_then
         (((\<lambda>r. and_then r (epoch_body co cfg)) ^^ epoch_iterations n_epochs s)
            (Normal (s\<lparr>pbar_n := last_checkpoint s\<rparr>)))
         (\<lambda>s'. Normal (s'\<lparr>last_checkpoint := n_epochs\<rparr>))"
  by (simp only: train_to_checkpoint_def epoch_loop_iterate epoch_iterations_def)

section \<open>The counter behind the diagnostic tick\<close>

text \<open>What a mini-batch step does with the counter, and what a tick records: the tick
  falls where the counter, already advanced by the step, satisfies
  \<open>(pbar_n + 1) mod HOW_OFTEN = 0\<close>; it appends the loss of the step and the loss of one
  forward pass on the held-out set, whatever \<open>dropout\<close> is, and with early stopping it
  hands the early stopper the mean of the slice \<^verbatim>\<open>val_loss_curve[-STRIDE:]\<close>, which for a
  positive \<open>STRIDE\<close> holds the last \<open>STRIDE\<close> values, or all of them while there are
  fewer.\<close>

lemma tick_condition:
  assumes "training_loss co cfg (fst b) (snd b) (world s) = (Inr loss, w)"
    and "HOW_OFTEN cfg \<noteq> 0"
  shows "batch_body co cfg b s =
     (if (pbar_n s + 1 + 1) mod HOW_OFTEN cfg = 0
      then record_diagnostics co cfg loss
             (s\<lparr>world := gradient_step co loss w, pbar_n := pbar_n s + 1\<rparr>)
      else Normal (s\<lparr>world := gradient_step co loss w, pbar_n := pbar_n s + 1\<rparr>))"
  using assms by (simp add: batch_body_def Let_def)

lemma stride_window:
  "0 < STRIDE cfg \<Longrightarrow>
   slice_from (- STRIDE cfg) xs = drop (length xs - nat (STRIDE cfg)) xs"
  by (auto simp: slice_from_def nat_diff_distrib')

lemma tick_records:
  assumes "\<not> (data_is_univariate cfg \<and> MAKE_GIF cfg)"
    and "NN co False (world s) (x_test cfg) = (Inr out, w)"
  shows "train_loss_curve (state_of (record_diagnostics co cfg loss s))
           = train_loss_curve s @ [loss]"
    and "val_loss_curve (state_of (record_diagnostics co cfg loss s))
           = val_loss_curve s @ [loss_fn co out (y_test cfg)]"
proof -
  have np: "(data_is_univariate cfg \<and> MAKE_GIF cfg) = False"
    using assms(1) by simp
  show "train_loss_curve (state_of (record_diagnostics co cfg loss s))
           = train_loss_curve s @ [loss]"
    using assms(2)
    by (auto simp: record_diagnostics_def Let_def np split: option.splits sum.splits)
  show "val_loss_curve (state_of (record_diagnostics co cfg loss s))
           = val_loss_curve s @ [loss_fn co out (y_test cfg)]"
    using assms(2)
    by (auto simp: record_diagnostics_def Let_def np split: option.splits sum.splits)
qed

lemma tick_feeds_stopper:
  assumes "\<not> (data_is_univariate cfg \<and> MAKE_GIF cfg)"
    and "NN co False (world s) (x_test cfg) = (Inr out, w)"
    and "EARLY_STOPPING cfg" and "early_stopper s = Some es" and "0 < STRIDE cfg"
    and "window = drop (length (val_loss_curve s) + 1 - nat (STRIDE cfg))
                    (val_loss_curve s @ [loss_fn co out (y_test cfg)])"
  shows "decided_to_stop_early (state_of (record_diagnostics co cfg loss s))
           = fst (early_stopper_call es (sum_list window / real (length window)))"
    and "early_stopper (state_of (record_diagnostics co cfg loss s))
           = Some (snd (early_stopper_call es (sum_list window / real (length window))))"
proof -
  let ?v = "val_loss_curve s @ [loss_fn co out (y_test cfg)]"
  have w: "slice_from (- STRIDE cfg) ?v = window"
    using assms(5,6) by (simp add: stride_window)
  have "length window = length ?v - (length ?v - nat (STRIDE cfg))"
    using assms(6) by simp
  then have "0 < length window" using assms(5) by simp
  then have ne: "window \<noteq> []" by simp
  have a: "avg (slice_from (- STRIDE cfg) ?v) = Inr (sum_list window / real (length window))"
    using w ne by (simp add: avg_def)
  have np: "(data_is_univariate cfg \<and> MAKE_GIF cfg) = False"
    using assms(1) by simp
  show "decided_to_stop_early (state_of (record_diagnostics co cfg loss s))
           = fst (early_stopper_call es (sum_list window / real (length window)))"
    using assms(2-4) a by (simp add: record_diagnostics_def Let_def np)
  show "early_stopper (state_of (record_diagnostics co cfg loss s))
           = Some (snd (early_stopper_call es (sum_list window / real (length window))))"
    using assms(2-4) a by (simp add: record_diagnostics_def Let_def np)
qed

text \<open>Claim C3 on the toy run with the checkpoints 1 and 2, three mini-batches per epoch
  and \<open>HOW_OFTEN = 3\<close>. With the collaborators \<open>step_counter\<close> the loss recorded at
  a tick is the number of mini-batch steps made before the step of the tick. The run makes
  six steps; counting them from 1, \<open>(step+1) mod 3 = 0\<close> holds at the steps 2 and 5, which
  would record the losses 1 and 4, and the run with the single checkpoint 2 does record
  them. With the checkpoints 1 and 2 the progress counter starts again from
  \<open>last_checkpoint = 1\<close> at the second boundary, the second tick falls on step 4 and the
  recorded losses are 1 and 3. The final value 4 of the counter, divided by the number of
  mini-batches, is what line 288 stores as \<open>n_epochs\<close>.\<close>

theorem tick_counter_restarts_at_checkpoint:
  "(case train_nn step_counter toy_config [] 0 of
      Normal s \<Rightarrow> train_loss_curve s = [1, 3] \<and> world s = 6 \<and> pbar_n s = 4
                  \<and> map_of (record_content s) ''n_epochs'' = Some (PFloat (4 / 3))
    | _ \<Rightarrow> False)
   \<and> (case train_nn step_counter (toy_config\<lparr>N_EPOCHS := PInt 2\<rparr>) [] 0 of
      Normal s \<Rightarrow> train_loss_curve s = [1, 4] \<and> world s = 6 \<and> pbar_n s = 6
                  \<and> map_of (record_content s) ''n_epochs'' = Some (PFloat 2)
    | _ \<Rightarrow> False)
   \<and> N_EPOCHS toy_config = PList [PInt 1, PInt 2]
   \<and> HOW_OFTEN toy_config = 3
   \<and> length (dataloader toy_config) = 3"
proof -
  have "(case train_nn step_counter toy_config [] 0 of
      Normal s \<Rightarrow> train_loss_curve s = [1, 3] \<and> world s = 6 \<and> pbar_n s = 4
                  \<and> map_of (record_content s) ''n_epochs'' = Some (PFloat (4 / 3))
    | _ \<Rightarrow> False)"
    by (simp add: run_defs toy_defs)
  moreover have "(case train_nn step_counter (toy_config\<lparr>N_EPOCHS := PInt 2\<rparr>) [] 0 of
      Normal s \<Rightarrow> train_loss_curve s = [1, 4] \<and> world s = 6 \<and> pbar_n s = 6
                  \<and> map_of (record_content s) ''n_epochs'' = Some (PFloat 2)
    | _ \<Rightarrow> False)"
    by (simp add: run_defs toy_defs)
  moreover have "N_EPOCHS toy_config = PList [PInt 1, PInt 2] \<and> HOW_OFTEN toy_config = 3
    \<and> length (dataloader toy_config) = 3"
    by (simp add: toy_config_def)
  ultimately show ?thesis by blast
qed

section \<open>The command line without its required option\<close>

lemma add_json_succeeds: "add_argument [] (StrOpt ''json'' True) = Inr [StrOpt ''json'' True]"
  by (simp add: add_argument_def dest_def dest_name_def option_table_def)

lemma hint_never_printed: "fst (command_line interactive argv) = []"
  by (simp add: command_line_def add_json_succeeds split: sum.splits)

text \<open>Claim C9 at the empty command line of a non-interactive run. \<^verbatim>\<open>parse_args\<close> leaves
  through \<^verbatim>\<open>SystemExit\<close> with status 2, so the run fails at once, but nothing was printed:
  the \<^verbatim>\<open>try\<close> that prints the hint guards \<^verbatim>\<open>add_argument\<close>, which does not fail, and
  not \<^verbatim>\<open>parse_args\<close>.\<close>

theorem missing_json_exits_without_hint:
  "command_line False [] = ([], Inl (SystemExit 2))"
  by (simp add: command_line_def add_argument_def parse_args_def dest_def dest_name_def
      option_table_def)

section \<open>What evaluation leaves untouched\<close>

lemma untouched_refl: "untouched params [] s s"
  by (simp add: untouched_def)

lemma untouched_trans:
  "untouched params xs s s1 \<Longrightarrow> untouched params ys s1 s2 \<Longrightarrow> untouched params (xs @ ys) s s2"
  by (simp add: untouched_def)

lemma untouched_and_then:
  assumes "untouched params xs s (state_of r)"
    and "\<And>s1. untouched params [] s1 (state_of (f s1))"
  shows "untouched params xs s (state_of (and_then r f))"
proof (cases r)
  case (Normal s1)
  then have "untouched params xs s s1" using assms(1) by simp
  from untouched_trans [OF this assms(2) [of s1]] show ?thesis using Normal by simp
qed (use assms(1) in simp_all)

lemma untouched_world:
  "params w = params (world s) \<Longrightarrow> untouched params [] s (s\<lparr>world := w\<rparr>)"
  by (simp add: untouched_def)

lemma untouched_set_item: "untouched params [] s (set_item k v s)"
  by (simp add: untouched_def set_item_def)

lemma keeps_NN: "keeps params co \<Longrightarrow> NN co g w x = (r, w') \<Longrightarrow> params w' = params w"
  by (metis keeps_def snd_conv)

lemma keeps_scalar:
  "keeps params co \<Longrightarrow> scalar_metric co f args w = (r, w') \<Longrightarrow> params w' = params w"
  by (metis keeps_def snd_conv)

lemma keeps_pair:
  "keeps params co \<Longrightarrow> pair_metric co f args w = (r, w') \<Longrightarrow> params w' = params w"
  by (metis keeps_def snd_conv)

lemma forward_passes_params:
  "keeps params co \<Longrightarrow> params (snd (forward_passes co g x k w)) = params w"
proof (induction k arbitrary: w)
  case 0
  show ?case by simp
next
  case (Suc k)
  obtain r w1 where n: "NN co g w x = (r, w1)" by (cases "NN co g w x")
  have 1: "params w1 = params w" using keeps_NN [OF Suc.prems n] .
  show ?case
  proof (cases r)
    case (Inl e)
    then show ?thesis using n 1 by simp
  next
    case (Inr out)
    obtain r2 w2 where f: "forward_passes co g x k w1 = (r2, w2)"
      by (cases "forward_passes co g x k w1")
    have "params w2 = params w1" using Suc.IH [OF Suc.prems, of w1] f by simp
    then show ?thesis using n 1 Inr f by (cases r2) simp_all
  qed
qed

lemma predict_params:
  assumes "keeps params co"
  shows "params (snd (predict co cfg g x w)) = params w"
proof (cases "dropout cfg")
  case True
  obtain r w1 where f: "forward_passes co g x (nat (N_POSTERIOR_SAMPLES_EVALUATION cfg)) w = (r, w1)"
    by (cases "forward_passes co g x (nat (N_POSTERIOR_SAMPLES_EVALUATION cfg)) w")
  have "params w1 = params w"
    using forward_passes_params [OF assms, of g x "nat (N_POSTERIOR_SAMPLES_EVALUATION cfg)" w] f
    by simp
  then show ?thesis using True f by (cases r) (simp_all add: predict_def)
next
  case False
  obtain r w1 where n: "NN co g w x = (r, w1)" by (cases "NN co g w x")
  have "params w1 = params w" using keeps_NN [OF assms n] .
  then show ?thesis using False n by (cases r) (simp_all add: predict_def)
qed

lemma assign_metric_untouched:
  assumes "keeps params co"
  shows "untouched params [] s (state_of (assign_metric co key f args s))"
proof -
  obtain r w where m: "scalar_metric co f args (world s) = (r, w)"
    by (cases "scalar_metric co f args (world s)")
  have "params w = params (world s)" using keeps_scalar [OF assms m] .
  then show ?thesis using m
    by (cases r) (simp_all add: assign_metric_def untouched_def set_item_def)
qed

lemma assign_metric_pair_untouched:
  assumes "keeps params co"
  shows "untouched params [] s (state_of (assign_metric_pair co key1 key2 f args s))"
proof -
  obtain r w where m: "pair_metric co f args (world s) = (r, w)"
    by (cases "pair_metric co f args (world s)")
  have "params w = params (world s)" using keeps_pair [OF assms m] .
  then show ?thesis using m
    by (cases r) (simp_all add: assign_metric_pair_def untouched_def set_item_def)
qed

lemma assign_metrics_untouched:
  assumes "keeps params co"
  shows "untouched params [] s (state_of (assign_metrics co args ms s))"
proof (induction ms arbitrary: s)
  case Nil
  show ?case by (simp add: untouched_refl)
next
  case (Cons m ms)
  show ?case
    using untouched_and_then [OF assign_metric_untouched [OF assms] Cons.IH]
    by simp
qed

lemma grid_metrics_untouched:
  assumes "keeps params co"
  shows "untouched params [] s (state_of (grid_metrics co cfg q sh s))"
proof -
  note a = assign_metric_untouched [OF assms]
  note b = assign_metric_pair_untouched [OF assms]
  show ?thesis
    unfolding grid_metrics_def
    by (auto split: option.splits prod.splits
        intro!: untouched_and_then b a untouched_refl)
qed

lemma try_grid_metrics_untouched:
  assumes "keeps params co"
  shows "untouched params [] s (state_of (try_grid_metrics co cfg q sh s))"
  using grid_metrics_untouched [OF assms, of s cfg q sh]
  by (cases "grid_metrics co cfg q sh s") (simp_all add: try_grid_metrics_def)

lemma uncertainty_metrics_untouched:
  assumes "keeps params co"
  shows "untouched params [] s (state_of (uncertainty_metrics co cfg p q s))"
  unfolding uncertainty_metrics_def Let_def
  by (rule untouched_and_then [OF assign_metric_pair_untouched [OF assms]
        try_grid_metrics_untouched [OF assms]])

lemma compute_metrics_untouched:
  assumes "keeps params co"
  shows "untouched params [] s (state_of (compute_metrics co cfg p s))"
proof (cases "dropout cfg")
  case True
  have "untouched params [] s1
          (state_of (and_then (uncertainty_metrics co cfg p True s1)
                       (uncertainty_metrics co cfg p False)))" for s1
    by (rule untouched_and_then [OF uncertainty_metrics_untouched [OF assms]
          uncertainty_metrics_untouched [OF assms]])
  from untouched_and_then [OF assign_metrics_untouched [OF assms] this]
  show ?thesis using True by (simp add: compute_metrics_def)
next
  case False
  then show ?thesis
    using assign_metrics_untouched [OF assms] by (simp add: compute_metrics_def)
qed

lemma record_run_untouched: "untouched params [] s (state_of (record_run co cfg s))"
  by (simp add: record_run_def untouched_def set_item_def)

text \<open>The grids: the state changes in the world and in the four names of the grids
  only, and a warning is added exactly when the block ends by \<^verbatim>\<open>AttributeError\<close>.\<close>

lemma load_grids_untouched:
  assumes "keeps params co"
  shows "untouched params [] s (state_of (load_grids co cfg s))"
proof (cases "data_interpolary_grid cfg")
  case None
  then show ?thesis by (simp add: load_grids_def untouched_refl)
next
  case gi: (Some g_in)
  show ?thesis
  proof (cases "data_extrapolary_grid cfg")
    case None
    then show ?thesis using gi by (simp add: load_grids_def untouched_def)
  next
    case ge: (Some g_ex)
    obtain r1 w1 where p1: "predict co cfg True g_in (world s) = (r1, w1)"
      by (cases "predict co cfg True g_in (world s)")
    have k1: "params w1 = params (world s)"
      using predict_params [OF assms, of cfg True g_in "world s"] p1 by simp
    show ?thesis
    proof (cases r1)
      case (Inl e)
      then show ?thesis using gi ge p1 k1 by (simp add: load_grids_def untouched_def)
    next
      case (Inr p_in)
      obtain r2 w2 where p2: "predict co cfg True g_ex w1 = (r2, w2)"
        by (cases "predict co cfg True g_ex w1")
      have k2: "params w2 = params w1"
        using predict_params [OF assms, of cfg True g_ex w1] p2 by simp
      show ?thesis using gi ge p1 k1 Inr p2 k2
        by (cases r2) (simp_all add: load_grids_def untouched_def)
    qed
  qed
qed

lemma try_load_grids_untouched:
  assumes "keeps params co"
  shows "untouched params
           (case load_grids co cfg s of
              Raised e s' \<Rightarrow> (if e = AttributeError then [Warn GridsMissing] else [])
            | _ \<Rightarrow> [])
           s (state_of (try_load_grids co cfg s))"
  using load_grids_untouched [OF assms, of s cfg]
  by (cases "load_grids co cfg s") (auto simp: try_load_grids_def untouched_def emit_def)

lemma evaluate_untouched:
  assumes "keeps params co"
  shows "\<exists>xs. (xs = [] \<or> xs = [Warn GridsMissing])
              \<and> untouched params xs s (state_of (evaluate co cfg s))"
proof -
  obtain r w where p: "predict co cfg False (x_test cfg) (world s) = (r, w)"
    by (cases "predict co cfg False (x_test cfg) (world s)")
  have k: "params w = params (world s)"
    using predict_params [OF assms, of cfg False "x_test cfg" "world s"] p by simp
  show ?thesis
  proof (cases r)
    case (Inl e)
    then have "untouched params [] s (state_of (evaluate co cfg s))"
      using p k by (simp add: evaluate_def untouched_def)
    then show ?thesis by blast
  next
    case (Inr predictions)
    let ?s0 = "s\<lparr>world := w\<rparr>"
    let ?xs = "case load_grids co cfg ?s0 of
              Raised e s' \<Rightarrow> (if e = AttributeError then [Warn GridsMissing] else [])
            | _ \<Rightarrow> []"
    have xs: "?xs = [] \<or> ?xs = [Warn GridsMissing]"
      by (cases "load_grids co cfg ?s0") auto
    have 0: "untouched params [] s ?s0" using k by (rule untouched_world)
    have 1: "untouched params ?xs s (state_of (try_load_grids co cfg ?s0))"
      using untouched_trans [OF 0 try_load_grids_untouched [OF assms, of cfg ?s0]] by simp
    have 2: "untouched params [] s1
       (state_of (and_then (record_run co cfg s1) (compute_metrics co cfg predictions)))" for s1
      by (rule untouched_and_then [OF record_run_untouched compute_metrics_untouched [OF assms]])
    have "untouched params ?xs s (state_of (evaluate co cfg s))"
      using untouched_and_then [OF 1 2] p Inr by (simp add: evaluate_def)
    then show ?thesis using xs by blast
  qed
qed

section \<open>The checkpoint scheduler resumes from the last boundary\<close>

text \<open>Evaluation, persistence and display leave \<open>last_checkpoint\<close> as the training block
  set it.\<close>

lemma save_display_last:
  "last_checkpoint (display cfg (save_results co cfg s)) = last_checkpoint s"
  by (simp add: display_def save_results_def emit_def set_item_def Let_def split: option.splits)

lemma evaluate_last:
  "last_checkpoint (state_of (evaluate co cfg s)) = last_checkpoint s"
proof -
  have "keeps (\<lambda>w. ()) co" by (simp add: keeps_def)
  from evaluate_untouched [OF this, of s cfg] show ?thesis
    by (auto simp: untouched_def)
qed

lemma checkpoint_body_last:
  assumes "checkpoint_body co cfg n_epochs s = Normal s'"
  shows "last_checkpoint s' = n_epochs"
proof -
  from and_then_Normal [OF assms [unfolded checkpoint_body_def]] obtain s1
    where 1: "train_to_checkpoint co cfg n_epochs s = Normal s1"
      and r: "and_then (evaluate co cfg s1)
                (\<lambda>s2. Normal (display cfg (save_results co cfg s2))) = Normal s'"
    by blast
  from and_then_Normal [OF r] obtain s2
    where 2: "evaluate co cfg s1 = Normal s2"
      and 3: "Normal (display cfg (save_results co cfg s2)) = Normal s'"
    by blast
  have "last_checkpoint s2 = last_checkpoint s1"
    using evaluate_last [of co cfg s1] 2 by simp
  then show ?thesis
    using train_to_checkpoint_last [OF 1] 3 save_display_last [of cfg co s2] by auto
qed

text \<open>Claim C1, as amended. \<open>last_checkpoint\<close> is 0 at the start. At a boundary
  \<open>n_epochs\<close> reached with the stop-early flag unset, the checkpoint loop runs the
  training block; there the epoch loop makes exactly \<open>max 0 (n_epochs - last_checkpoint)\<close>
  iterations, that is, the body of the epoch loop is applied that many times to the state
  in which the progress counter has been set to \<open>last_checkpoint\<close>; and when the block
  ends normally, \<open>last_checkpoint\<close> is the boundary. Evaluation, persistence and display
  keep it: after a boundary that was processed to its end, \<open>last_checkpoint\<close> is that
  boundary, so the next boundary \<open>m\<close> makes \<open>max 0 (m - n_epochs)\<close> iterations. In
  particular, in a checkpoint list that goes on with 10 and 20, the boundary 20 is reached
  in the state the boundary 10 ended in and applies the body of the epoch loop exactly 10
  times.\<close>

theorem checkpoint_resumption:
  "(last_checkpoint (initial_state cfg hyper w) = 0)
   \<and> (\<not> decided_to_stop_early s \<longrightarrow>
        checkpoint_loop co cfg (n_epochs # rest) s =
          and_then
            (and_then (train_to_checkpoint co cfg n_epochs s)
               (\<lambda>s1. and_then (evaluate co cfg s1)
                        (\<lambda>s2. Normal (display cfg (save_results co cfg s2)))))
            (checkpoint_loop co cfg rest))
   \<and> (int (epoch_iterations n_epochs s) = max 0 (n_epochs - last_checkpoint s))
   \<and> (train_to_checkpoint co cfg n_epochs s =
       and_then
         (((\<lambda>r. and_then r (epoch_body co cfg)) ^^ epoch_iterations n_epochs s)
            (Normal (s\<lparr>pbar_n := last_checkpoint s\<rparr>)))
         (\<lambda>s'. Normal (s'\<lparr>last_checkpoint := n_epochs\<rparr>)))
   \<and> (train_to_checkpoint co cfg n_epochs s = Normal s' \<longrightarrow> last_checkpoint s' = n_epochs)
   \<and> (checkpoint_body co cfg n_epochs s = Normal s2 \<longrightarrow>
        last_checkpoint s2 = n_epochs
        \<and> int (epoch_iterations m s2) = max 0 (m - n_epochs))
   \<and> (\<not> decided_to_stop_early s \<and> checkpoint_body co cfg 10 s = Normal s2 \<longrightarrow>
        checkpoint_loop co cfg (10 # 20 # rest) s = checkpoint_loop co cfg (20 # rest) s2
        \<and> epoch_iterations 20 s2 = 10
        \<and> train_to_checkpoint co cfg 20 s2 =
            and_then
              (((\<lambda>r. and_then r (epoch_body co cfg)) ^^ 10) (Normal (s2\<lparr>pbar_n := 10\<rparr>)))
              (\<lambda>s'. Normal (s'\<lparr>last_checkpoint := 20\<rparr>)))"
proof -
  have c1: "last_checkpoint (initial_state cfg hyper w) = 0"
    by (simp add: initial_state_def)
  have c2: "\<not> decided_to_stop_early s \<longrightarrow>
        checkpoint_loop co cfg (n_epochs # rest) s =
          and_then
            (and_then (train_to_checkpoint co cfg n_epochs s)
               (\<lambda>s1. and_then (evaluate co cfg s1)
                        (\<lambda>s2. Normal (display cfg (save_results co cfg s2)))))
            (checkpoint_loop co cfg rest)"
    by (simp add: checkpoint_body_def)
  note c3 = epoch_iterations_eq [of n_epochs s]
  note c4 = train_to_checkpoint_iterate [of co cfg n_epochs s]
  have c5: "train_to_checkpoint co cfg n_epochs s = Normal s' \<longrightarrow> last_checkpoint s' = n_epochs"
    using train_to_checkpoint_last by blast
  have c6: "checkpoint_body co cfg n_epochs s = Normal s2 \<longrightarrow>
        last_checkpoint s2 = n_epochs
        \<and> int (epoch_iterations m s2) = max 0 (m - n_epochs)"
    using checkpoint_body_last [of co cfg n_epochs s s2] epoch_iterations_eq [of m s2]
    by simp
  have c7: "\<not> decided_to_stop_early s \<and> checkpoint_body co cfg 10 s = Normal s2 \<longrightarrow>
        checkpoint_loop co cfg (10 # 20 # rest) s = checkpoint_loop co cfg (20 # rest) s2
        \<and> epoch_iterations 20 s2 = 10
        \<and> train_to_checkpoint co cfg 20 s2 =
            and_then
              (((\<lambda>r. and_then r (epoch_body co cfg)) ^^ 10) (Normal (s2\<lparr>pbar_n := 10\<rparr>)))
              (\<lambda>s'. Normal (s'\<lparr>last_checkpoint := 20\<rparr>))"
  proof
    assume a: "\<not> decided_to_stop_early s \<and> checkpoint_body co cfg 10 s = Normal s2"
    then have l: "last_checkpoint s2 = 10"
      using checkpoint_body_last by blast
    then have i: "epoch_iterations 20 s2 = 10"
      by (simp add: epoch_iterations_def py_range_def)
    have loop: "checkpoint_loop co cfg (10 # 20 # rest) s = checkpoint_loop co cfg (20 # rest) s2"
      using a by simp
    have tr: "train_to_checkpoint co cfg 20 s2 =
            and_then
              (((\<lambda>r. and_then r (epoch_body co cfg)) ^^ 10) (Normal (s2\<lparr>pbar_n := 10\<rparr>)))
              (\<lambda>s'. Normal (s'\<lparr>last_checkpoint := 20\<rparr>))"
      using train_to_checkpoint_iterate [of co cfg 20 s2] unfolding i l .
    show "checkpoint_loop co cfg (10 # 20 # rest) s = checkpoint_loop co cfg (20 # rest) s2
        \<and> epoch_iterations 20 s2 = 10
        \<and> train_to_checkpoint co cfg 20 s2 =
            and_then
              (((\<lambda>r. and_then r (epoch_body co cfg)) ^^ 10) (Normal (s2\<lparr>pbar_n := 10\<rparr>)))
              (\<lambda>s'. Normal (s'\<lparr>last_checkpoint := 20\<rparr>))"
      by (rule conjI [OF loop conjI [OF i tr]])
  qed
  show ?thesis
    by (rule conjI [OF c1 conjI [OF c2 conjI [OF c3 conjI [OF c4 conjI [OF c5 conjI [OF c6 c7]]]]]])
qed

text \<open>The theorem on the toy run with three mini-batches per epoch and the checkpoint
  list 10, 20, from the initial state. The boundary 10, with its evaluation and its
  persistence, ends after 30 gradient steps with \<open>last_checkpoint = 10\<close>; the boundary 20
  then makes 10 epoch iterations, and the run ends after 60 gradient steps, not 90, with
  \<open>last_checkpoint = 20\<close>.\<close>

theorem checkpoint_resumption_witness:
  "checkpoint_body step_counter quiet_config 10 (initial_state quiet_config [] 0)
     = Normal (state_of (checkpoint_body step_counter quiet_config 10
                           (initial_state quiet_config [] 0)))
   \<and> world (state_of (checkpoint_body step_counter quiet_config 10
                         (initial_state quiet_config [] 0))) = 30
   \<and> last_checkpoint (state_of (checkpoint_body step_counter quiet_config 10
                                   (initial_state quiet_config [] 0))) = 10
   \<and> epoch_iterations 20 (state_of (checkpoint_body step_counter quiet_config 10
                                       (initial_state quiet_config [] 0))) = 10
   \<and> checkpoint_loop step_counter quiet_config [10, 20] (initial_state quiet_config [] 0)
       = checkpoint_loop step_counter quiet_config [20]
           (state_of (checkpoint_body step_counter quiet_config 10
                        (initial_state quiet_config [] 0)))
   \<and> train_to_checkpoint step_counter quiet_config 20
        (state_of (checkpoint_body step_counter quiet_config 10 (initial_state quiet_config [] 0)))
       = and_then
           (((\<lambda>r. and_then r (epoch_body step_counter quiet_config)) ^^ 10)
              (Normal ((state_of (checkpoint_body step_counter quiet_config 10
                                    (initial_state quiet_config [] 0)))\<lparr>pbar_n := 10\<rparr>)))
           (\<lambda>s'. Normal (s'\<lparr>last_checkpoint := 20\<rparr>))
   \<and> world (state_of (checkpoint_loop step_counter quiet_config [10, 20]
                         (initial_state quiet_config [] 0))) = 60
   \<and> last_checkpoint (state_of (checkpoint_loop step_counter quiet_config [10, 20]
                                   (initial_state quiet_config [] 0))) = 20
   \<and> train_to_checkpoint step_counter quiet_config 10 (initial_state quiet_config [] 0)
       = Normal ((initial_state quiet_config [] 0)
                   \<lparr>world := 30, last_checkpoint := 10, pbar_n := 30\<rparr>)
   \<and> last_checkpoint ((initial_state quiet_config [] (0::nat))
                          \<lparr>world := 30, last_checkpoint := 10, pbar_n := 30\<rparr>) = 10
   \<and> checkpoint_loop step_counter quiet_config [10] (initial_state quiet_config [] 0)
       = and_then
           (and_then
              (train_to_checkpoint step_counter quiet_config 10 (initial_state quiet_config [] 0))
              (\<lambda>s1. and_then (evaluate step_counter quiet_config s1)
                       (\<lambda>s2. Normal (display quiet_config
                                       (save_results step_counter quiet_config s2)))))
           (checkpoint_loop step_counter quiet_config [])"
proof -
  let ?S0 = "initial_state quiet_config [] (0::nat)"
  let ?B = "checkpoint_body step_counter quiet_config 10 ?S0"
  let ?T = "?S0\<lparr>world := 30, last_checkpoint := 10, pbar_n := 30\<rparr>"
  note t = checkpoint_resumption
    [where cfg = quiet_config and hyper = "[]" and w = "0::nat" and s = ?S0 and co = step_counter
       and n_epochs = 10 and rest = "[]" and s' = ?T and ?s2.0 = "state_of ?B" and m = 20]
  have b: "?B = Normal (state_of ?B)"
    by (simp add: run_defs toy_defs)
  have w: "world (state_of ?B) = 30"
    by (simp add: run_defs toy_defs)
  have f: "\<not> decided_to_stop_early ?S0"
    by (simp add: initial_state_def)
  have tr: "train_to_checkpoint step_counter quiet_config 10 ?S0 = Normal ?T"
    by (simp add: run_defs toy_defs)
  note l = t [THEN conjunct2, THEN conjunct2, THEN conjunct2, THEN conjunct2, THEN conjunct2,
      THEN conjunct1, THEN mp, OF b, THEN conjunct1]
  note c7 = t [THEN conjunct2, THEN conjunct2, THEN conjunct2, THEN conjunct2, THEN conjunct2,
      THEN conjunct2, THEN mp, OF conjI [OF f b]]
  note loop = c7 [THEN conjunct1]
  note it = c7 [THEN conjunct2, THEN conjunct1]
  note tr20 = c7 [THEN conjunct2, THEN conjunct2]
  note lt = t [THEN conjunct2, THEN conjunct2, THEN conjunct2, THEN conjunct2, THEN conjunct1,
      THEN mp, OF tr]
  have w60: "world (state_of (checkpoint_loop step_counter quiet_config [10, 20] ?S0)) = 60"
    by (simp add: run_defs toy_defs)
  have l20: "last_checkpoint (state_of (checkpoint_loop step_counter quiet_config [10, 20] ?S0)) = 20"
    by (simp add: run_defs toy_defs)
  note unfold = t [THEN conjunct2, THEN conjunct1, THEN mp, OF f]
  show ?thesis
    by (rule conjI [OF b conjI [OF w conjI [OF l conjI [OF it conjI [OF loop conjI [OF tr20
          conjI [OF w60 conjI [OF l20 conjI [OF tr conjI [OF lt unfold]]]]]]]]]])
qed

text \<open>The checkpoint list 2, 1 passes the assertions. After the boundary 2 the boundary 1
  makes no epoch iteration, where \<open>n_epochs - last_checkpoint\<close> is \<open>-1\<close>.\<close>

theorem decreasing_checkpoints_counterexample:
  "validated_checkpoints (PList [PInt 2, PInt 1]) = Inr [2, 1]
   \<and> train_to_checkpoint step_counter quiet_config 2 (initial_state quiet_config [] (0::nat))
       = Normal ((initial_state quiet_config [] (0::nat))
                   \<lparr>world := (6::nat), last_checkpoint := 2, pbar_n := 6\<rparr>)
   \<and> epoch_iterations 1
        ((initial_state quiet_config [] (0::nat))\<lparr>world := (6::nat), last_checkpoint := 2, pbar_n := 6\<rparr>)
       = 0
   \<and> 1 - last_checkpoint
        ((initial_state quiet_config [] (0::nat))\<lparr>world := (6::nat), last_checkpoint := 2, pbar_n := 6\<rparr>)
       = - 1"
  by (simp add: run_defs toy_defs epoch_iterations_def nonneg_int_def)

section \<open>Unwinding after the decision to stop early\<close>

lemma record_diagnostics_Break:
  "record_diagnostics co cfg loss s = Break s' \<Longrightarrow> decided_to_stop_early s'"
  by (auto simp: record_diagnostics_def Let_def
      split: prod.splits sum.splits option.splits if_splits)

lemma record_diagnostics_Normal:
  "record_diagnostics co cfg loss s = Normal s' \<Longrightarrow> \<not> decided_to_stop_early s
   \<Longrightarrow> \<not> decided_to_stop_early s'"
  by (auto simp: record_diagnostics_def Let_def
      split: prod.splits sum.splits option.splits if_splits)

lemma batch_body_Break:
  "batch_body co cfg b s = Break s' \<Longrightarrow> decided_to_stop_early s'"
  using record_diagnostics_Break
  by (fastforce simp: batch_body_def Let_def split: prod.splits sum.splits if_splits)

lemma batch_body_Normal:
  assumes "batch_body co cfg b s = Normal s'" and "\<not> decided_to_stop_early s"
  shows "\<not> decided_to_stop_early s'"
proof -
  obtain r w where t: "training_loss co cfg (fst b) (snd b) (world s) = (r, w)"
    by (cases "training_loss co cfg (fst b) (snd b) (world s)")
  show ?thesis
  proof (cases r)
    case (Inl e)
    then show ?thesis using assms t by (simp add: batch_body_def)
  next
    case (Inr loss)
    let ?s1 = "s\<lparr>world := gradient_step co loss w, pbar_n := pbar_n s + 1\<rparr>"
    have s1: "\<not> decided_to_stop_early ?s1" using assms(2) by simp
    show ?thesis
    proof (cases "HOW_OFTEN cfg \<noteq> 0 \<and> (pbar_n ?s1 + 1) mod HOW_OFTEN cfg = 0")
      case True
      then have "record_diagnostics co cfg loss ?s1 = Normal s'"
        using assms(1) t Inr by (simp add: batch_body_def Let_def)
      then show ?thesis
        using record_diagnostics_Normal s1 by blast
    next
      case False
      then have "s' = ?s1"
        using assms(1) t Inr by (auto simp: batch_body_def Let_def split: if_splits)
      then show ?thesis using s1 by simp
    qed
  qed
qed

lemma epoch_loop_decided:
  "decided_to_stop_early s \<Longrightarrow> epoch_loop co cfg es s = Normal s"
  by (induction es) (simp_all add: epoch_body_def)

lemma checkpoint_loop_decided:
  "decided_to_stop_early s \<Longrightarrow> checkpoint_loop co cfg ns s = Normal s"
  by (induction ns) simp_all

lemma save_display_kept:
  "world (display cfg (save_results co cfg s)) = world s
   \<and> decided_to_stop_early (display cfg (save_results co cfg s)) = decided_to_stop_early s"
  by (simp add: display_def save_results_def emit_def set_item_def Let_def split: option.splits)

lemma rest_after_stop:
  assumes "keeps params co" and "decided_to_stop_early s1"
  shows "params (world (state_of
           (and_then
              (and_then (evaluate co cfg s1)
                 (\<lambda>s2. Normal (display cfg (save_results co cfg s2))))
              (checkpoint_loop co cfg rest)))) = params (world s1)"
proof -
  obtain xs where u: "untouched params xs s1 (state_of (evaluate co cfg s1))"
    using evaluate_untouched [OF assms(1)] by blast
  show ?thesis
  proof (cases "evaluate co cfg s1")
    case (Normal s2)
    let ?s3 = "display cfg (save_results co cfg s2)"
    have "decided_to_stop_early s2" and p: "params (world s2) = params (world s1)"
      using u Normal assms(2) by (simp_all add: untouched_def)
    then have "decided_to_stop_early ?s3" using save_display_kept by blast
    then have "checkpoint_loop co cfg rest ?s3 = Normal ?s3"
      by (rule checkpoint_loop_decided)
    then show ?thesis using Normal p save_display_kept [of cfg co s2] by simp
  next
    case (Break s2)
    then show ?thesis using u by (simp add: untouched_def)
  next
    case (Raised e s2)
    then show ?thesis using u by (simp add: untouched_def)
  qed
qed

text \<open>Claim C4. The mini-batch step at which the early stopper answers True ends by
  \<^verbatim>\<open>break\<close> with the flag set, and the mini-batch loop returns its state at once,
  whatever mini-batches remain; a step that ends normally leaves an unset flag unset. With
  the flag set, the epoch loop and the checkpoint loop return the state unchanged whatever
  epochs and boundaries remain: no training, no evaluation and nothing written. When the
  training block of a boundary ends with the flag set, everything that follows until the
  end of the run (the evaluation and persistence of that boundary, which do run, and the
  remaining boundaries) leaves every part of the world that only gradient steps can change
  as it is.\<close>

theorem early_stop_unwinding:
  "(batch_body co cfg b s = Break s' \<longrightarrow>
      decided_to_stop_early s' \<and> batch_loop co cfg (b # bs) s = Normal s')
   \<and> (batch_body co cfg b s = Normal s' \<and> \<not> decided_to_stop_early s \<longrightarrow>
      \<not> decided_to_stop_early s')
   \<and> (decided_to_stop_early s \<longrightarrow>
      epoch_body co cfg s = Normal s \<and> epoch_loop co cfg es s = Normal s
      \<and> checkpoint_loop co cfg ns s = Normal s)
   \<and> (\<not> decided_to_stop_early s \<and> train_to_checkpoint co cfg n_epochs s = Normal s1
      \<and> decided_to_stop_early s1 \<and> keeps params co \<longrightarrow>
      params (world (state_of (checkpoint_loop co cfg (n_epochs # ns) s)))
        = params (world s1))"
proof -
  have "batch_body co cfg b s = Break s' \<longrightarrow>
      decided_to_stop_early s' \<and> batch_loop co cfg (b # bs) s = Normal s'"
    using batch_body_Break by fastforce
  moreover have "batch_body co cfg b s = Normal s' \<and> \<not> decided_to_stop_early s \<longrightarrow>
      \<not> decided_to_stop_early s'"
    using batch_body_Normal by blast
  moreover have "decided_to_stop_early s \<longrightarrow>
      epoch_body co cfg s = Normal s \<and> epoch_loop co cfg es s = Normal s
      \<and> checkpoint_loop co cfg ns s = Normal s"
    by (simp add: epoch_body_def epoch_loop_decided checkpoint_loop_decided)
  moreover have "\<not> decided_to_stop_early s \<and> train_to_checkpoint co cfg n_epochs s = Normal s1
      \<and> decided_to_stop_early s1 \<and> keeps params co \<longrightarrow>
      params (world (state_of (checkpoint_loop co cfg (n_epochs # ns) s)))
        = params (world s1)"
    using rest_after_stop [of params co s1 cfg ns] by (simp add: checkpoint_body_def)
  ultimately show ?thesis by blast
qed

lemmas stopper_defs = stopping_config_def early_stopper_call_def improvement_def
  EarlyStopper_init_def

text \<open>The theorem on the toy run with early stopping: the first mini-batch step records
  an improvement, the second makes the early stopper answer True. The mini-batch loop ends
  there although a mini-batch remains, the remaining epochs and the boundary 3 change
  nothing, and the run ends with the two gradient steps made before the decision.\<close>

theorem early_stop_unwinding_witness:
  "batch_body step_counter stopping_config ([0], [0]) (initial_state stopping_config [] (0::nat))
     = Normal ((initial_state stopping_config [] (0::nat))
         \<lparr>world := 1, train_loss_curve := [0], val_loss_curve := [1],
          early_stopper := Some \<lparr>delta = 1/20, patience = 1, best = Some 1, counter = 0\<rparr>,
          pbar_n := 1\<rparr>)
   \<and> batch_loop step_counter stopping_config [([1], [1]), ([2], [2])]
       ((initial_state stopping_config [] (0::nat))
         \<lparr>world := 1, train_loss_curve := [0], val_loss_curve := [1],
          early_stopper := Some \<lparr>delta = 1/20, patience = 1, best = Some 1, counter = 0\<rparr>,
          pbar_n := 1\<rparr>)
     = Normal ((initial_state stopping_config [] (0::nat))
         \<lparr>world := 2, train_loss_curve := [0, 1], val_loss_curve := [1, 2],
          decided_to_stop_early := True,
          early_stopper := Some \<lparr>delta = 1/20, patience = 1, best = Some 1, counter = 1\<rparr>,
          pbar_n := 2\<rparr>)
   \<and> epoch_loop step_counter stopping_config [0, 1]
       ((initial_state stopping_config [] (0::nat))
         \<lparr>world := 2, train_loss_curve := [0, 1], val_loss_curve := [1, 2],
          decided_to_stop_early := True,
          early_stopper := Some \<lparr>delta = 1/20, patience = 1, best = Some 1, counter = 1\<rparr>,
          pbar_n := 2\<rparr>)
     = Normal ((initial_state stopping_config [] (0::nat))
         \<lparr>world := 2, train_loss_curve := [0, 1], val_loss_curve := [1, 2],
          decided_to_stop_early := True,
          early_stopper := Some \<lparr>delta = 1/20, patience = 1, best = Some 1, counter = 1\<rparr>,
          pbar_n := 2\<rparr>)
   \<and> checkpoint_loop step_counter stopping_config [3]
       ((initial_state stopping_config [] (0::nat))
         \<lparr>world := 2, train_loss_curve := [0, 1], val_loss_curve := [1, 2],
          decided_to_stop_early := True,
          early_stopper := Some \<lparr>delta = 1/20, patience = 1, best = Some 1, counter = 1\<rparr>,
          pbar_n := 2\<rparr>)
     = Normal ((initial_state stopping_config [] (0::nat))
         \<lparr>world := 2, train_loss_curve := [0, 1], val_loss_curve := [1, 2],
          decided_to_stop_early := True,
          early_stopper := Some \<lparr>delta = 1/20, patience = 1, best = Some 1, counter = 1\<rparr>,
          pbar_n := 2\<rparr>)
   \<and> world (state_of (checkpoint_loop step_counter stopping_config [2, 3]
                         (initial_state stopping_config [] (0::nat)))) = 2"
proof -
  let ?co = step_counter
  let ?cfg = stopping_config
  let ?S0 = "initial_state stopping_config [] (0::nat)"
  let ?S1 = "?S0\<lparr>world := 1, train_loss_curve := [0], val_loss_curve := [1],
          early_stopper := Some \<lparr>delta = 1/20, patience = 1, best = Some 1, counter = 0\<rparr>,
          pbar_n := 1\<rparr>"
  let ?S2 = "?S0\<lparr>world := 2, train_loss_curve := [0, 1], val_loss_curve := [1, 2],
          decided_to_stop_early := True,
          early_stopper := Some \<lparr>delta = 1/20, patience = 1, best = Some 1, counter = 1\<rparr>,
          pbar_n := 2\<rparr>"
  have b0: "batch_body ?co ?cfg ([0], [0]) ?S0 = Normal ?S1"
    by (simp add: run_defs toy_defs stopper_defs)
  have b1: "batch_body ?co ?cfg ([1], [1]) ?S1 = Break ?S2"
    by (simp add: run_defs toy_defs stopper_defs)
  have f0: "\<not> decided_to_stop_early ?S0" by (simp add: initial_state_def)
  have f2: "decided_to_stop_early ?S2" by simp
  have tr: "train_to_checkpoint ?co ?cfg 2 ?S0 = Normal (?S2\<lparr>last_checkpoint := 2\<rparr>)"
    by (simp add: run_defs toy_defs stopper_defs)
  have f3: "decided_to_stop_early (?S2\<lparr>last_checkpoint := 2\<rparr>)" by simp
  have k: "keeps (\<lambda>w. w) ?co" by (simp add: keeps_def step_counter_def)
  note t0 = early_stop_unwinding
    [of ?co ?cfg "([0], [0])" ?S0 ?S1 "[]" "[0, 1]" "[3]" 2 "?S2\<lparr>last_checkpoint := 2\<rparr>" "\<lambda>w. w"]
  note t1 = early_stop_unwinding
    [of ?co ?cfg "([1], [1])" ?S1 ?S2 "[([2], [2])]" "[0, 1]" "[3]" 2 ?S2 "\<lambda>w. w"]
  note t2 = early_stop_unwinding
    [of ?co ?cfg "([1], [1])" ?S2 ?S2 "[]" "[0, 1]" "[3]" 2 ?S2 "\<lambda>w. w"]
  from t0 b0 f0 have 1: "\<not> decided_to_stop_early ?S1" by blast
  from t1 b1 have 2: "batch_loop ?co ?cfg [([1], [1]), ([2], [2])] ?S1 = Normal ?S2" by blast
  from t2 f2 have 3: "epoch_loop ?co ?cfg [0, 1] ?S2 = Normal ?S2"
    and 4: "checkpoint_loop ?co ?cfg [3] ?S2 = Normal ?S2" by blast+
  from t0 f0 tr f3 k have "world (state_of (checkpoint_loop ?co ?cfg [2, 3] ?S0))
      = world (?S2\<lparr>last_checkpoint := 2\<rparr>)" by blast
  then have 5: "world (state_of (checkpoint_loop ?co ?cfg [2, 3] ?S0)) = 2" by simp
  from b0 2 3 4 5 show ?thesis by blast
qed

section \<open>The two loss curves stay aligned\<close>

lemma rel_and_then:
  assumes "R s (state_of r)"
    and "\<And>s1. R s1 (state_of (f s1))"
    and "\<And>a b c. R a b \<Longrightarrow> R b c \<Longrightarrow> R a c"
  shows "R s (state_of (and_then r f))"
proof (cases r)
  case (Normal s1)
  then have "R s s1" using assms(1) by simp
  from assms(3) [OF this assms(2) [of s1]] show ?thesis using Normal by simp
qed (use assms(1) in simp_all)

lemma outcome_ok_and_then:
  assumes "outcome_ok P Q r" and "\<And>s. P s \<Longrightarrow> outcome_ok P Q (f s)"
  shows "outcome_ok P Q (and_then r f)"
  using assms by (cases r) simp_all

text \<open>Entries of the hyperparameter record whose key does not start with
  \<^verbatim>\<open>METRIC_\<close> survive the metrics.\<close>

lemma assign_metric_entry:
  "key \<noteq> k \<Longrightarrow>
   map_of (hyperparameters (state_of (assign_metric co key f args s))) k
     = map_of (hyperparameters s) k"
  by (cases "scalar_metric co f args (world s)")
     (auto simp: assign_metric_def set_item_def AList.update_conv' split: sum.splits)

lemma assign_metric_pair_entry:
  "key1 \<noteq> k \<Longrightarrow> key2 \<noteq> k \<Longrightarrow>
   map_of (hyperparameters (state_of (assign_metric_pair co key1 key2 f args s))) k
     = map_of (hyperparameters s) k"
  by (cases "pair_metric co f args (world s)")
     (auto simp: assign_metric_pair_def set_item_def AList.update_conv' split: sum.splits)

lemma assign_metrics_entry:
  "k \<notin> fst ` set ms \<Longrightarrow>
   map_of (hyperparameters (state_of (assign_metrics co args ms s))) k
     = map_of (hyperparameters s) k"
proof (induction ms arbitrary: s)
  case Nil
  show ?case by simp
next
  case (Cons m ms)
  have 1: "map_of (hyperparameters (state_of
             (assign_metric co (fst m) (fst (snd m)) (args @ snd (snd m)) s))) k
           = map_of (hyperparameters s) k"
    using Cons.prems by (intro assign_metric_entry) auto
  have 2: "\<And>s1. map_of (hyperparameters (state_of (assign_metrics co args ms s1))) k
           = map_of (hyperparameters s1) k"
    using Cons.IH Cons.prems by simp
  show ?case
    using rel_and_then [where R = "\<lambda>s s'. map_of (hyperparameters s') k = map_of (hyperparameters s) k",
        OF 1 2]
    by simp
qed

lemma not_metric_key:
  "\<not> startswith k ''METRIC_'' \<Longrightarrow> k \<noteq> ''METRIC_'' @ rest"
  by (auto simp: startswith_def)

lemma entry_and_then:
  assumes "map_of (hyperparameters (state_of r)) k = map_of (hyperparameters s) k"
    and "\<And>s1. map_of (hyperparameters (state_of (f s1))) k = map_of (hyperparameters s1) k"
  shows "map_of (hyperparameters (state_of (and_then r f))) k = map_of (hyperparameters s) k"
  using assms by (cases r) simp_all

lemma grid_metrics_entry:
  assumes "\<not> startswith k ''METRIC_''"
  shows "map_of (hyperparameters (state_of (grid_metrics co cfg q sh s))) k
           = map_of (hyperparameters s) k"
proof -
  have a: "map_of (hyperparameters (state_of (assign_metric co (''METRIC_'' @ rest) f args s1))) k
           = map_of (hyperparameters s1) k" for rest f args s1
    using not_metric_key [OF assms] by (intro assign_metric_entry) auto
  have b: "map_of (hyperparameters (state_of
             (assign_metric_pair co (''METRIC_'' @ r1) (''METRIC_'' @ r2) f args s1))) k
           = map_of (hyperparameters s1) k" for r1 r2 f args s1
    using not_metric_key [OF assms] by (intro assign_metric_pair_entry) auto
  show ?thesis
    unfolding grid_metrics_def
    using a b
    by (auto split: option.splits prod.splits intro!: entry_and_then)
qed

lemma try_grid_metrics_entry:
  assumes "\<not> startswith k ''METRIC_''"
  shows "map_of (hyperparameters (state_of (try_grid_metrics co cfg q sh s))) k
           = map_of (hyperparameters s) k"
  using grid_metrics_entry [OF assms, of co cfg q sh s]
  by (cases "grid_metrics co cfg q sh s") (simp_all add: try_grid_metrics_def)

lemma uncertainty_metrics_entry:
  assumes "\<not> startswith k ''METRIC_''"
  shows "map_of (hyperparameters (state_of (uncertainty_metrics co cfg p q s))) k
           = map_of (hyperparameters s) k"
proof -
  have b: "map_of (hyperparameters (state_of
             (assign_metric_pair co (''METRIC_'' @ r1) (''METRIC_'' @ r2) f args s1))) k
           = map_of (hyperparameters s1) k" for r1 r2 f args s1
    using not_metric_key [OF assms] by (intro assign_metric_pair_entry) auto
  show ?thesis
    unfolding uncertainty_metrics_def Let_def
    using b try_grid_metrics_entry [OF assms]
    by (auto intro!: entry_and_then)
qed

lemma compute_metrics_entry:
  assumes "\<not> startswith k ''METRIC_''"
  shows "map_of (hyperparameters (state_of (compute_metrics co cfg p s))) k
           = map_of (hyperparameters s) k"
proof (cases "dropout cfg")
  case True
  have "k \<notin> fst ` set (stochastic_metrics cfg)"
    using assms by (auto simp: stochastic_metrics_def startswith_def)
  from assign_metrics_entry [OF this] show ?thesis
    using True uncertainty_metrics_entry [OF assms]
    by (auto simp: compute_metrics_def intro!: entry_and_then)
next
  case False
  have "k \<notin> fst ` set deterministic_metrics"
    using assms by (auto simp: deterministic_metrics_def startswith_def)
  from assign_metrics_entry [OF this] show ?thesis
    using False by (simp add: compute_metrics_def)
qed

text \<open>After an evaluation that ends normally the record holds the curves as they are.\<close>

lemma record_run_recorded:
  "record_run co cfg s = Normal s' \<Longrightarrow> curves_recorded s'
     \<and> train_loss_curve s' = train_loss_curve s \<and> val_loss_curve s' = val_loss_curve s"
  by (auto simp: record_run_def curves_recorded_def set_item_def AList.update_conv'
      split: if_splits)

lemma compute_metrics_recorded:
  assumes "curves_recorded s"
  shows "curves_recorded (state_of (compute_metrics co cfg p s))"
proof -
  have u: "untouched (\<lambda>w. ()) [] s (state_of (compute_metrics co cfg p s))"
    by (rule compute_metrics_untouched) (simp add: keeps_def)
  have "\<not> startswith ''train_loss_curve'' ''METRIC_''" "\<not> startswith ''val_loss_curve'' ''METRIC_''"
    by (simp_all add: startswith_def)
  from this [THEN compute_metrics_entry, of co cfg p s] show ?thesis
    using assms u by (simp add: curves_recorded_def untouched_def)
qed

lemma evaluate_recorded:
  assumes "evaluate co cfg s = Normal s'"
  shows "curves_recorded s'"
proof -
  obtain r w where p: "predict co cfg False (x_test cfg) (world s) = (r, w)"
    by (cases "predict co cfg False (x_test cfg) (world s)")
  show ?thesis
  proof (cases r)
    case (Inl e)
    then show ?thesis using assms p by (simp add: evaluate_def)
  next
    case (Inr predictions)
    show ?thesis
    proof (cases "try_load_grids co cfg (s\<lparr>world := w\<rparr>)")
      case (Normal s1)
      show ?thesis
      proof (cases "record_run co cfg s1")
        case n2: (Normal s2)
        then have "compute_metrics co cfg predictions s2 = Normal s'"
          using assms p Inr Normal by (simp add: evaluate_def)
        then show ?thesis
          using compute_metrics_recorded [of s2 co cfg predictions] record_run_recorded [OF n2]
          by simp
      qed (use assms p Inr Normal in \<open>simp_all add: evaluate_def\<close>)
    qed (use assms p Inr in \<open>simp_all add: evaluate_def\<close>)
  qed
qed

text \<open>The training side: a tick appends one value to each curve.\<close>

lemma record_diagnostics_appends:
  assumes "record_diagnostics co cfg loss s = Normal s' \<or> record_diagnostics co cfg loss s = Break s'"
  shows "length (train_loss_curve s') = length (train_loss_curve s) + 1
         \<and> length (val_loss_curve s') = length (val_loss_curve s) + 1
         \<and> effects s' = effects s"
  using assms
  by (auto simp: record_diagnostics_def Let_def
      split: prod.splits sum.splits option.splits if_splits)

lemma record_diagnostics_Raised:
  "record_diagnostics co cfg loss s = Raised e s' \<Longrightarrow> effects s' = effects s"
  by (auto simp: record_diagnostics_def Let_def
      split: prod.splits sum.splits option.splits if_splits)

lemma record_diagnostics_aligned:
  assumes "run_aligned s"
  shows "outcome_ok run_aligned records_aligned (record_diagnostics co cfg loss s)"
proof (cases "record_diagnostics co cfg loss s")
  case (Normal s')
  then show ?thesis
    using record_diagnostics_appends [of co cfg loss s s'] assms
    by (simp add: run_aligned_def curves_aligned_def records_aligned_def)
next
  case (Break s')
  then show ?thesis
    using record_diagnostics_appends [of co cfg loss s s'] assms
    by (simp add: run_aligned_def curves_aligned_def records_aligned_def)
next
  case (Raised e s')
  then show ?thesis
    using record_diagnostics_Raised [of co cfg loss s e s'] assms
    by (simp add: run_aligned_def records_aligned_def)
qed

lemma batch_body_aligned:
  assumes "run_aligned s"
  shows "outcome_ok run_aligned records_aligned (batch_body co cfg b s)"
proof -
  obtain r w where t: "training_loss co cfg (fst b) (snd b) (world s) = (r, w)"
    by (cases "training_loss co cfg (fst b) (snd b) (world s)")
  show ?thesis
  proof (cases r)
    case (Inl e)
    then show ?thesis using assms t
      by (simp add: batch_body_def run_aligned_def records_aligned_def)
  next
    case (Inr loss)
    let ?s1 = "s\<lparr>world := gradient_step co loss w, pbar_n := pbar_n s + 1\<rparr>"
    have s1: "run_aligned ?s1"
      using assms by (simp add: run_aligned_def curves_aligned_def records_aligned_def)
    then have q1: "records_aligned ?s1" by (simp add: run_aligned_def)
    show ?thesis
      using t Inr s1 q1 record_diagnostics_aligned [OF s1, of co cfg loss]
      by (simp add: batch_body_def Let_def)
  qed
qed

lemma batch_loop_aligned:
  "run_aligned s \<Longrightarrow> outcome_ok run_aligned records_aligned (batch_loop co cfg bs s)"
proof (induction bs arbitrary: s)
  case Nil
  then show ?case by simp
next
  case (Cons b bs)
  from batch_body_aligned [OF Cons.prems, of co cfg b] Cons.IH
  show ?case by (cases "batch_body co cfg b s") simp_all
qed

lemma epoch_loop_aligned:
  "run_aligned s \<Longrightarrow> outcome_ok run_aligned records_aligned (epoch_loop co cfg es s)"
proof (induction es arbitrary: s)
  case Nil
  then show ?case by simp
next
  case (Cons e es)
  have "outcome_ok run_aligned records_aligned (epoch_body co cfg s)"
    using Cons.prems by (simp add: epoch_body_def batch_loop_aligned)
  from outcome_ok_and_then [OF this Cons.IH] show ?case by simp
qed

lemma train_to_checkpoint_aligned:
  assumes "run_aligned s"
  shows "outcome_ok run_aligned records_aligned (train_to_checkpoint co cfg n s)"
proof -
  have "run_aligned (s\<lparr>pbar_n := last_checkpoint s\<rparr>)"
    using assms by (simp add: run_aligned_def curves_aligned_def records_aligned_def)
  from epoch_loop_aligned [OF this]
  show ?thesis
    unfolding train_to_checkpoint_def
    by (rule outcome_ok_and_then)
       (simp add: run_aligned_def curves_aligned_def records_aligned_def)
qed

text \<open>Evaluation and persistence.\<close>

lemma evaluate_aligned:
  assumes "run_aligned s"
  shows "run_aligned (state_of (evaluate co cfg s))"
proof -
  obtain xs where xs: "xs = [] \<or> xs = [Warn GridsMissing]"
    and u: "untouched (\<lambda>w. ()) xs s (state_of (evaluate co cfg s))"
    using evaluate_untouched [of "\<lambda>w. ()" co s cfg] by (auto simp: keeps_def)
  show ?thesis
    using assms u xs
    by (auto simp: run_aligned_def curves_aligned_def records_aligned_def untouched_def)
qed

lemma curve_entry_kept:
  "k \<noteq> ''train_loss_curve'' \<Longrightarrow> k \<noteq> ''val_loss_curve'' \<Longrightarrow> curves_recorded s
   \<Longrightarrow> curves_recorded (set_item k v s)"
  by (simp add: curves_recorded_def set_item_def AList.update_conv')

lemma map_of_map_snd:
  "map_of (map (\<lambda>kv. (fst kv, f (snd kv))) xs) k = map_option f (map_of xs k)"
  by (induction xs) auto

lemma map_of_record_content:
  "map_of (record_content s) k = map_option (content s) (map_of (hyperparameters s) k)"
  by (simp add: record_content_def map_of_map_snd)

lemma save_results_aligned:
  assumes "run_aligned s" and "curves_recorded s"
  shows "run_aligned (save_results co cfg s)"
proof (cases "startswith (input_json_filename cfg) ''demo''")
  case True
  then show ?thesis using assms(1)
    by (simp add: save_results_def emit_def run_aligned_def curves_aligned_def
        records_aligned_def)
next
  case False
  show ?thesis
    using False assms
    by (auto simp: save_results_def Let_def emit_def set_item_def run_aligned_def
        curves_aligned_def records_aligned_def curves_recorded_def curve_value_def
        map_of_record_content content_def AList.update_conv' split: option.splits)
qed

lemma display_aligned: "run_aligned s \<Longrightarrow> run_aligned (display cfg s)"
  by (simp add: display_def emit_def run_aligned_def curves_aligned_def records_aligned_def)

lemma checkpoint_body_aligned:
  assumes "run_aligned s"
  shows "outcome_ok run_aligned records_aligned (checkpoint_body co cfg n s)"
proof -
  have rest: "outcome_ok run_aligned records_aligned
         (and_then (evaluate co cfg s1)
            (\<lambda>s2. Normal (display cfg (save_results co cfg s2))))"
    if "run_aligned s1" for s1
  proof (cases "evaluate co cfg s1")
    case (Normal s2)
    have "run_aligned s2" using evaluate_aligned [OF that, of co cfg] Normal by simp
    from save_results_aligned [OF this evaluate_recorded [OF Normal]]
    show ?thesis using Normal by (simp add: display_aligned)
  next
    case (Break s2)
    then show ?thesis using evaluate_aligned [OF that, of co cfg] by simp
  next
    case (Raised e s2)
    then show ?thesis using evaluate_aligned [OF that, of co cfg] by (simp add: run_aligned_def)
  qed
  show ?thesis
    unfolding checkpoint_body_def
    by (rule outcome_ok_and_then [OF train_to_checkpoint_aligned [OF assms] rest])
qed

lemma checkpoint_loop_aligned:
  "run_aligned s \<Longrightarrow> outcome_ok run_aligned records_aligned (checkpoint_loop co cfg ns s)"
proof (induction ns arbitrary: s)
  case Nil
  then show ?case by simp
next
  case (Cons n ns)
  show ?case
  proof (cases "decided_to_stop_early s")
    case True
    then show ?thesis using Cons by simp
  next
    case False
    from outcome_ok_and_then [OF checkpoint_body_aligned [OF Cons.prems] Cons.IH]
    show ?thesis using False by simp
  qed
qed

lemma initial_state_aligned: "run_aligned (initial_state cfg hyper w)"
  by (simp add: initial_state_def run_aligned_def curves_aligned_def records_aligned_def)

lemma train_nn_aligned:
  "outcome_ok run_aligned records_aligned (train_nn co cfg hyper w)"
proof -
  obtain r w1 where p: "probe_dropout co cfg w = (r, w1)"
    by (cases "probe_dropout co cfg w")
  have q: "records_aligned (initial_state c hyper v)" for c and v :: 'a
    using initial_state_aligned [of c hyper v] by (simp add: run_aligned_def)
  show ?thesis
  proof (cases r)
    case (Inl e)
    then show ?thesis using p by (simp add: train_nn_def q)
  next
    case (Inr flag)
    let ?cfg = "cfg\<lparr>dropout := flag\<rparr>"
    let ?w2 = "if data_is_univariate ?cfg \<and> MAKE_GIF ?cfg then plot_nn co w1 else w1"
    show ?thesis
    proof (cases "validated_checkpoints (N_EPOCHS ?cfg)")
      case (Inl e)
      then show ?thesis using p Inr by (simp add: train_nn_def Let_def q)
    next
      case c: (Inr CHECKPOINTS)
      have "train_nn co cfg hyper w = checkpoint_loop co ?cfg CHECKPOINTS (initial_state ?cfg hyper ?w2)"
        using p Inr c by (simp add: train_nn_def Let_def)
      then show ?thesis
        using checkpoint_loop_aligned [OF initial_state_aligned, of co ?cfg CHECKPOINTS ?cfg hyper ?w2]
        by simp
    qed
  qed
qed

text \<open>Claim C10, as amended. A diagnostic tick that ends normally or by \<^verbatim>\<open>break\<close> has
  appended exactly one value to each curve, and the \<^verbatim>\<open>break\<close> comes after both appends.
  The two curves have the same length at the start; after every mini-batch step, every
  epoch loop and every checkpoint loop that began with aligned curves and did not end by an
  exception; and at the end of a run that ends normally. However the run ends, every
  record that \<^verbatim>\<open>dict_to_json\<close> has written holds a train-loss curve and a
  validation-loss curve of the same length. Where a block ends by an exception only the
  written records are spoken for: an exception between the two appends of a tick leaves
  the train-loss curve one value longer than the validation-loss curve.\<close>

theorem loss_curves_aligned:
  "outcome_ok run_aligned records_aligned (train_nn co cfg hyper w)
   \<and> run_aligned (initial_state cfg hyper w)
   \<and> (run_aligned s \<longrightarrow>
        outcome_ok run_aligned records_aligned (batch_body co cfg b s)
        \<and> outcome_ok run_aligned records_aligned (epoch_loop co cfg es s)
        \<and> outcome_ok run_aligned records_aligned (checkpoint_loop co cfg ns s))
   \<and> (record_diagnostics co cfg loss s = Normal s' \<or> record_diagnostics co cfg loss s = Break s'
        \<longrightarrow> length (train_loss_curve s') = length (train_loss_curve s) + 1
            \<and> length (val_loss_curve s') = length (val_loss_curve s) + 1)"
proof -
  note train_nn_aligned [of co cfg hyper w]
  moreover note initial_state_aligned [of cfg hyper w]
  moreover have "run_aligned s \<longrightarrow>
        outcome_ok run_aligned records_aligned (batch_body co cfg b s)
        \<and> outcome_ok run_aligned records_aligned (epoch_loop co cfg es s)
        \<and> outcome_ok run_aligned records_aligned (checkpoint_loop co cfg ns s)"
    using batch_body_aligned epoch_loop_aligned checkpoint_loop_aligned by blast
  moreover have "record_diagnostics co cfg loss s = Normal s' \<or> record_diagnostics co cfg loss s = Break s'
        \<longrightarrow> length (train_loss_curve s') = length (train_loss_curve s) + 1
            \<and> length (val_loss_curve s') = length (val_loss_curve s) + 1"
    using record_diagnostics_appends by blast
  ultimately show ?thesis by blast
qed

text \<open>The theorem on the toy run with the checkpoints 1 and 2: it ends normally with two
  values in each curve, and both written records are aligned; a tick in the initial state
  makes each curve one value long.\<close>

theorem loss_curves_aligned_witness:
  "(case train_nn step_counter toy_config [] 0 of
      Normal s \<Rightarrow> train_loss_curve s = [1, 3] \<and> val_loss_curve s = [2, 4]
                  \<and> length (effects s) = 4 \<and> run_aligned s
    | _ \<Rightarrow> False)
   \<and> run_aligned (initial_state toy_config [] (0::nat))
   \<and> outcome_ok run_aligned records_aligned
        (batch_body step_counter toy_config ([0], [0]) (initial_state toy_config [] 0))
   \<and> outcome_ok run_aligned records_aligned
        (epoch_loop step_counter toy_config [0] (initial_state toy_config [] 0))
   \<and> outcome_ok run_aligned records_aligned
        (checkpoint_loop step_counter toy_config [1, 2] (initial_state toy_config [] 0))
   \<and> record_diagnostics step_counter toy_config 5 (initial_state toy_config [] 0)
       = Normal ((initial_state toy_config [] 0)\<lparr>train_loss_curve := [5], val_loss_curve := [0]\<rparr>)
   \<and> length (train_loss_curve
        ((initial_state toy_config [] (0::nat))\<lparr>train_loss_curve := [5], val_loss_curve := [0]\<rparr>))
       = length (train_loss_curve (initial_state toy_config [] (0::nat))) + 1
   \<and> length (val_loss_curve
        ((initial_state toy_config [] (0::nat))\<lparr>train_loss_curve := [5], val_loss_curve := [0]\<rparr>))
       = length (val_loss_curve (initial_state toy_config [] (0::nat))) + 1"
proof -
  let ?S0 = "initial_state toy_config [] (0::nat)"
  let ?S1 = "?S0\<lparr>train_loss_curve := [5], val_loss_curve := [0]\<rparr>"
  note t = loss_curves_aligned
    [of step_counter toy_config "[]" 0 ?S0 "([0], [0])" "[0]" "[1, 2]" 5 ?S1]
  have run: "(case train_nn step_counter toy_config [] 0 of
      Normal s \<Rightarrow> train_loss_curve s = [1, 3] \<and> val_loss_curve s = [2, 4]
                  \<and> length (effects s) = 4
    | _ \<Rightarrow> False)"
    by (simp add: run_defs toy_defs)
  from t have "outcome_ok run_aligned records_aligned (train_nn step_counter toy_config [] 0)"
    by blast
  with run have 1: "(case train_nn step_counter toy_config [] 0 of
      Normal s \<Rightarrow> train_loss_curve s = [1, 3] \<and> val_loss_curve s = [2, 4]
                  \<and> length (effects s) = 4 \<and> run_aligned s
    | _ \<Rightarrow> False)"
    by (cases "train_nn step_counter toy_config [] 0") simp_all
  from t have 2: "run_aligned ?S0" by blast
  from t 2 have 3: "outcome_ok run_aligned records_aligned
        (batch_body step_counter toy_config ([0], [0]) ?S0)
     \<and> outcome_ok run_aligned records_aligned (epoch_loop step_counter toy_config [0] ?S0)
     \<and> outcome_ok run_aligned records_aligned
        (checkpoint_loop step_counter toy_config [1, 2] ?S0)" by blast
  have tick: "record_diagnostics step_counter toy_config 5 ?S0 = Normal ?S1"
    by (simp add: run_defs toy_defs)
  from t tick have 4: "length (train_loss_curve ?S1) = length (train_loss_curve ?S0) + 1
      \<and> length (val_loss_curve ?S1) = length (val_loss_curve ?S0) + 1" by blast
  from 1 2 3 tick 4 show ?thesis by blast
qed

text \<open>On the toy run, a forward pass that fails on the held-out set ends the first tick
  between its two appends: the run ends by \<^verbatim>\<open>RuntimeError\<close> with one value in the
  train-loss curve and none in the validation-loss curve.\<close>

theorem validation_failure_counterexample:
  "train_nn failing_validation toy_config [] 0
     = Raised RuntimeError (state_of (train_nn failing_validation toy_config [] 0))
   \<and> train_loss_curve (state_of (train_nn failing_validation toy_config [] 0)) = [1]
   \<and> val_loss_curve (state_of (train_nn failing_validation toy_config [] 0)) = []
   \<and> \<not> curves_aligned (state_of (train_nn failing_validation toy_config [] 0))
   \<and> x_test toy_config = [3]"
  by (simp add: run_defs toy_defs failing_validation_def curves_aligned_def)

section \<open>The keys the metrics write\<close>

lemma keys_set_item: "keys (set_item k v s) = insert k (keys s)"
  by (auto simp: keys_def set_item_def AList.dom_update)

lemma keys_world [simp]: "keys (s\<lparr>world := w\<rparr>) = keys s"
  by (simp add: keys_def)

lemma gained_refl: "gained K s s"
  by (simp add: gained_def)

lemma gained_trans: "gained K a b \<Longrightarrow> gained K b c \<Longrightarrow> gained K a c"
  by (auto simp: gained_def)

lemma gained_mono: "K \<subseteq> L \<Longrightarrow> gained K a b \<Longrightarrow> gained L a b"
  by (auto simp: gained_def)

lemma gained_and_then:
  assumes "gained K s (state_of r)" and "\<And>s1. gained K s1 (state_of (f s1))"
  shows "gained K s (state_of (and_then r f))"
  by (rule rel_and_then [where R = "gained K", OF assms gained_trans])

lemma assign_metric_gained:
  "key \<in> K \<Longrightarrow> gained K s (state_of (assign_metric co key f args s))"
  by (cases "scalar_metric co f args (world s)")
     (auto simp: assign_metric_def gained_def keys_set_item split: sum.splits)

lemma assign_metric_pair_gained:
  "key1 \<in> K \<Longrightarrow> key2 \<in> K \<Longrightarrow>
   gained K s (state_of (assign_metric_pair co key1 key2 f args s))"
  by (cases "pair_metric co f args (world s)")
     (auto simp: assign_metric_pair_def gained_def keys_set_item split: sum.splits)

lemma assign_metric_keys:
  "assign_metric co key f args s = Normal s' \<Longrightarrow> keys s' = insert key (keys s)"
  by (cases "scalar_metric co f args (world s)")
     (auto simp: assign_metric_def keys_set_item split: sum.splits)

lemma assign_metric_pair_keys:
  "assign_metric_pair co key1 key2 f args s = Normal s' \<Longrightarrow>
   keys s' = insert key1 (insert key2 (keys s))"
  by (cases "pair_metric co f args (world s)")
     (auto simp: assign_metric_pair_def keys_set_item split: sum.splits)

lemma assign_metrics_keys:
  "assign_metrics co args ms s = Normal s' \<Longrightarrow> keys s' = keys s \<union> fst ` set ms"
proof (induction ms arbitrary: s)
  case Nil
  then show ?case by simp
next
  case (Cons m ms)
  from Cons.prems obtain s1
    where 1: "assign_metric co (fst m) (fst (snd m)) (args @ snd (snd m)) s = Normal s1"
      and 2: "assign_metrics co args ms s1 = Normal s'"
    using and_then_Normal by fastforce
  from assign_metric_keys [OF 1] Cons.IH [OF 2] show ?case by auto
qed

lemma grid_metrics_gained:
  "gained (grid_keys q) s (state_of (grid_metrics co cfg q sh s))"
  unfolding grid_metrics_def
  by (auto split: option.splits prod.splits
      intro!: gained_and_then assign_metric_gained assign_metric_pair_gained gained_refl
      simp: grid_keys_def)

lemma try_grid_metrics_gained:
  "gained (grid_keys q) s (state_of (try_grid_metrics co cfg q sh s))"
  using grid_metrics_gained [of q s co cfg sh]
  by (cases "grid_metrics co cfg q sh s") (simp_all add: try_grid_metrics_def)

lemma uncertainty_metrics_keys:
  assumes "uncertainty_metrics co cfg p q s = Normal s'"
  shows "accuracy_keys q \<subseteq> keys s' \<and> gained (accuracy_keys q \<union> grid_keys q) s s'"
proof -
  let ?show = "SHOW_DIAGNOSTICS cfg \<and> (q = VISUALIZE_DISTRIBUTION_USING_QUANTILES cfg)"
  from assms obtain s1
    where 1: "assign_metric_pair co
              (''METRIC_uncertainty_vs_accuracy_slope_'' @ tag_of q)
              (''METRIC_uncertainty_vs_accuracy_cor_'' @ tag_of q)
              ''uncertainty_vs_accuracy''
              [Pred p, Tensor (y_test cfg),
               Flag (VISUALIZE_DISTRIBUTION_USING_QUANTILES cfg), Flag q, Flag ?show,
               Flag (SHOW_DIAGNOSTICS cfg)] s = Normal s1"
      and 2: "try_grid_metrics co cfg q ?show s1 = Normal s'"
    unfolding uncertainty_metrics_def Let_def using and_then_Normal by fastforce
  have k1: "keys s1 = keys s \<union> accuracy_keys q"
    using assign_metric_pair_keys [OF 1] by (auto simp: accuracy_keys_def)
  have g: "gained (grid_keys q) s1 s'"
    using try_grid_metrics_gained [of q s1 co cfg ?show] 2 by simp
  show ?thesis using k1 g by (auto simp: gained_def)
qed

lemma stochastic_metric_keys:
  "fst ` set (stochastic_metrics cfg) =
     {''METRIC_rmse_of_median'', ''METRIC_rmse_of_mean'', ''METRIC_mae_of_median'',
      ''METRIC_mae_of_mean'', ''METRIC_max_norm_of_median'', ''METRIC_max_norm_of_mean'',
      ''METRIC_median_energy_score'', ''METRIC_coverage'',
      ''METRIC_median_avg_inverval_score''}"
  by (simp add: stochastic_metrics_def)

lemma deterministic_metric_keys:
  "fst ` set deterministic_metrics = {''METRIC_rmse'', ''METRIC_mae'', ''METRIC_max_norm''}"
  by (simp add: deterministic_metrics_def)

lemma plain_keys_apart:
  assumes "k \<in> {''METRIC_rmse'', ''METRIC_mae'', ''METRIC_max_norm''}"
  shows "k \<notin> fst ` set (stochastic_metrics cfg) \<union> accuracy_keys True \<union> accuracy_keys False
               \<union> grid_keys True \<union> grid_keys False"
  using assms
  by (auto simp: stochastic_metric_keys accuracy_keys_def grid_keys_def tag_of_def)

lemma compute_metrics_stochastic_keys:
  assumes "compute_metrics co cfg p s = Normal s'" and "dropout cfg"
  shows "keys s \<union> fst ` set (stochastic_metrics cfg) \<union> accuracy_keys True \<union> accuracy_keys False
           \<subseteq> keys s'
         \<and> keys s' \<subseteq> keys s \<union> fst ` set (stochastic_metrics cfg)
              \<union> accuracy_keys True \<union> accuracy_keys False \<union> grid_keys True \<union> grid_keys False"
proof -
  from assms obtain s1
    where 1: "assign_metrics co [Pred p, Tensor (y_test cfg)] (stochastic_metrics cfg) s = Normal s1"
      and r: "and_then (uncertainty_metrics co cfg p True s1)
                (uncertainty_metrics co cfg p False) = Normal s'"
    unfolding compute_metrics_def using and_then_Normal by fastforce
  from r obtain s2
    where 2: "uncertainty_metrics co cfg p True s1 = Normal s2"
      and 3: "uncertainty_metrics co cfg p False s2 = Normal s'"
    using and_then_Normal by fastforce
  from assign_metrics_keys [OF 1] uncertainty_metrics_keys [OF 2] uncertainty_metrics_keys [OF 3]
  show ?thesis by (auto simp: gained_def)
qed

lemma compute_metrics_deterministic_keys:
  assumes "compute_metrics co cfg p s = Normal s'" and "\<not> dropout cfg"
  shows "keys s' = keys s \<union> {''METRIC_rmse'', ''METRIC_mae'', ''METRIC_max_norm''}"
  using assms assign_metrics_keys [of co _ deterministic_metrics s s']
  by (simp add: compute_metrics_def deterministic_metric_keys)

lemma load_grids_hyperparameters:
  "hyperparameters (state_of (load_grids co cfg s)) = hyperparameters s"
  by (auto simp: load_grids_def Let_def split: option.splits prod.splits sum.splits)

lemma try_load_grids_keys: "keys (state_of (try_load_grids co cfg s)) = keys s"
  using load_grids_hyperparameters [of co cfg s]
  by (cases "load_grids co cfg s") (auto simp: try_load_grids_def keys_def emit_def)

lemma record_run_keys:
  "record_run co cfg s = Normal s' \<Longrightarrow>
   keys s' = keys s \<union> {''n_epochs'', ''compute_time'', ''val_loss_curve'', ''train_loss_curve''}"
  by (auto simp: record_run_def keys_set_item split: if_splits)

lemma evaluate_Normal:
  assumes "evaluate co cfg s0 = Normal s'"
  shows "\<exists>p s. compute_metrics co cfg p s = Normal s'
           \<and> keys s = keys s0
               \<union> {''n_epochs'', ''compute_time'', ''val_loss_curve'', ''train_loss_curve''}"
proof -
  obtain r w where p: "predict co cfg False (x_test cfg) (world s0) = (r, w)"
    by (cases "predict co cfg False (x_test cfg) (world s0)")
  show ?thesis
  proof (cases r)
    case (Inl e)
    then show ?thesis using assms p by (simp add: evaluate_def)
  next
    case (Inr predictions)
    then have a: "and_then (try_load_grids co cfg (s0\<lparr>world := w\<rparr>))
        (\<lambda>s1. and_then (record_run co cfg s1) (compute_metrics co cfg predictions)) = Normal s'"
      using assms p by (simp add: evaluate_def)
    from and_then_Normal [OF a] obtain s1
      where 1: "try_load_grids co cfg (s0\<lparr>world := w\<rparr>) = Normal s1"
        and b: "and_then (record_run co cfg s1) (compute_metrics co cfg predictions) = Normal s'"
      by blast
    from and_then_Normal [OF b] obtain s2 where 2: "record_run co cfg s1 = Normal s2"
      and 3: "compute_metrics co cfg predictions s2 = Normal s'"
      by blast
    have "keys s1 = keys s0"
      using try_load_grids_keys [of co cfg "s0\<lparr>world := w\<rparr>"] 1 by simp
    then have k: "keys s2 = keys s0
               \<union> {''n_epochs'', ''compute_time'', ''val_loss_curve'', ''train_loss_curve''}"
      using record_run_keys [OF 2] by (simp only:)
    show ?thesis
      by (rule exI [of _ predictions], rule exI [of _ s2], rule conjI [OF 3 k])
  qed
qed

text \<open>Claim C7. Lines 292-318, when they end normally, give the record the following
  keys. With the flag True: the nine keys for RMSE, MAE and max-norm of the median and of
  the mean, the median energy score, the coverage and the median interval score, and the
  slope and correlation of uncertainty against accuracy for both uncertainty
  representations; beyond those and the keys it had, the record holds at most the
  grid-dependent keys, so none of \<^verbatim>\<open>METRIC_rmse\<close>, \<^verbatim>\<open>METRIC_mae\<close>, \<^verbatim>\<open>METRIC_max_norm\<close>
  unless it was there before. With the flag False: exactly the keys it had and those
  three. Every evaluation that ends normally ends with these lines, run on the record to
  which the realised epoch count, the compute time and the two loss curves were added.\<close>

theorem metrics_dispatch:
  "(compute_metrics co cfg p s = Normal s' \<and> dropout cfg \<longrightarrow>
      {''METRIC_rmse_of_median'', ''METRIC_rmse_of_mean'', ''METRIC_mae_of_median'',
       ''METRIC_mae_of_mean'', ''METRIC_max_norm_of_median'', ''METRIC_max_norm_of_mean'',
       ''METRIC_median_energy_score'', ''METRIC_coverage'',
       ''METRIC_median_avg_inverval_score''}
        \<union> accuracy_keys True \<union> accuracy_keys False \<subseteq> keys s'
      \<and> keys s \<subseteq> keys s'
      \<and> keys s' \<subseteq> keys s \<union> fst ` set (stochastic_metrics cfg)
            \<union> accuracy_keys True \<union> accuracy_keys False \<union> grid_keys True \<union> grid_keys False
      \<and> (\<forall>k \<in> {''METRIC_rmse'', ''METRIC_mae'', ''METRIC_max_norm''}.
            k \<in> keys s' \<longrightarrow> k \<in> keys s))
   \<and> (compute_metrics co cfg p s = Normal s' \<and> \<not> dropout cfg \<longrightarrow>
      keys s' = keys s \<union> {''METRIC_rmse'', ''METRIC_mae'', ''METRIC_max_norm''})
   \<and> (evaluate co cfg s0 = Normal s' \<longrightarrow>
      (\<exists>p s. compute_metrics co cfg p s = Normal s'
         \<and> keys s = keys s0
             \<union> {''n_epochs'', ''compute_time'', ''val_loss_curve'', ''train_loss_curve''}))"
proof (intro conjI impI)
  assume a: "compute_metrics co cfg p s = Normal s' \<and> dropout cfg"
  then have c: "compute_metrics co cfg p s = Normal s'" and d: "dropout cfg" by simp_all
  note k = compute_metrics_stochastic_keys [OF c d]
  from k have "fst ` set (stochastic_metrics cfg)
        \<union> accuracy_keys True \<union> accuracy_keys False \<subseteq> keys s'"
    by simp
  then show "{''METRIC_rmse_of_median'', ''METRIC_rmse_of_mean'', ''METRIC_mae_of_median'',
       ''METRIC_mae_of_mean'', ''METRIC_max_norm_of_median'', ''METRIC_max_norm_of_mean'',
       ''METRIC_median_energy_score'', ''METRIC_coverage'',
       ''METRIC_median_avg_inverval_score''}
        \<union> accuracy_keys True \<union> accuracy_keys False \<subseteq> keys s'"
    unfolding stochastic_metric_keys .
  from k show "keys s \<subseteq> keys s'" by simp
  from k show upper: "keys s' \<subseteq> keys s \<union> fst ` set (stochastic_metrics cfg)
            \<union> accuracy_keys True \<union> accuracy_keys False \<union> grid_keys True \<union> grid_keys False"
    by simp
  show "\<forall>k \<in> {''METRIC_rmse'', ''METRIC_mae'', ''METRIC_max_norm''}.
            k \<in> keys s' \<longrightarrow> k \<in> keys s"
  proof (intro ballI impI)
    fix k assume 1: "k \<in> {''METRIC_rmse'', ''METRIC_mae'', ''METRIC_max_norm''}"
      and 2: "k \<in> keys s'"
    from plain_keys_apart [OF 1, of cfg] 2 upper show "k \<in> keys s"
      by (simp only: Un_iff subset_iff) metis
  qed
next
  assume "compute_metrics co cfg p s = Normal s' \<and> \<not> dropout cfg"
  then show "keys s' = keys s \<union> {''METRIC_rmse'', ''METRIC_mae'', ''METRIC_max_norm''}"
    using compute_metrics_deterministic_keys by blast
next
  assume "evaluate co cfg s0 = Normal s'"
  then show "\<exists>p s. compute_metrics co cfg p s = Normal s'
         \<and> keys s = keys s0
             \<union> {''n_epochs'', ''compute_time'', ''val_loss_curve'', ''train_loss_curve''}"
    by (rule evaluate_Normal)
qed

lemmas metric_defs = compute_metrics_def deterministic_metrics_def stochastic_metrics_def
  assign_metric_def assign_metric_pair_def uncertainty_metrics_def try_grid_metrics_def
  grid_metrics_def tag_of_def set_item_def

text \<open>The theorem on the two toy networks, each starting from an empty record: the
  deterministic one ends with the three plain keys and nothing else, the stochastic one
  with the distributional keys and none of the plain ones; and the evaluation of the
  deterministic one ends with the metrics run on a record of the four run entries.\<close>

theorem metrics_dispatch_witness:
  "keys (state_of (compute_metrics step_counter toy_config (Point [0])
                     (initial_state toy_config [] 0)))
     = {''METRIC_rmse'', ''METRIC_mae'', ''METRIC_max_norm''}
   \<and> {''METRIC_rmse_of_median'', ''METRIC_rmse_of_mean'', ''METRIC_mae_of_median'',
       ''METRIC_mae_of_mean'', ''METRIC_max_norm_of_median'', ''METRIC_max_norm_of_mean'',
       ''METRIC_median_energy_score'', ''METRIC_coverage'',
       ''METRIC_median_avg_inverval_score''}
        \<union> accuracy_keys True \<union> accuracy_keys False
      \<subseteq> keys (state_of (compute_metrics noisy (toy_config\<lparr>dropout := True\<rparr>)
                          (Samples [[0], [1]])
                          (initial_state (toy_config\<lparr>dropout := True\<rparr>) [] 0)))
   \<and> ''METRIC_rmse''
        \<notin> keys (state_of (compute_metrics noisy (toy_config\<lparr>dropout := True\<rparr>)
                              (Samples [[0], [1]])
                              (initial_state (toy_config\<lparr>dropout := True\<rparr>) [] 0)))
   \<and> ''METRIC_mae''
        \<notin> keys (state_of (compute_metrics noisy (toy_config\<lparr>dropout := True\<rparr>)
                              (Samples [[0], [1]])
                              (initial_state (toy_config\<lparr>dropout := True\<rparr>) [] 0)))
   \<and> ''METRIC_max_norm''
        \<notin> keys (state_of (compute_metrics noisy (toy_config\<lparr>dropout := True\<rparr>)
                              (Samples [[0], [1]])
                              (initial_state (toy_config\<lparr>dropout := True\<rparr>) [] 0)))
   \<and> (\<exists>p s. compute_metrics step_counter toy_config p s
               = Normal (state_of (evaluate step_counter toy_config
                                     (initial_state toy_config [] 0)))
         \<and> keys s = {''n_epochs'', ''compute_time'', ''val_loss_curve'', ''train_loss_curve''})"
proof -
  let ?cfgT = "toy_config\<lparr>dropout := True\<rparr>"
  let ?S0 = "initial_state toy_config [] (0::nat)"
  let ?T0 = "initial_state ?cfgT [] (0::nat)"
  let ?D = "compute_metrics step_counter toy_config (Point [0]) ?S0"
  let ?M = "compute_metrics noisy ?cfgT (Samples [[0], [1]]) ?T0"
  let ?E = "evaluate step_counter toy_config ?S0"
  have d: "?D = Normal (state_of ?D)"
    by (simp add: metric_defs toy_defs initial_state_def)
  have m: "?M = Normal (state_of ?M)"
    by (simp add: metric_defs toy_defs noisy_def initial_state_def)
  have e: "?E = Normal (state_of ?E)"
    by (simp add: run_defs toy_defs)
  have f1: "\<not> dropout toy_config" and f2: "dropout ?cfgT"
    by (simp_all add: toy_config_def)
  have k0: "keys ?S0 = {}" "keys ?T0 = {}"
    by (simp_all add: keys_def initial_state_def)
  note t1 = metrics_dispatch
    [of step_counter toy_config "Point [0]" ?S0 "state_of ?D" ?S0]
  note t2 = metrics_dispatch
    [of noisy ?cfgT "Samples [[0], [1]]" ?T0 "state_of ?M" ?T0]
  note t3 = metrics_dispatch
    [of step_counter toy_config "Point [0]" ?S0 "state_of ?E" ?S0]
  from t1 have "?D = Normal (state_of ?D) \<and> \<not> dropout toy_config \<longrightarrow>
      keys (state_of ?D) = keys ?S0 \<union> {''METRIC_rmse'', ''METRIC_mae'', ''METRIC_max_norm''}"
    by (rule conjunct1 [OF conjunct2])
  with d f1 have 1: "keys (state_of ?D) = {''METRIC_rmse'', ''METRIC_mae'', ''METRIC_max_norm''}"
    by (simp only: k0 Un_empty_left simp_thms)
  from t2 have s: "?M = Normal (state_of ?M) \<and> dropout ?cfgT \<longrightarrow>
      {''METRIC_rmse_of_median'', ''METRIC_rmse_of_mean'', ''METRIC_mae_of_median'',
       ''METRIC_mae_of_mean'', ''METRIC_max_norm_of_median'', ''METRIC_max_norm_of_mean'',
       ''METRIC_median_energy_score'', ''METRIC_coverage'',
       ''METRIC_median_avg_inverval_score''}
        \<union> accuracy_keys True \<union> accuracy_keys False \<subseteq> keys (state_of ?M)
      \<and> keys ?T0 \<subseteq> keys (state_of ?M)
      \<and> keys (state_of ?M) \<subseteq> keys ?T0 \<union> fst ` set (stochastic_metrics ?cfgT)
            \<union> accuracy_keys True \<union> accuracy_keys False \<union> grid_keys True \<union> grid_keys False
      \<and> (\<forall>k \<in> {''METRIC_rmse'', ''METRIC_mae'', ''METRIC_max_norm''}.
            k \<in> keys (state_of ?M) \<longrightarrow> k \<in> keys ?T0)"
    by (rule conjunct1)
  note big = s [THEN mp, OF conjI [OF m f2]]
  note 2 = big [THEN conjunct1]
  note 3 = big [THEN conjunct2, THEN conjunct2, THEN conjunct2]
  from 3 have 4: "\<forall>k \<in> {''METRIC_rmse'', ''METRIC_mae'', ''METRIC_max_norm''}.
        k \<notin> keys (state_of ?M)"
    by (simp only: k0 empty_iff simp_thms)
  from t3 have "?E = Normal (state_of ?E) \<longrightarrow>
      (\<exists>p s. compute_metrics step_counter toy_config p s = Normal (state_of ?E)
         \<and> keys s = keys ?S0
             \<union> {''n_epochs'', ''compute_time'', ''val_loss_curve'', ''train_loss_curve''})"
    by (rule conjunct2 [OF conjunct2])
  with e have 5: "\<exists>p s. compute_metrics step_counter toy_config p s = Normal (state_of ?E)
         \<and> keys s = {''n_epochs'', ''compute_time'', ''val_loss_curve'', ''train_loss_curve''}"
    by (simp only: k0 Un_empty_left simp_thms)
  have no_rmse: "''METRIC_rmse'' \<notin> keys (state_of ?M)"
    by (rule bspec [OF 4]) simp
  have no_mae: "''METRIC_mae'' \<notin> keys (state_of ?M)"
    by (rule bspec [OF 4]) simp
  have no_max_norm: "''METRIC_max_norm'' \<notin> keys (state_of ?M)"
    by (rule bspec [OF 4]) simp
  show ?thesis
    by (rule conjI [OF 1 conjI [OF 2 conjI [OF no_rmse conjI [OF no_mae conjI [OF no_max_norm 5]]]]])
qed

section \<open>The stochasticity flag\<close>

































section \<open>Missing auxiliary grids\<close>

lemma load_grids_missing:
  assumes "data_interpolary_grid cfg = None \<or> data_extrapolary_grid cfg = None"
  shows "load_grids co cfg s =
     Raised AttributeError
       (s\<lparr>interpolary_grid :=
            (case data_interpolary_grid cfg of None \<Rightarrow> interpolary_grid s | Some g \<Rightarrow> Some g)\<rparr>)"
  using assms by (auto simp: load_grids_def Let_def split: option.splits)

lemma try_load_grids_missing:
  assumes "data_interpolary_grid cfg = None \<or> data_extrapolary_grid cfg = None"
  shows "try_load_grids co cfg s =
     Normal (emit (Warn GridsMissing)
       (s\<lparr>interpolary_grid :=
            (case data_interpolary_grid cfg of None \<Rightarrow> interpolary_grid s | Some g \<Rightarrow> Some g)\<rparr>))"
  by (simp add: try_load_grids_def load_grids_missing [OF assms])

lemma effects_after_warning:
  assumes "keeps (\<lambda>w. ()) co"
  shows "effects (state_of (and_then (record_run co cfg s) (compute_metrics co cfg p)))
           = effects s"
proof -
  have "untouched (\<lambda>w. ()) [] s
          (state_of (and_then (record_run co cfg s) (compute_metrics co cfg p)))"
    by (rule untouched_and_then [OF record_run_untouched compute_metrics_untouched [OF assms]])
  then show ?thesis by (simp add: untouched_def)
qed

lemma evaluate_missing:
  assumes "data_interpolary_grid cfg = None \<or> data_extrapolary_grid cfg = None"
    and "predict co cfg False (x_test cfg) (world s) = (Inr p, w)"
  shows "evaluate co cfg s =
           and_then
             (record_run co cfg
                (emit (Warn GridsMissing)
                   (s\<lparr>world := w,
                      interpolary_grid :=
                        (case data_interpolary_grid cfg of
                           None \<Rightarrow> interpolary_grid s | Some g \<Rightarrow> Some g)\<rparr>)))
             (compute_metrics co cfg p)"
    and "effects (state_of (evaluate co cfg s)) = effects s @ [Warn GridsMissing]"
proof -
  show 1: "evaluate co cfg s =
           and_then
             (record_run co cfg
                (emit (Warn GridsMissing)
                   (s\<lparr>world := w,
                      interpolary_grid :=
                        (case data_interpolary_grid cfg of
                           None \<Rightarrow> interpolary_grid s | Some g \<Rightarrow> Some g)\<rparr>)))
             (compute_metrics co cfg p)"
    using assms(2)
    by (simp add: evaluate_def try_load_grids_missing [OF assms(1)] split: option.split)
  have k: "keeps (\<lambda>w. ()) co" by (simp add: keeps_def)
  show "effects (state_of (evaluate co cfg s)) = effects s @ [Warn GridsMissing]"
    unfolding 1 effects_after_warning [OF k] by (simp add: emit_def)
qed

lemma try_grid_metrics_skipped:
  "predictions_on_extrapolary_grid s = None \<Longrightarrow> try_grid_metrics co cfg q sh s = Normal s"
  by (simp add: try_grid_metrics_def grid_metrics_def)

lemma uncertainty_metrics_without_grids:
  assumes "predictions_on_extrapolary_grid s = None"
  shows "uncertainty_metrics co cfg p q s =
     assign_metric_pair co
       (''METRIC_uncertainty_vs_accuracy_slope_'' @ tag_of q)
       (''METRIC_uncertainty_vs_accuracy_cor_'' @ tag_of q)
       ''uncertainty_vs_accuracy''
       [Pred p, Tensor (y_test cfg), Flag (VISUALIZE_DISTRIBUTION_USING_QUANTILES cfg), Flag q,
        Flag (SHOW_DIAGNOSTICS cfg \<and> (q = VISUALIZE_DISTRIBUTION_USING_QUANTILES cfg)),
        Flag (SHOW_DIAGNOSTICS cfg)] s"
proof -
  let ?args = "[Pred p, Tensor (y_test cfg), Flag (VISUALIZE_DISTRIBUTION_USING_QUANTILES cfg),
        Flag q, Flag (SHOW_DIAGNOSTICS cfg \<and> (q = VISUALIZE_DISTRIBUTION_USING_QUANTILES cfg)),
        Flag (SHOW_DIAGNOSTICS cfg)]"
  obtain r w where m: "pair_metric co ''uncertainty_vs_accuracy'' ?args (world s) = (r, w)"
    by (cases "pair_metric co ''uncertainty_vs_accuracy'' ?args (world s)")
  show ?thesis
    using m assms
    by (cases r)
       (simp_all add: uncertainty_metrics_def Let_def assign_metric_pair_def
          try_grid_metrics_skipped set_item_def)
qed

text \<open>The name \<open>predictions_on_extrapolary_grid\<close> is assigned by line 281 only: training,
  the metrics and persistence leave it as it is, and so does the first guarded block when a
  grid is missing.\<close>

lemma pex_and_then:
  assumes "predictions_on_extrapolary_grid (state_of r) = v"
    and "\<And>s1. predictions_on_extrapolary_grid s1 = v
           \<Longrightarrow> predictions_on_extrapolary_grid (state_of (g s1)) = v"
  shows "predictions_on_extrapolary_grid (state_of (and_then r g)) = v"
  using assms by (cases r) simp_all

lemma pex_assign_metric:
  "predictions_on_extrapolary_grid s = v \<Longrightarrow>
   predictions_on_extrapolary_grid (state_of (assign_metric co key f args s)) = v"
  by (cases "scalar_metric co f args (world s)")
     (auto simp: assign_metric_def set_item_def split: sum.splits)

lemma pex_assign_metric_pair:
  "predictions_on_extrapolary_grid s = v \<Longrightarrow>
   predictions_on_extrapolary_grid (state_of (assign_metric_pair co key1 key2 f args s)) = v"
  by (cases "pair_metric co f args (world s)")
     (auto simp: assign_metric_pair_def set_item_def split: sum.splits)

lemma pex_assign_metrics:
  "predictions_on_extrapolary_grid s = v \<Longrightarrow>
   predictions_on_extrapolary_grid (state_of (assign_metrics co args ms s)) = v"
proof (induction ms arbitrary: s)
  case Nil
  then show ?case by simp
next
  case (Cons m ms)
  show ?case
    using pex_and_then [OF pex_assign_metric [OF Cons.prems] Cons.IH]
    by simp
qed

lemma pex_grid_metrics:
  "predictions_on_extrapolary_grid s = v \<Longrightarrow>
   predictions_on_extrapolary_grid (state_of (grid_metrics co cfg q sh s)) = v"
  unfolding grid_metrics_def
  by (auto split: option.splits prod.splits
      intro!: pex_and_then pex_assign_metric pex_assign_metric_pair)

lemma pex_try_grid_metrics:
  "predictions_on_extrapolary_grid s = v \<Longrightarrow>
   predictions_on_extrapolary_grid (state_of (try_grid_metrics co cfg q sh s)) = v"
  using pex_grid_metrics [of s v co cfg q sh]
  by (cases "grid_metrics co cfg q sh s") (simp_all add: try_grid_metrics_def)

lemma pex_uncertainty_metrics:
  "predictions_on_extrapolary_grid s = v \<Longrightarrow>
   predictions_on_extrapolary_grid (state_of (uncertainty_metrics co cfg p q s)) = v"
  unfolding uncertainty_metrics_def Let_def
  by (rule pex_and_then [OF pex_assign_metric_pair pex_try_grid_metrics])

lemma pex_compute_metrics:
  assumes "predictions_on_extrapolary_grid s = v"
  shows "predictions_on_extrapolary_grid (state_of (compute_metrics co cfg p s)) = v"
proof (cases "dropout cfg")
  case True
  have "predictions_on_extrapolary_grid
          (state_of (and_then (uncertainty_metrics co cfg p True s1)
                       (uncertainty_metrics co cfg p False))) = v"
    if "predictions_on_extrapolary_grid s1 = v" for s1
    by (rule pex_and_then [OF pex_uncertainty_metrics [OF that] pex_uncertainty_metrics])
  from pex_and_then [OF pex_assign_metrics [OF assms] this]
  show ?thesis using True by (simp add: compute_metrics_def)
next
  case False
  then show ?thesis by (simp add: compute_metrics_def pex_assign_metrics [OF assms])
qed

lemma pex_record_run:
  "predictions_on_extrapolary_grid s = v \<Longrightarrow>
   predictions_on_extrapolary_grid (state_of (record_run co cfg s)) = v"
  by (simp add: record_run_def set_item_def)

lemma pex_evaluate_missing:
  assumes "data_interpolary_grid cfg = None \<or> data_extrapolary_grid cfg = None"
    and "predictions_on_extrapolary_grid s = v"
  shows "predictions_on_extrapolary_grid (state_of (evaluate co cfg s)) = v"
proof -
  obtain r w where p: "predict co cfg False (x_test cfg) (world s) = (r, w)"
    by (cases "predict co cfg False (x_test cfg) (world s)")
  show ?thesis
  proof (cases r)
    case (Inl e)
    then show ?thesis using p assms(2) by (simp add: evaluate_def)
  next
    case (Inr pr)
    let ?s1 = "emit (Warn GridsMissing)
                 (s\<lparr>world := w,
                    interpolary_grid :=
                      (case data_interpolary_grid cfg of
                         None \<Rightarrow> interpolary_grid s | Some g \<Rightarrow> Some g)\<rparr>)"
    have 1: "predictions_on_extrapolary_grid ?s1 = v"
      using assms(2) by (simp add: emit_def)
    have "predictions_on_extrapolary_grid
            (state_of (and_then (record_run co cfg ?s1) (compute_metrics co cfg pr))) = v"
      by (rule pex_and_then [OF pex_record_run [OF 1] pex_compute_metrics])
    then show ?thesis
      unfolding evaluate_missing(1) [OF assms(1) p [unfolded Inr]] .
  qed
qed

lemma pex_record_diagnostics:
  "predictions_on_extrapolary_grid s = v \<Longrightarrow>
   predictions_on_extrapolary_grid (state_of (record_diagnostics co cfg loss s)) = v"
  by (auto simp: record_diagnostics_def Let_def
      split: prod.splits sum.splits option.splits if_splits)

lemma pex_batch_body:
  assumes "predictions_on_extrapolary_grid s = v"
  shows "predictions_on_extrapolary_grid (state_of (batch_body co cfg b s)) = v"
proof -
  obtain r w where t: "training_loss co cfg (fst b) (snd b) (world s) = (r, w)"
    by (cases "training_loss co cfg (fst b) (snd b) (world s)")
  show ?thesis
  proof (cases r)
    case (Inl e)
    then show ?thesis using t assms by (simp add: batch_body_def)
  next
    case (Inr loss)
    let ?s1 = "s\<lparr>world := gradient_step co loss w, pbar_n := pbar_n s + 1\<rparr>"
    have "predictions_on_extrapolary_grid ?s1 = v" using assms by simp
    from pex_record_diagnostics [OF this, of co cfg loss] this
    show ?thesis using t Inr by (simp add: batch_body_def Let_def)
  qed
qed

lemma pex_batch_loop:
  "predictions_on_extrapolary_grid s = v \<Longrightarrow>
   predictions_on_extrapolary_grid (state_of (batch_loop co cfg bs s)) = v"
proof (induction bs arbitrary: s)
  case Nil
  then show ?case by simp
next
  case (Cons b bs)
  from pex_batch_body [OF Cons.prems, of co cfg b] Cons.IH
  show ?case by (cases "batch_body co cfg b s") simp_all
qed

lemma pex_epoch_loop:
  "predictions_on_extrapolary_grid s = v \<Longrightarrow>
   predictions_on_extrapolary_grid (state_of (epoch_loop co cfg es s)) = v"
proof (induction es arbitrary: s)
  case Nil
  then show ?case by simp
next
  case (Cons e es)
  have "predictions_on_extrapolary_grid (state_of (epoch_body co cfg s)) = v"
    using Cons.prems by (simp add: epoch_body_def pex_batch_loop)
  from pex_and_then [OF this Cons.IH]
  show ?case by simp
qed

lemma pex_train_to_checkpoint:
  assumes "predictions_on_extrapolary_grid s = v"
  shows "predictions_on_extrapolary_grid (state_of (train_to_checkpoint co cfg n s)) = v"
proof -
  have "predictions_on_extrapolary_grid (s\<lparr>pbar_n := last_checkpoint s\<rparr>) = v"
    using assms by simp
  from pex_epoch_loop [OF this]
  show ?thesis
    unfolding train_to_checkpoint_def
    by (rule pex_and_then) simp
qed

lemma pex_save_display:
  "predictions_on_extrapolary_grid (display cfg (save_results co cfg s))
     = predictions_on_extrapolary_grid s"
  by (simp add: display_def save_results_def emit_def set_item_def Let_def split: option.splits)

lemma pex_checkpoint_body:
  assumes "data_interpolary_grid cfg = None \<or> data_extrapolary_grid cfg = None"
    and "predictions_on_extrapolary_grid s = v"
  shows "predictions_on_extrapolary_grid (state_of (checkpoint_body co cfg n s)) = v"
proof -
  have "predictions_on_extrapolary_grid
          (state_of (and_then (evaluate co cfg s1)
             (\<lambda>s2. Normal (display cfg (save_results co cfg s2))))) = v"
    if "predictions_on_extrapolary_grid s1 = v" for s1
    by (rule pex_and_then [OF pex_evaluate_missing [OF assms(1) that]])
       (simp add: pex_save_display)
  from pex_and_then [OF pex_train_to_checkpoint [OF assms(2)] this]
  show ?thesis by (simp add: checkpoint_body_def)
qed

lemma pex_checkpoint_loop:
  assumes "data_interpolary_grid cfg = None \<or> data_extrapolary_grid cfg = None"
  shows "predictions_on_extrapolary_grid s = v \<Longrightarrow>
         predictions_on_extrapolary_grid (state_of (checkpoint_loop co cfg ns s)) = v"
proof (induction ns arbitrary: s)
  case Nil
  then show ?case by simp
next
  case (Cons n ns)
  show ?case
  proof (cases "decided_to_stop_early s")
    case True
    then show ?thesis using Cons by simp
  next
    case False
    from pex_and_then [OF pex_checkpoint_body [OF assms Cons.prems] Cons.IH]
    show ?thesis using False by simp
  qed
qed

text \<open>Without grid predictions the stochastic metrics write their nine keys and the
  accuracy keys and nothing else.\<close>

lemma compute_metrics_without_grids:
  assumes "predictions_on_extrapolary_grid s = None" and "dropout cfg"
    and "compute_metrics co cfg p s = Normal s'"
  shows "keys s' = keys s \<union> fst ` set (stochastic_metrics cfg)
                     \<union> accuracy_keys True \<union> accuracy_keys False"
proof -
  from assms(2,3) obtain s1
    where 1: "assign_metrics co [Pred p, Tensor (y_test cfg)] (stochastic_metrics cfg) s = Normal s1"
      and r: "and_then (uncertainty_metrics co cfg p True s1)
                (uncertainty_metrics co cfg p False) = Normal s'"
    unfolding compute_metrics_def using and_then_Normal by fastforce
  from r obtain s2
    where 2: "uncertainty_metrics co cfg p True s1 = Normal s2"
      and 3: "uncertainty_metrics co cfg p False s2 = Normal s'"
    using and_then_Normal by fastforce
  have n1: "predictions_on_extrapolary_grid s1 = None"
    using pex_assign_metrics [OF assms(1), of co "[Pred p, Tensor (y_test cfg)]"
        "stochastic_metrics cfg"]
    unfolding 1 by simp
  have n2: "predictions_on_extrapolary_grid s2 = None"
    using pex_uncertainty_metrics [OF n1, of co cfg p True]
    unfolding 2 by simp
  have k1: "keys s1 = keys s \<union> fst ` set (stochastic_metrics cfg)"
    by (rule assign_metrics_keys [OF 1])
  have k2: "keys s2 = keys s1 \<union> accuracy_keys True"
    using assign_metric_pair_keys [OF 2 [unfolded uncertainty_metrics_without_grids [OF n1]]]
    by (auto simp: accuracy_keys_def)
  have k3: "keys s' = keys s2 \<union> accuracy_keys False"
    using assign_metric_pair_keys [OF 3 [unfolded uncertainty_metrics_without_grids [OF n2]]]
    by (auto simp: accuracy_keys_def)
  show ?thesis unfolding k3 k2 k1 ..
qed

lemma evaluate_missing_Normal:
  assumes "data_interpolary_grid cfg = None \<or> data_extrapolary_grid cfg = None"
    and "predictions_on_extrapolary_grid s0 = None"
    and "evaluate co cfg s0 = Normal s'"
  shows "\<exists>p s. compute_metrics co cfg p s = Normal s'
           \<and> keys s = keys s0
               \<union> {''n_epochs'', ''compute_time'', ''val_loss_curve'', ''train_loss_curve''}
           \<and> predictions_on_extrapolary_grid s = None"
proof -
  obtain r w where p: "predict co cfg False (x_test cfg) (world s0) = (r, w)"
    by (cases "predict co cfg False (x_test cfg) (world s0)")
  show ?thesis
  proof (cases r)
    case (Inl e)
    then show ?thesis using assms(3) p by (simp add: evaluate_def)
  next
    case (Inr pr)
    let ?s1 = "emit (Warn GridsMissing)
                 (s0\<lparr>world := w,
                     interpolary_grid :=
                       (case data_interpolary_grid cfg of
                          None \<Rightarrow> interpolary_grid s0 | Some g \<Rightarrow> Some g)\<rparr>)"
    have a: "and_then (record_run co cfg ?s1) (compute_metrics co cfg pr) = Normal s'"
      using evaluate_missing(1) [OF assms(1) p [unfolded Inr]] assms(3) by simp
    from and_then_Normal [OF a] obtain s2 where 2: "record_run co cfg ?s1 = Normal s2"
      and 3: "compute_metrics co cfg pr s2 = Normal s'"
      by blast
    have k1: "keys ?s1 = keys s0" by (simp add: keys_def emit_def)
    have k: "keys s2 = keys s0
               \<union> {''n_epochs'', ''compute_time'', ''val_loss_curve'', ''train_loss_curve''}"
      using record_run_keys [OF 2] by (simp only: k1)
    have "predictions_on_extrapolary_grid ?s1 = None"
      using assms(2) by (simp add: emit_def)
    from pex_record_run [OF this, of co cfg]
    have n: "predictions_on_extrapolary_grid s2 = None"
      unfolding 2 by simp
    show ?thesis
      by (rule exI [of _ pr], rule exI [of _ s2], rule conjI [OF 3 conjI [OF k n]])
  qed
qed

lemma evaluate_without_grids:
  assumes "data_interpolary_grid cfg = None \<or> data_extrapolary_grid cfg = None"
    and "predictions_on_extrapolary_grid s = None"
    and "evaluate co cfg s = Normal s'"
  shows "dropout cfg \<Longrightarrow>
           keys s' = keys s
               \<union> {''n_epochs'', ''compute_time'', ''val_loss_curve'', ''train_loss_curve''}
               \<union> fst ` set (stochastic_metrics cfg)
               \<union> accuracy_keys True \<union> accuracy_keys False"
    and "\<not> dropout cfg \<Longrightarrow>
           keys s' = keys s
               \<union> {''n_epochs'', ''compute_time'', ''val_loss_curve'', ''train_loss_curve''}
               \<union> {''METRIC_rmse'', ''METRIC_mae'', ''METRIC_max_norm''}"
proof -
  from evaluate_missing_Normal [OF assms] obtain p s1
    where c: "compute_metrics co cfg p s1 = Normal s'"
      and k: "keys s1 = keys s
               \<union> {''n_epochs'', ''compute_time'', ''val_loss_curve'', ''train_loss_curve''}"
      and n: "predictions_on_extrapolary_grid s1 = None"
    by blast
  show "keys s' = keys s
               \<union> {''n_epochs'', ''compute_time'', ''val_loss_curve'', ''train_loss_curve''}
               \<union> fst ` set (stochastic_metrics cfg)
               \<union> accuracy_keys True \<union> accuracy_keys False" if "dropout cfg"
    unfolding compute_metrics_without_grids [OF n that c] k ..
  show "keys s' = keys s
               \<union> {''n_epochs'', ''compute_time'', ''val_loss_curve'', ''train_loss_curve''}
               \<union> {''METRIC_rmse'', ''METRIC_mae'', ''METRIC_max_norm''}" if "\<not> dropout cfg"
    unfolding compute_metrics_deterministic_keys [OF c that] k ..
qed

text \<open>What persistence writes.\<close>

lemma keys_record_content: "fst ` set (record_content s) = keys s"
  by (simp add: record_content_def keys_def image_image)

lemma record_content_effects [simp]: "record_content (s\<lparr>effects := xs\<rparr>) = record_content s"
  by (simp add: record_content_def content_def split: entry.splits)

lemma keys_effects [simp]: "keys (s\<lparr>effects := xs\<rparr>) = keys s"
  by (simp add: keys_def)

lemma keys_first_round [simp]: "keys (s\<lparr>first_round := b\<rparr>) = keys s"
  by (simp add: keys_def)

lemma save_results_writes:
  assumes "\<not> startswith (input_json_filename cfg) ''demo''"
  shows "\<exists>f. last (effects (save_results co cfg s))
                = DictToJson (record_content (save_results co cfg s)) f"
    and "keys (save_results co cfg s)
           = keys s \<union> {''filname''}
               \<union> (case model_save_dir cfg of None \<Rightarrow> {} | Some d \<Rightarrow> {''MODEL_SAVE_PATH''})"
proof -
  show "\<exists>f. last (effects (save_results co cfg s))
                = DictToJson (record_content (save_results co cfg s)) f"
    using assms
    by (simp add: save_results_def Let_def emit_def split: option.splits)
  show "keys (save_results co cfg s)
           = keys s \<union> {''filname''}
               \<union> (case model_save_dir cfg of None \<Rightarrow> {} | Some d \<Rightarrow> {''MODEL_SAVE_PATH''})"
    using assms
    by (simp add: save_results_def Let_def emit_def keys_set_item insert_commute
        split: option.splits)
qed

lemma save_results_demo:
  "startswith (input_json_filename cfg) ''demo'' \<Longrightarrow>
   save_results co cfg s = emit (Warn ResultsNotSaved) s"
  by (simp add: save_results_def)

text \<open>Claim C8, as amended. When the data module lacks one of the two grids, the first
  guarded block ends by \<^verbatim>\<open>AttributeError\<close> before any prediction on a grid; the handler
  adds one warning and the evaluation goes on, so that each evaluation adds exactly that one
  warning to the effects, whatever the metrics do: one warning in every checkpoint
  evaluation, not one in the run. The grid predictions are undefined at the start and stay
  so through the training blocks and the whole checkpoint loop. With them undefined, the
  second guarded block changes nothing, so an iteration over an uncertainty representation
  is exactly its grid-free assignment, and an evaluation that ends normally has added to
  the record the four run entries and every metric that does not depend on the grids, and
  nothing else: the nine distributional keys and the accuracy keys of both representations
  where the flag is True, the three plain keys where it is False. Persistence follows every
  evaluation that ends normally: unless the name of the hyperparameter file starts with
  \<^verbatim>\<open>demo\<close>, in which case only a warning says that nothing is saved, the last effect
  of saving is the \<^verbatim>\<open>dict_to_json\<close> call on the whole record, which holds the keys it
  had and the file name (and the model path, if the model is saved). Any other exception
  leaves either guarded block as it entered, makes the evaluation end by it, and ends the
  checkpoint loop by it.\<close>

theorem missing_grids_recoverable:
  "((data_interpolary_grid cfg = None \<or> data_extrapolary_grid cfg = None) \<longrightarrow>
      load_grids co cfg s = Raised AttributeError (s\<lparr>interpolary_grid :=
               (case data_interpolary_grid cfg of
                  None \<Rightarrow> interpolary_grid s | Some g \<Rightarrow> Some g)\<rparr>)
      \<and> try_load_grids co cfg s = Normal (emit (Warn GridsMissing) (s\<lparr>interpolary_grid :=
               (case data_interpolary_grid cfg of
                  None \<Rightarrow> interpolary_grid s | Some g \<Rightarrow> Some g)\<rparr>)))
   \<and> ((data_interpolary_grid cfg = None \<or> data_extrapolary_grid cfg = None)
       \<and> predict co cfg False (x_test cfg) (world s) = (Inr p, w) \<longrightarrow>
      evaluate co cfg s =
        and_then
          (record_run co cfg
             (emit (Warn GridsMissing)
                (s\<lparr>world := w,
                   interpolary_grid :=
                     (case data_interpolary_grid cfg of
                        None \<Rightarrow> interpolary_grid s | Some g \<Rightarrow> Some g)\<rparr>)))
          (compute_metrics co cfg p)
      \<and> effects (state_of (evaluate co cfg s)) = effects s @ [Warn GridsMissing])
   \<and> (predictions_on_extrapolary_grid s = None \<longrightarrow>
      try_grid_metrics co cfg q sh s = Normal s
      \<and> uncertainty_metrics co cfg p q s =
        assign_metric_pair co
          (''METRIC_uncertainty_vs_accuracy_slope_'' @ tag_of q)
          (''METRIC_uncertainty_vs_accuracy_cor_'' @ tag_of q)
          ''uncertainty_vs_accuracy''
          [Pred p, Tensor (y_test cfg), Flag (VISUALIZE_DISTRIBUTION_USING_QUANTILES cfg),
           Flag q,
           Flag (SHOW_DIAGNOSTICS cfg \<and> (q = VISUALIZE_DISTRIBUTION_USING_QUANTILES cfg)),
           Flag (SHOW_DIAGNOSTICS cfg)] s)
   \<and> (predictions_on_extrapolary_grid (initial_state cfg hyper w0) = None
      \<and> ((data_interpolary_grid cfg = None \<or> data_extrapolary_grid cfg = None) \<and> predictions_on_extrapolary_grid s = None \<longrightarrow>
           predictions_on_extrapolary_grid (state_of (train_to_checkpoint co cfg n s)) = None
           \<and> predictions_on_extrapolary_grid (state_of (checkpoint_loop co cfg ns s)) = None))
   \<and> ((data_interpolary_grid cfg = None \<or> data_extrapolary_grid cfg = None) \<and> predictions_on_extrapolary_grid s = None
       \<and> evaluate co cfg s = Normal s2 \<and> dropout cfg \<longrightarrow>
      keys s2 = keys s \<union> {''n_epochs'', ''compute_time'', ''val_loss_curve'', ''train_loss_curve''}
          \<union> {''METRIC_rmse_of_median'', ''METRIC_rmse_of_mean'', ''METRIC_mae_of_median'',
               ''METRIC_mae_of_mean'', ''METRIC_max_norm_of_median'', ''METRIC_max_norm_of_mean'',
               ''METRIC_median_energy_score'', ''METRIC_coverage'',
               ''METRIC_median_avg_inverval_score''}
          \<union> accuracy_keys True \<union> accuracy_keys False)
   \<and> (evaluate co cfg s = Normal s2 \<and> \<not> dropout cfg \<longrightarrow>
      keys s2 = keys s \<union> {''n_epochs'', ''compute_time'', ''val_loss_curve'', ''train_loss_curve''}
          \<union> {''METRIC_rmse'', ''METRIC_mae'', ''METRIC_max_norm''})
   \<and> (evaluate co cfg s = Normal s2 \<and> \<not> decided_to_stop_early s0
       \<and> train_to_checkpoint co cfg n s0 = Normal s \<longrightarrow>
      checkpoint_body co cfg n s0 = Normal (display cfg (save_results co cfg s2)))
   \<and> (\<not> startswith (input_json_filename cfg) ''demo'' \<longrightarrow>
      (\<exists>f. last (effects (save_results co cfg s2))
             = DictToJson (record_content (save_results co cfg s2)) f)
      \<and> fst ` set (record_content (save_results co cfg s2)) = keys (save_results co cfg s2)
      \<and> keys (save_results co cfg s2)
          = keys s2 \<union> {''filname''}
              \<union> (case model_save_dir cfg of None \<Rightarrow> {} | Some d \<Rightarrow> {''MODEL_SAVE_PATH''}))
   \<and> (startswith (input_json_filename cfg) ''demo'' \<longrightarrow>
      save_results co cfg s2 = emit (Warn ResultsNotSaved) s2)
   \<and> (load_grids co cfg s = Raised e s1 \<and> e \<noteq> AttributeError \<longrightarrow>
      try_load_grids co cfg s = Raised e s1)
   \<and> (grid_metrics co cfg q sh s = Raised e s1 \<and> e \<noteq> NameError \<longrightarrow>
      try_grid_metrics co cfg q sh s = Raised e s1)
   \<and> (predict co cfg False (x_test cfg) (world s) = (Inr p, w)
       \<and> try_load_grids co cfg (s\<lparr>world := w\<rparr>) = Raised e s1 \<longrightarrow>
      evaluate co cfg s = Raised e s1)
   \<and> (\<not> decided_to_stop_early s0 \<and> train_to_checkpoint co cfg n s0 = Normal s
       \<and> evaluate co cfg s = Raised e s1 \<longrightarrow>
      checkpoint_loop co cfg (n # ns) s0 = Raised e s1)"
proof -
  have guard: "(data_interpolary_grid cfg = None \<or> data_extrapolary_grid cfg = None) \<longrightarrow>
      load_grids co cfg s = Raised AttributeError (s\<lparr>interpolary_grid :=
               (case data_interpolary_grid cfg of
                  None \<Rightarrow> interpolary_grid s | Some g \<Rightarrow> Some g)\<rparr>)
      \<and> try_load_grids co cfg s = Normal (emit (Warn GridsMissing) (s\<lparr>interpolary_grid :=
               (case data_interpolary_grid cfg of
                  None \<Rightarrow> interpolary_grid s | Some g \<Rightarrow> Some g)\<rparr>))"
    using load_grids_missing [of cfg co s] try_load_grids_missing [of cfg co s] by simp
  have warned: "(data_interpolary_grid cfg = None \<or> data_extrapolary_grid cfg = None)
       \<and> predict co cfg False (x_test cfg) (world s) = (Inr p, w) \<longrightarrow>
      evaluate co cfg s =
        and_then
          (record_run co cfg
             (emit (Warn GridsMissing)
                (s\<lparr>world := w,
                   interpolary_grid :=
                     (case data_interpolary_grid cfg of
                        None \<Rightarrow> interpolary_grid s | Some g \<Rightarrow> Some g)\<rparr>)))
          (compute_metrics co cfg p)
      \<and> effects (state_of (evaluate co cfg s)) = effects s @ [Warn GridsMissing]"
    using evaluate_missing [of cfg co s p w] by simp
  have skipped: "predictions_on_extrapolary_grid s = None \<longrightarrow>
      try_grid_metrics co cfg q sh s = Normal s
      \<and> uncertainty_metrics co cfg p q s =
        assign_metric_pair co
          (''METRIC_uncertainty_vs_accuracy_slope_'' @ tag_of q)
          (''METRIC_uncertainty_vs_accuracy_cor_'' @ tag_of q)
          ''uncertainty_vs_accuracy''
          [Pred p, Tensor (y_test cfg), Flag (VISUALIZE_DISTRIBUTION_USING_QUANTILES cfg),
           Flag q,
           Flag (SHOW_DIAGNOSTICS cfg \<and> (q = VISUALIZE_DISTRIBUTION_USING_QUANTILES cfg)),
           Flag (SHOW_DIAGNOSTICS cfg)] s"
    using try_grid_metrics_skipped [of s co cfg q sh] uncertainty_metrics_without_grids [of s co cfg p q]
    by simp
  have undefined: "predictions_on_extrapolary_grid (initial_state cfg hyper w0) = None
      \<and> ((data_interpolary_grid cfg = None \<or> data_extrapolary_grid cfg = None) \<and> predictions_on_extrapolary_grid s = None \<longrightarrow>
           predictions_on_extrapolary_grid (state_of (train_to_checkpoint co cfg n s)) = None
           \<and> predictions_on_extrapolary_grid (state_of (checkpoint_loop co cfg ns s)) = None)"
    using pex_train_to_checkpoint [of s None co cfg n] pex_checkpoint_loop [of cfg s None co ns]
    by (simp add: initial_state_def)
  have stochastic: "(data_interpolary_grid cfg = None \<or> data_extrapolary_grid cfg = None) \<and> predictions_on_extrapolary_grid s = None
       \<and> evaluate co cfg s = Normal s2 \<and> dropout cfg \<longrightarrow>
      keys s2 = keys s \<union> {''n_epochs'', ''compute_time'', ''val_loss_curve'', ''train_loss_curve''}
          \<union> {''METRIC_rmse_of_median'', ''METRIC_rmse_of_mean'', ''METRIC_mae_of_median'',
               ''METRIC_mae_of_mean'', ''METRIC_max_norm_of_median'', ''METRIC_max_norm_of_mean'',
               ''METRIC_median_energy_score'', ''METRIC_coverage'',
               ''METRIC_median_avg_inverval_score''}
          \<union> accuracy_keys True \<union> accuracy_keys False"
    using evaluate_without_grids(1) [of cfg s co s2] unfolding stochastic_metric_keys by simp
  have deterministic: "evaluate co cfg s = Normal s2 \<and> \<not> dropout cfg \<longrightarrow>
      keys s2 = keys s \<union> {''n_epochs'', ''compute_time'', ''val_loss_curve'', ''train_loss_curve''}
          \<union> {''METRIC_rmse'', ''METRIC_mae'', ''METRIC_max_norm''}"
  proof
    assume a: "evaluate co cfg s = Normal s2 \<and> \<not> dropout cfg"
    from evaluate_Normal [OF conjunct1 [OF a]] obtain p1 s1
      where c: "compute_metrics co cfg p1 s1 = Normal s2"
        and k: "keys s1 = keys s \<union> {''n_epochs'', ''compute_time'', ''val_loss_curve'', ''train_loss_curve''}"
      by blast
    show "keys s2 = keys s \<union> {''n_epochs'', ''compute_time'', ''val_loss_curve'', ''train_loss_curve''}
          \<union> {''METRIC_rmse'', ''METRIC_mae'', ''METRIC_max_norm''}"
      unfolding compute_metrics_deterministic_keys [OF c conjunct2 [OF a]] k ..
  qed
  have followed: "evaluate co cfg s = Normal s2 \<and> \<not> decided_to_stop_early s0
       \<and> train_to_checkpoint co cfg n s0 = Normal s \<longrightarrow>
      checkpoint_body co cfg n s0 = Normal (display cfg (save_results co cfg s2))"
    by (simp add: checkpoint_body_def)
  have written: "\<not> startswith (input_json_filename cfg) ''demo'' \<longrightarrow>
      (\<exists>f. last (effects (save_results co cfg s2))
             = DictToJson (record_content (save_results co cfg s2)) f)
      \<and> fst ` set (record_content (save_results co cfg s2)) = keys (save_results co cfg s2)
      \<and> keys (save_results co cfg s2)
          = keys s2 \<union> {''filname''}
              \<union> (case model_save_dir cfg of None \<Rightarrow> {} | Some d \<Rightarrow> {''MODEL_SAVE_PATH''})"
    using save_results_writes [of cfg co s2] keys_record_content [of "save_results co cfg s2"]
    by simp
  have demo: "startswith (input_json_filename cfg) ''demo'' \<longrightarrow>
      save_results co cfg s2 = emit (Warn ResultsNotSaved) s2"
    by (simp add: save_results_demo)
  have other1: "load_grids co cfg s = Raised e s1 \<and> e \<noteq> AttributeError \<longrightarrow>
      try_load_grids co cfg s = Raised e s1"
    by (simp add: try_load_grids_def)
  have other2: "grid_metrics co cfg q sh s = Raised e s1 \<and> e \<noteq> NameError \<longrightarrow>
      try_grid_metrics co cfg q sh s = Raised e s1"
    by (simp add: try_grid_metrics_def)
  have other3: "predict co cfg False (x_test cfg) (world s) = (Inr p, w)
       \<and> try_load_grids co cfg (s\<lparr>world := w\<rparr>) = Raised e s1 \<longrightarrow>
      evaluate co cfg s = Raised e s1"
    by (simp add: evaluate_def)
  have other4: "\<not> decided_to_stop_early s0 \<and> train_to_checkpoint co cfg n s0 = Normal s
       \<and> evaluate co cfg s = Raised e s1 \<longrightarrow>
      checkpoint_loop co cfg (n # ns) s0 = Raised e s1"
    by (simp add: checkpoint_body_def)
  show ?thesis
    by (rule conjI [OF guard conjI [OF warned conjI [OF skipped conjI [OF undefined conjI [OF stochastic conjI [OF deterministic conjI [OF followed conjI [OF written conjI [OF demo conjI [OF other1 conjI [OF other2 conjI [OF other3 other4]]]]]]]]]]]])
qed

lemmas faulty_defs = faulty_def grids_config_def

text \<open>The theorem on the toy runs. Without grids: one warning in an evaluation, the grid
  metrics skipped, the grid predictions undefined at the end of the run with the
  checkpoints 1 and 2, the keys of the record after an evaluation of the stochastic and of
  the deterministic network, and the evaluation of a boundary followed by its persistence,
  which writes the record with its run entries, its three metrics and the file name; for
  a demo file only the warning. With grids and a forward pass that raises
  \<^verbatim>\<open>RuntimeError\<close> on them: the guarded block, the evaluation and the checkpoint loop all
  end by that exception. With grid predictions and a proximity metric that raises
  \<^verbatim>\<open>ZeroDivisionError\<close>: the second guarded block ends by it.\<close>

theorem missing_grids_recoverable_witness:
  "try_load_grids step_counter toy_config (initial_state toy_config [] 0)
     = Normal (emit (Warn GridsMissing) (initial_state toy_config [] 0))
   \<and> effects (state_of (evaluate step_counter toy_config (initial_state toy_config [] 0)))
     = [Warn GridsMissing]
   \<and> try_grid_metrics step_counter toy_config True False (initial_state toy_config [] 0)
     = Normal (initial_state toy_config [] 0)
   \<and> predictions_on_extrapolary_grid
        (state_of (checkpoint_loop step_counter toy_config [1, 2] (initial_state toy_config [] 0)))
     = None
   \<and> keys (state_of (evaluate noisy (toy_config\<lparr>dropout := True\<rparr>)
                       (initial_state (toy_config\<lparr>dropout := True\<rparr>) [] 0)))
     = {''n_epochs'', ''compute_time'', ''val_loss_curve'', ''train_loss_curve''}
         \<union> {''METRIC_rmse_of_median'', ''METRIC_rmse_of_mean'', ''METRIC_mae_of_median'',
             ''METRIC_mae_of_mean'', ''METRIC_max_norm_of_median'', ''METRIC_max_norm_of_mean'',
             ''METRIC_median_energy_score'', ''METRIC_coverage'',
             ''METRIC_median_avg_inverval_score''}
         \<union> accuracy_keys True \<union> accuracy_keys False
   \<and> keys (state_of (evaluate step_counter toy_config (initial_state toy_config [] 0)))
     = {''n_epochs'', ''compute_time'', ''val_loss_curve'', ''train_loss_curve''}
         \<union> {''METRIC_rmse'', ''METRIC_mae'', ''METRIC_max_norm''}
   \<and> checkpoint_body step_counter toy_config 0 (initial_state toy_config [] 0)
     = Normal (display toy_config (save_results step_counter toy_config
         (state_of (evaluate step_counter toy_config (initial_state toy_config [] 0)))))
   \<and> (\<exists>f. last (effects (save_results step_counter toy_config
                (state_of (evaluate step_counter toy_config (initial_state toy_config [] 0)))))
           = DictToJson (record_content (save_results step_counter toy_config
                (state_of (evaluate step_counter toy_config (initial_state toy_config [] 0))))) f)
   \<and> keys (save_results step_counter toy_config
              (state_of (evaluate step_counter toy_config (initial_state toy_config [] 0))))
     = {''n_epochs'', ''compute_time'', ''val_loss_curve'', ''train_loss_curve''}
         \<union> {''METRIC_rmse'', ''METRIC_mae'', ''METRIC_max_norm''} \<union> {''filname''}
   \<and> effects (state_of (checkpoint_body step_counter toy_config 0 (initial_state toy_config [] 0)))
     = [Warn GridsMissing,
        DictToJson
          [(''n_epochs'', PFloat 0), (''compute_time'', PFloat 0),
           (''val_loss_curve'', PList []), (''train_loss_curve'', PList []),
           (''METRIC_rmse'', PFloat 0), (''METRIC_mae'', PFloat 0),
           (''METRIC_max_norm'', PFloat 0), (''filname'', PStr ''out.json'')]
          ''out.json'']
   \<and> save_results step_counter (toy_config\<lparr>input_json_filename := ''demo_nn.json''\<rparr>)
        (initial_state toy_config [] 0)
     = emit (Warn ResultsNotSaved) (initial_state toy_config [] 0)
   \<and> try_load_grids faulty grids_config (initial_state grids_config [] 0)
     = Raised RuntimeError
         ((initial_state grids_config [] 0)
            \<lparr>interpolary_grid := Some [0], extrapolary_grid := Some [1]\<rparr>)
   \<and> evaluate faulty grids_config (initial_state grids_config [] 0)
     = Raised RuntimeError
         ((initial_state grids_config [] 0)
            \<lparr>interpolary_grid := Some [0], extrapolary_grid := Some [1]\<rparr>)
   \<and> checkpoint_loop faulty grids_config [0, 5] (initial_state grids_config [] 0)
     = Raised RuntimeError
         ((initial_state grids_config [] 0)
            \<lparr>interpolary_grid := Some [0], extrapolary_grid := Some [1]\<rparr>)
   \<and> try_grid_metrics faulty grids_config True False
       ((initial_state grids_config [] 0)
          \<lparr>interpolary_grid := Some [0], extrapolary_grid := Some [1],
           predictions_on_interpolary_grid := Some (Point [0]),
           predictions_on_extrapolary_grid := Some (Point [0])\<rparr>)
     = Raised ZeroDivisionError
         ((initial_state grids_config [] 0)
            \<lparr>interpolary_grid := Some [0], extrapolary_grid := Some [1],
             predictions_on_interpolary_grid := Some (Point [0]),
             predictions_on_extrapolary_grid := Some (Point [0])\<rparr>)"
proof -
  let ?cfgT = "toy_config\<lparr>dropout := True\<rparr>"
  let ?cfgD = "toy_config\<lparr>input_json_filename := ''demo_nn.json''\<rparr>"
  let ?S0 = "initial_state toy_config [] (0::nat)"
  let ?T0 = "initial_state ?cfgT [] (0::nat)"
  let ?E = "evaluate step_counter toy_config ?S0"
  let ?ET = "evaluate noisy ?cfgT ?T0"
  let ?G0 = "initial_state grids_config [] (0::nat)"
  let ?G1 = "?G0\<lparr>interpolary_grid := Some [0], extrapolary_grid := Some [1]\<rparr>"
  let ?G2 = "?G0\<lparr>interpolary_grid := Some [0], extrapolary_grid := Some [1],
           predictions_on_interpolary_grid := Some (Point [0]),
           predictions_on_extrapolary_grid := Some (Point [0])\<rparr>"
  note a = missing_grids_recoverable
    [where cfg = toy_config and co = step_counter and s = ?S0 and p = "Point [0]" and w = 0
       and q = True and sh = False and ?s2.0 = "state_of ?E" and ?s0.0 = ?S0 and n = 0
       and e = RuntimeError and ?s1.0 = ?S0 and ns = "[1, 2]" and hyper = "[]" and ?w0.0 = 0]
  note t = missing_grids_recoverable
    [where cfg = ?cfgT and co = noisy and s = ?T0 and p = "Point [0]" and w = 0
       and q = True and sh = False and ?s2.0 = "state_of ?ET" and ?s0.0 = ?T0 and n = 0
       and e = RuntimeError and ?s1.0 = ?T0 and ns = "[]" and hyper = "[]" and ?w0.0 = 0]
  note d = missing_grids_recoverable
    [where cfg = ?cfgD and co = step_counter and s = ?S0 and p = "Point [0]" and w = 0
       and q = True and sh = False and ?s2.0 = ?S0 and ?s0.0 = ?S0 and n = 0
       and e = RuntimeError and ?s1.0 = ?S0 and ns = "[]" and hyper = "[]" and ?w0.0 = 0]
  note b = missing_grids_recoverable
    [where cfg = grids_config and co = faulty and s = ?G0 and p = "Point [0]" and w = 0
       and q = True and sh = False and ?s2.0 = ?G0 and ?s0.0 = ?G0 and n = 0
       and e = RuntimeError and ?s1.0 = ?G1 and ns = "[5]" and hyper = "[]" and ?w0.0 = 0]
  note c = missing_grids_recoverable
    [where cfg = grids_config and co = faulty and s = ?G2 and p = "Point [0]" and w = 0
       and q = True and sh = False and ?s2.0 = ?G0 and ?s0.0 = ?G0 and n = 0
       and e = ZeroDivisionError and ?s1.0 = ?G2 and ns = "[]" and hyper = "[]" and ?w0.0 = 0]
  have m: "data_interpolary_grid toy_config = None" by (simp add: toy_config_def)
  have mT: "data_interpolary_grid ?cfgT = None" by (simp add: toy_config_def)
  have self: "?S0\<lparr>interpolary_grid := interpolary_grid ?S0\<rparr> = ?S0" by simp
  have p0: "predict step_counter toy_config False (x_test toy_config) (world ?S0)
            = (Inr (Point [0]), 0)"
    by (simp add: predict_def toy_defs initial_state_def)
  have n0: "predictions_on_extrapolary_grid ?S0 = None" by (simp add: initial_state_def)
  have nT: "predictions_on_extrapolary_grid ?T0 = None" by (simp add: initial_state_def)
  have f0: "\<not> decided_to_stop_early ?S0" by (simp add: initial_state_def)
  have t0: "train_to_checkpoint step_counter toy_config 0 ?S0 = Normal ?S0"
    by (simp add: train_to_checkpoint_def py_range_def initial_state_def)
  have e0: "?E = Normal (state_of ?E)" by (simp add: run_defs toy_defs)
  have eT: "?ET = Normal (state_of ?ET)"
    by (simp add: run_defs metric_defs toy_defs noisy_def numeral_2_eq_2)
  have k0: "keys ?S0 = {}" "keys ?T0 = {}"
    by (simp_all add: keys_def initial_state_def)
  have dT: "dropout ?cfgT" and dS: "\<not> dropout toy_config"
    by (simp_all add: toy_config_def)
  have nd: "\<not> startswith (input_json_filename toy_config) ''demo''"
    and sd: "model_save_dir toy_config = None"
    and dd: "startswith (input_json_filename ?cfgD) ''demo''"
    by (simp_all add: toy_config_def startswith_def)
  note a_guard = a [THEN conjunct1]
  note a_warned = a [THEN conjunct2, THEN conjunct1]
  note a_skipped = a [THEN conjunct2, THEN conjunct2, THEN conjunct1]
  note a_undefined = a [THEN conjunct2, THEN conjunct2, THEN conjunct2, THEN conjunct1]
  note a_deterministic = a [THEN conjunct2, THEN conjunct2, THEN conjunct2, THEN conjunct2, THEN conjunct2, THEN conjunct1]
  note a_followed = a [THEN conjunct2, THEN conjunct2, THEN conjunct2, THEN conjunct2, THEN conjunct2, THEN conjunct2, THEN conjunct1]
  note a_written = a [THEN conjunct2, THEN conjunct2, THEN conjunct2, THEN conjunct2, THEN conjunct2, THEN conjunct2, THEN conjunct2, THEN conjunct1]
  note t_stochastic = t [THEN conjunct2, THEN conjunct2, THEN conjunct2, THEN conjunct2, THEN conjunct1]
  note d_demo = d [THEN conjunct2, THEN conjunct2, THEN conjunct2, THEN conjunct2, THEN conjunct2, THEN conjunct2, THEN conjunct2, THEN conjunct2, THEN conjunct1]
  note b_other1 = b [THEN conjunct2, THEN conjunct2, THEN conjunct2, THEN conjunct2, THEN conjunct2, THEN conjunct2, THEN conjunct2, THEN conjunct2, THEN conjunct2, THEN conjunct1]
  note b_other3 = b [THEN conjunct2, THEN conjunct2, THEN conjunct2, THEN conjunct2, THEN conjunct2, THEN conjunct2, THEN conjunct2, THEN conjunct2, THEN conjunct2, THEN conjunct2, THEN conjunct2, THEN conjunct1]
  note b_other4 = b [THEN conjunct2, THEN conjunct2, THEN conjunct2, THEN conjunct2, THEN conjunct2, THEN conjunct2, THEN conjunct2, THEN conjunct2, THEN conjunct2, THEN conjunct2, THEN conjunct2, THEN conjunct2]
  note c_other2 = c [THEN conjunct2, THEN conjunct2, THEN conjunct2, THEN conjunct2, THEN conjunct2, THEN conjunct2, THEN conjunct2, THEN conjunct2, THEN conjunct2, THEN conjunct2, THEN conjunct1]
  from a_guard m have 1: "try_load_grids step_counter toy_config ?S0
      = Normal (emit (Warn GridsMissing) ?S0)"
    using self by simp
  note a_warned [THEN mp, OF conjI [OF disjI1 [OF m] p0], THEN conjunct2]
  then have 2: "effects (state_of ?E) = [Warn GridsMissing]" by (simp add: initial_state_def)
  from a_skipped n0 have 3: "try_grid_metrics step_counter toy_config True False ?S0 = Normal ?S0"
    by simp
  note u = a_undefined [THEN conjunct2, THEN mp, OF conjI [OF disjI1 [OF m] n0], THEN conjunct2]
  have sto: "(data_interpolary_grid ?cfgT = None \<or> data_extrapolary_grid ?cfgT = None)
       \<and> predictions_on_extrapolary_grid ?T0 = None
       \<and> ?ET = Normal (state_of ?ET) \<and> dropout ?cfgT"
    by (rule conjI [OF disjI1 [OF mT] conjI [OF nT conjI [OF eT dT]]])
  note kT = t_stochastic [THEN mp, OF sto, unfolded k0 Un_empty_left]
  note kS = a_deterministic [THEN mp, OF conjI [OF e0 dS], unfolded k0 Un_empty_left]
  note 4 = a_followed [THEN mp, OF conjI [OF e0 conjI [OF f0 t0]]]
  note wr = a_written [THEN mp, OF nd]
  note wr1 = wr [THEN conjunct1]
  have wr2: "keys (save_results step_counter toy_config (state_of ?E))
     = {''n_epochs'', ''compute_time'', ''val_loss_curve'', ''train_loss_curve''}
         \<union> {''METRIC_rmse'', ''METRIC_mae'', ''METRIC_max_norm''} \<union> {''filname''}"
    using wr [THEN conjunct2, THEN conjunct2] unfolding kS sd by simp
  have ef: "effects (state_of (checkpoint_body step_counter toy_config 0 ?S0))
     = [Warn GridsMissing,
        DictToJson
          [(''n_epochs'', PFloat 0), (''compute_time'', PFloat 0),
           (''val_loss_curve'', PList []), (''train_loss_curve'', PList []),
           (''METRIC_rmse'', PFloat 0), (''METRIC_mae'', PFloat 0),
           (''METRIC_max_norm'', PFloat 0), (''filname'', PStr ''out.json'')]
          ''out.json'']"
    by (simp add: run_defs toy_defs)
  note dm = d_demo [THEN mp, OF dd]
  have lg: "load_grids faulty grids_config ?G0 = Raised RuntimeError ?G1
            \<and> RuntimeError \<noteq> AttributeError"
    by (simp add: load_grids_def predict_def faulty_defs toy_defs initial_state_def)
  note 5 = b_other1 [THEN mp, OF lg]
  have pg: "predict faulty grids_config False (x_test grids_config) (world ?G0)
            = (Inr (Point [0]), 0)"
    by (simp add: predict_def faulty_defs toy_defs initial_state_def)
  have wg: "?G0\<lparr>world := 0\<rparr> = ?G0" by (simp add: initial_state_def)
  from b_other3 pg 5 have 6: "evaluate faulty grids_config ?G0 = Raised RuntimeError ?G1"
    using wg by simp
  have fg: "\<not> decided_to_stop_early ?G0" by (simp add: initial_state_def)
  have tg: "train_to_checkpoint faulty grids_config 0 ?G0 = Normal ?G0"
    by (simp add: train_to_checkpoint_def py_range_def initial_state_def)
  note 7 = b_other4 [THEN mp, OF conjI [OF fg conjI [OF tg 6]]]
  have gm: "grid_metrics faulty grids_config True False ?G2 = Raised ZeroDivisionError ?G2
            \<and> ZeroDivisionError \<noteq> NameError"
    by (simp add: grid_metrics_def assign_metric_pair_def faulty_defs toy_defs
        initial_state_def)
  note 8 = c_other2 [THEN mp, OF gm]
  show ?thesis
    by (rule conjI [OF 1 conjI [OF 2 conjI [OF 3 conjI [OF u conjI [OF kT conjI [OF kS
          conjI [OF 4 conjI [OF wr1 conjI [OF wr2 conjI [OF ef conjI [OF dm conjI [OF 5
          conjI [OF 6 conjI [OF 7 8]]]]]]]]]]]]]])
qed

text \<open>The warning is not a one-time warning of the run. The toy run with the checkpoints
  1 and 2 and a data module without grids warns twice, once in each of its two checkpoint
  evaluations: its four effects are a warning and a written record per checkpoint.\<close>

theorem warned_at_every_checkpoint_counterexample:
  "train_nn step_counter toy_config [] 0
     = Normal (state_of (train_nn step_counter toy_config [] 0))
   \<and> count_list (effects (state_of (train_nn step_counter toy_config [] 0))) (Warn GridsMissing) = 2
   \<and> length (effects (state_of (train_nn step_counter toy_config [] 0))) = 4
   \<and> effects (state_of (train_nn step_counter toy_config [] 0)) ! 0 = Warn GridsMissing
   \<and> effects (state_of (train_nn step_counter toy_config [] 0)) ! 2 = Warn GridsMissing
   \<and> N_EPOCHS toy_config = PList [PInt 1, PInt 2]"
  by (simp add: run_defs toy_defs)


end
